theory Spec2Isabelle
  imports Complex_Main
begin

section \<open>Go's machine integers and strings\<close>

text \<open>
  Go's \<^verbatim>\<open>int\<close> and \<^verbatim>\<open>int64\<close> are modelled as HOL integers that stay in the 64-bit
  two's-complement range (the width of \<^verbatim>\<open>int\<close> on amd64 and arm64): every arithmetic
  result of the source is passed through \<open>wrap64\<close>, which is the identity on the
  range and wraps around outside it, as Go's \<^verbatim>\<open>+\<close>, \<^verbatim>\<open>-\<close> and unary minus do.
\<close>

definition in_int64 :: "int \<Rightarrow> bool" where
  "in_int64 x \<longleftrightarrow> - (2 ^ 63) \<le> x \<and> x < 2 ^ 63"

definition wrap64 :: "int \<Rightarrow> int" where
  "wrap64 x = (x + 2 ^ 63) mod 2 ^ 64 - 2 ^ 63"

text \<open>Go's integer division truncates towards zero (HOL's \<open>div\<close> rounds down).\<close>

definition quo :: "int \<Rightarrow> int \<Rightarrow> int" where
  "quo a b = wrap64 (sgn a * sgn b * (\<bar>a\<bar> div \<bar>b\<bar>))"

text \<open>
  The conversion \<^verbatim>\<open>int(f)\<close> of a \<^verbatim>\<open>float64\<close> drops the fraction. A JSON number decodes
  to a finite \<^verbatim>\<open>float64\<close>, which is a real number. Outside the integer range Go leaves
  the result to the implementation; the model returns the smallest integer there, as
  amd64 does.
\<close>

definition int_of_float64 :: "real \<Rightarrow> int" where
  "int_of_float64 f =
     (let t = (if 0 \<le> f then \<lfloor>f\<rfloor> else \<lceil>f\<rceil>)
      in if in_int64 t then t else - (2 ^ 63))"

text \<open>
  Strings are byte sequences. \<open>isDigit\<close> is the class \<^verbatim>\<open>\d\<close> of Go's regular
  expressions (ASCII digits only).
\<close>

definition isDigit :: "char \<Rightarrow> bool" where
  "isDigit c \<longleftrightarrow> c \<in> set ''0123456789''"

definition digitVal :: "char \<Rightarrow> int" where
  "digitVal c = int (of_char c) - 48"

definition decimal :: "string \<Rightarrow> int" where
  "decimal ds = foldl (\<lambda>acc c. acc * 10 + digitVal c) 0 ds"

text \<open>
  \<^verbatim>\<open>strconv.Atoi\<close>: an optional sign and decimal digits; \<open>None\<close> is the error it
  returns on a syntax error or when the value does not fit \<^verbatim>\<open>int\<close>.
\<close>

definition Atoi :: "string \<Rightarrow> int option" where
  "Atoi s =
     (let (neg, ds) = (case s of
                         c # r \<Rightarrow> if c = CHR ''+'' then (False, r)
                                  else if c = CHR ''-'' then (True, r) else (False, s)
                       | [] \<Rightarrow> (False, s))
      in if ds = [] \<or> \<not> list_all isDigit ds then None
         else let v = (if neg then - decimal ds else decimal ds)
              in if in_int64 v then Some v else None)"

text \<open>
  \<^verbatim>\<open>strings.TrimSpace\<close> removes the leading and the trailing white space, as Unicode
  defines it; \<open>spaceRunes\<close> lists the UTF-8 encodings of the white-space code points.
\<close>

definition spaceRunes :: "string list" where
  "spaceRunes =
     [[CHR 0x09], [CHR 0x0A], [CHR 0x0B], [CHR 0x0C], [CHR 0x0D], [CHR 0x20],
      [CHR 0xC2, CHR 0x85], [CHR 0xC2, CHR 0xA0], [CHR 0xE1, CHR 0x9A, CHR 0x80],
      [CHR 0xE2, CHR 0x80, CHR 0x80], [CHR 0xE2, CHR 0x80, CHR 0x81],
      [CHR 0xE2, CHR 0x80, CHR 0x82], [CHR 0xE2, CHR 0x80, CHR 0x83],
      [CHR 0xE2, CHR 0x80, CHR 0x84], [CHR 0xE2, CHR 0x80, CHR 0x85],
      [CHR 0xE2, CHR 0x80, CHR 0x86], [CHR 0xE2, CHR 0x80, CHR 0x87],
      [CHR 0xE2, CHR 0x80, CHR 0x88], [CHR 0xE2, CHR 0x80, CHR 0x89],
      [CHR 0xE2, CHR 0x80, CHR 0x8A], [CHR 0xE2, CHR 0x80, CHR 0xA8],
      [CHR 0xE2, CHR 0x80, CHR 0xA9], [CHR 0xE2, CHR 0x80, CHR 0xAF],
      [CHR 0xE2, CHR 0x81, CHR 0x9F], [CHR 0xE3, CHR 0x80, CHR 0x80]]"

function trimLeading :: "string list \<Rightarrow> string \<Rightarrow> string" where
  "trimLeading rs s =
     (case find (\<lambda>r. r \<noteq> [] \<and> take (length r) s = r) rs of
        None \<Rightarrow> s
      | Some r \<Rightarrow> trimLeading rs (drop (length r) s))"
  by pat_completeness auto
termination
proof (relation "measure (\<lambda>(rs, s). length s)")
  show "wf (measure (\<lambda>(rs, s). length s))" by simp
next
  fix rs :: "string list" and s r :: string
  assume "find (\<lambda>r. r \<noteq> [] \<and> take (length r) s = r) rs = Some r"
  then have r: "r \<noteq> []" "take (length r) s = r"
    by (auto simp: find_Some_iff)
  then have "s \<noteq> []" by auto
  with r show "((rs, drop (length r) s), (rs, s)) \<in> measure (\<lambda>(rs, s). length s)"
    by (cases r) auto
qed

definition TrimSpace :: "string \<Rightarrow> string" where
  "TrimSpace s = rev (trimLeading (map rev spaceRunes) (rev (trimLeading spaceRunes s)))"

text \<open>
  \<^verbatim>\<open>strings.ToLower\<close> and \<^verbatim>\<open>strings.ToUpper\<close>, on the ASCII letters and on the four
  code points beyond ASCII that fold to an ASCII letter (U+212A and U+0130 to lower
  case, U+0131 and U+017F to upper case). Go also folds the other letters beyond
  ASCII, to letters beyond ASCII: a string holding one of them matches neither the
  dice grammar nor an ability name, before and after folding.
\<close>

definition lowerChar :: "char \<Rightarrow> char" where
  "lowerChar c =
     (if c \<in> set ''ABCDEFGHIJKLMNOPQRSTUVWXYZ'' then char_of (of_char c + (32::nat)) else c)"

definition upperChar :: "char \<Rightarrow> char" where
  "upperChar c =
     (if c \<in> set ''abcdefghijklmnopqrstuvwxyz'' then char_of (of_char c - (32::nat)) else c)"

fun ToLower :: "string \<Rightarrow> string" where
  "ToLower (a # b # c # s) =
     (if a = CHR 0xE2 \<and> b = CHR 0x84 \<and> c = CHR 0xAA then CHR ''k'' # ToLower s
      else if a = CHR 0xC4 \<and> b = CHR 0xB0 then CHR ''i'' # ToLower (c # s)
      else lowerChar a # ToLower (b # c # s))"
| "ToLower [a, b] =
     (if a = CHR 0xC4 \<and> b = CHR 0xB0 then ''i'' else [lowerChar a, lowerChar b])"
| "ToLower [a] = [lowerChar a]"
| "ToLower [] = []"

fun ToUpper :: "string \<Rightarrow> string" where
  "ToUpper (a # b # s) =
     (if a = CHR 0xC4 \<and> b = CHR 0xB1 then CHR ''I'' # ToUpper s
      else if a = CHR 0xC5 \<and> b = CHR 0xBF then CHR ''S'' # ToUpper s
      else upperChar a # ToUpper (b # s))"
| "ToUpper [a] = [upperChar a]"
| "ToUpper [] = []"

section \<open>The dice engine (internal/engine/dice.go)\<close>

record DiceRoll =
  Notation :: string
  NumDice :: int
  DiceSides :: int
  DiceRoll_Modifier :: int
  Rolls :: "int list"
  Total :: int

text \<open>
  \<^verbatim>\<open>diceRegex.FindStringSubmatch\<close> for the expression
  \<^verbatim>\<open>^(\d+)?d(\d+)([+-]\d+)?$\<close>: the three groups of the match, an unmatched optional
  group being the empty string, or \<open>None\<close> when the string does not match. The letter
  \<^verbatim>\<open>d\<close> is no digit, so the longest run of leading digits is the only candidate for
  the first group.
\<close>

definition FindStringSubmatch :: "string \<Rightarrow> (string \<times> string \<times> string) option" where
  "FindStringSubmatch s =
     (let m1 = takeWhile isDigit s; r1 = dropWhile isDigit s in
      case r1 of
        [] \<Rightarrow> None
      | c # r2 \<Rightarrow>
          if c \<noteq> CHR ''d'' then None
          else let m2 = takeWhile isDigit r2; m3 = dropWhile isDigit r2 in
            if m2 = [] then None
            else (case m3 of
                    [] \<Rightarrow> Some (m1, m2, [])
                  | sg # ds \<Rightarrow>
                      if (sg = CHR ''+'' \<or> sg = CHR ''-'') \<and> ds \<noteq> [] \<and> list_all isDigit ds
                      then Some (m1, m2, m3) else None))"

datatype dice_error =
    InvalidNotation string
  | InvalidNumDice string
  | InvalidSides string
  | InvalidModifier string
  | NumDiceOutOfRange
  | SidesOutOfRange

definition ParseDice :: "string \<Rightarrow> dice_error + DiceRoll" where
  "ParseDice notation0 =
     (let notation = ToLower (TrimSpace notation0) in
      case FindStringSubmatch notation of
        None \<Rightarrow> Inl (InvalidNotation notation)
      | Some (m1, m2, m3) \<Rightarrow>
          (case (if m1 \<noteq> [] then Atoi m1 else Some 1) of
             None \<Rightarrow> Inl (InvalidNumDice m1)
           | Some numDice \<Rightarrow>
               (case Atoi m2 of
                  None \<Rightarrow> Inl (InvalidSides m2)
                | Some diceSides \<Rightarrow>
                    (case (if m3 \<noteq> [] then Atoi m3 else Some 0) of
                       None \<Rightarrow> Inl (InvalidModifier m3)
                     | Some modifier \<Rightarrow>
                         if numDice < 1 \<or> numDice > 100 then Inl NumDiceOutOfRange
                         else if diceSides < 1 \<or> diceSides > 1000 then Inl SidesOutOfRange
                         else Inr \<lparr>Notation = notation, NumDice = numDice,
                                   DiceSides = diceSides, DiceRoll_Modifier = modifier,
                                   Rolls = [], Total = 0\<rparr>))))"

text \<open>
  A random source is the sequence of raw numbers it will produce. \<^verbatim>\<open>Intn(n)\<close> draws
  the next one, reduced to \<open>[0, n)\<close>, and panics (\<open>None\<close>) when \<open>n \<le> 0\<close>. Every
  sequence of results that \<^verbatim>\<open>Intn\<close> can return arises from some raw sequence.
\<close>

type_synonym rng = "nat \<Rightarrow> nat"

definition Intn :: "rng \<Rightarrow> int \<Rightarrow> (int \<times> rng) option" where
  "Intn g n = (if n \<le> 0 then None else Some (int (g 0) mod n, \<lambda>i. g (Suc i)))"

text \<open>
  The loop of \<^verbatim>\<open>DiceRoll.Roll\<close> and of \<^verbatim>\<open>Roller.Roll\<close>, by the number of dice still
  to roll: it stores each roll in order and adds it to the running sum.
\<close>

fun rollLoop :: "nat \<Rightarrow> int \<Rightarrow> int list \<Rightarrow> int \<Rightarrow> rng \<Rightarrow> (int list \<times> int \<times> rng) option" where
  "rollLoop 0 sides rolls acc g = Some (rolls, acc, g)"
| "rollLoop (Suc k) sides rolls acc g =
     (case Intn g sides of
        None \<Rightarrow> None
      | Some (r, g') \<Rightarrow>
          let roll = wrap64 (r + 1) in rollLoop k sides (rolls @ [roll]) (wrap64 (acc + roll)) g')"

text \<open>
  \<^verbatim>\<open>DiceRoll.Roll\<close>: \<^verbatim>\<open>make\<close> panics on a negative length; the previous rolls and total
  are replaced.
\<close>

definition DiceRoll_Roll :: "DiceRoll \<Rightarrow> rng \<Rightarrow> (DiceRoll \<times> rng) option" where
  "DiceRoll_Roll dr g =
     (if NumDice dr < 0 then None
      else case rollLoop (nat (NumDice dr)) (DiceSides dr) [] 0 g of
             None \<Rightarrow> None
           | Some (rolls, acc, g') \<Rightarrow>
               Some (dr\<lparr>Rolls := rolls, Total := wrap64 (acc + DiceRoll_Modifier dr)\<rparr>, g'))"

text \<open>\<^verbatim>\<open>Roller.Roll\<close>: parse, then roll with the roller's own source.\<close>

definition Roller_Roll :: "rng \<Rightarrow> string \<Rightarrow> dice_error + (DiceRoll \<times> rng) option" where
  "Roller_Roll g notation =
     (case ParseDice notation of
        Inl err \<Rightarrow> Inl err
      | Inr roll \<Rightarrow>
          Inr (if NumDice roll < 0 then None
               else case rollLoop (nat (NumDice roll)) (DiceSides roll) [] 0 g of
                      None \<Rightarrow> None
                    | Some (rolls, acc, g') \<Rightarrow>
                        Some (roll\<lparr>Rolls := rolls,
                                   Total := wrap64 (acc + DiceRoll_Modifier roll)\<rparr>, g')))"

text \<open>\<^verbatim>\<open>RollDice\<close>, \<^verbatim>\<open>Roll\<close>, \<^verbatim>\<open>RollD20\<close> and \<^verbatim>\<open>RollD20WithMod\<close>, on the shared source.\<close>

definition RollDice :: "string \<Rightarrow> rng \<Rightarrow> dice_error + (DiceRoll \<times> rng) option" where
  "RollDice notation g =
     (case ParseDice notation of
        Inl err \<Rightarrow> Inl err
      | Inr roll \<Rightarrow> Inr (DiceRoll_Roll roll g))"

section \<open>Formatting (fmt.Sprintf, strconv.Itoa, strings.Join)\<close>

fun natDigits :: "nat \<Rightarrow> string" where
  "natDigits n =
     (if n < 10 then [char_of (48 + n)]
      else natDigits (n div 10) @ [char_of (48 + n mod 10)])"

declare natDigits.simps [simp del]

definition Itoa :: "int \<Rightarrow> string" where
  "Itoa i = (if i < 0 then CHR ''-'' # natDigits (nat (- i)) else natDigits (nat i))"

text \<open>The verb \<^verbatim>\<open>%+d\<close>: the sign is always written.\<close>

definition fmtSigned :: "int \<Rightarrow> string" where
  "fmtSigned i = (if i < 0 then Itoa i else CHR ''+'' # Itoa i)"

fun Join :: "string list \<Rightarrow> string \<Rightarrow> string" where
  "Join [] sep = []"
| "Join [x] sep = x"
| "Join (x # y # ys) sep = x @ sep @ Join (y # ys) sep"

text \<open>The verb \<^verbatim>\<open>%v\<close> on a slice: the elements between brackets, separated by spaces.\<close>

definition fmtInts :: "int list \<Rightarrow> string" where
  "fmtInts xs = ''['' @ Join (map Itoa xs) '' '' @ '']''"

definition fmtStrings :: "string list \<Rightarrow> string" where
  "fmtStrings xs = ''['' @ Join xs '' '' @ '']''"

text \<open>\<^verbatim>\<open>DiceRoll.String\<close>, \<^verbatim>\<open>ResultString\<close>, \<^verbatim>\<open>IsCriticalHit\<close>, \<^verbatim>\<open>IsCriticalFail\<close>.\<close>

definition DiceRoll_String :: "DiceRoll \<Rightarrow> string" where
  "DiceRoll_String dr =
     (if DiceRoll_Modifier dr > 0
      then Itoa (NumDice dr) @ ''d'' @ Itoa (DiceSides dr) @ ''+'' @ Itoa (DiceRoll_Modifier dr)
      else if DiceRoll_Modifier dr < 0
      then Itoa (NumDice dr) @ ''d'' @ Itoa (DiceSides dr) @ Itoa (DiceRoll_Modifier dr)
      else Itoa (NumDice dr) @ ''d'' @ Itoa (DiceSides dr))"

definition ResultString :: "DiceRoll \<Rightarrow> string" where
  "ResultString dr =
     (let rollsStr = map Itoa (Rolls dr) in
      if DiceRoll_Modifier dr \<noteq> 0
      then ''['' @ Join rollsStr ''+'' @ '']'' @ fmtSigned (DiceRoll_Modifier dr) @ '' = ''
             @ Itoa (Total dr)
      else ''['' @ Join rollsStr ''+'' @ ''] = '' @ Itoa (Total dr))"

definition IsCriticalHit :: "DiceRoll \<Rightarrow> bool" where
  "IsCriticalHit dr \<longleftrightarrow>
     NumDice dr = 1 \<and> DiceSides dr = 20 \<and> length (Rolls dr) > 0 \<and> hd (Rolls dr) = 20"

definition IsCriticalFail :: "DiceRoll \<Rightarrow> bool" where
  "IsCriticalFail dr \<longleftrightarrow>
     NumDice dr = 1 \<and> DiceSides dr = 20 \<and> length (Rolls dr) > 0 \<and> hd (Rolls dr) = 1"

definition Roll :: "int \<Rightarrow> int \<Rightarrow> int \<Rightarrow> rng \<Rightarrow> (DiceRoll \<times> rng) option" where
  "Roll numDice diceSides modifier g =
     (let dr = \<lparr>Notation = [], NumDice = numDice, DiceSides = diceSides,
                 DiceRoll_Modifier = modifier, Rolls = [], Total = 0\<rparr>
      in DiceRoll_Roll (dr\<lparr>Notation := DiceRoll_String dr\<rparr>) g)"

definition RollD20 :: "rng \<Rightarrow> (DiceRoll \<times> rng) option" where
  "RollD20 g = Roll 1 20 0 g"

definition RollD20WithMod :: "int \<Rightarrow> rng \<Rightarrow> (DiceRoll \<times> rng) option" where
  "RollD20WithMod modifier g = Roll 1 20 modifier g"

text \<open>
  \<^verbatim>\<open>RollAbilityScore\<close>: four draws of \<^verbatim>\<open>Intn(6) + 1\<close>; the index of the lowest die,
  moved only by a strictly smaller one; the sum and the list of the other dice.
\<close>

definition minIndex :: "int list \<Rightarrow> nat" where
  "minIndex rolls =
     foldl (\<lambda>minIdx i. if rolls ! i < rolls ! minIdx then i else minIdx) 0 [0..<length rolls]"

definition keepOthers :: "int list \<Rightarrow> nat \<Rightarrow> int \<times> int list" where
  "keepOthers rolls minIdx =
     foldl (\<lambda>(acc, kept) i.
              if i \<noteq> minIdx then (wrap64 (acc + rolls ! i), kept @ [rolls ! i]) else (acc, kept))
       (0, []) [0..<length rolls]"

fun drawLoop :: "nat \<Rightarrow> int \<Rightarrow> int list \<Rightarrow> rng \<Rightarrow> (int list \<times> rng) option" where
  "drawLoop 0 sides rolls g = Some (rolls, g)"
| "drawLoop (Suc k) sides rolls g =
     (case Intn g sides of
        None \<Rightarrow> None
      | Some (r, g') \<Rightarrow> drawLoop k sides (rolls @ [wrap64 (r + 1)]) g')"

definition RollAbilityScore :: "rng \<Rightarrow> (DiceRoll \<times> rng) option" where
  "RollAbilityScore g =
     (case drawLoop 4 6 [] g of
        None \<Rightarrow> None
      | Some (rolls, g') \<Rightarrow>
          let minIdx = minIndex rolls; (acc, kept) = keepOthers rolls minIdx
          in Some (\<lparr>Notation = ''4d6 drop lowest'', NumDice = 4, DiceSides = 6,
                     DiceRoll_Modifier = 0, Rolls = kept, Total = acc\<rparr>, g'))"

section \<open>The character (package domain)\<close>

text \<open>
  \<^verbatim>\<open>Ability\<close> is an integer type with the six constants 0 to 5; \<^verbatim>\<open>Get\<close> answers 10 for
  any other value.
\<close>

type_synonym Ability = int

definition STR_Ability :: Ability where "STR_Ability = 0"
definition DEX_Ability :: Ability where "DEX_Ability = 1"
definition CON_Ability :: Ability where "CON_Ability = 2"
definition INT_Ability :: Ability where "INT_Ability = 3"
definition WIS_Ability :: Ability where "WIS_Ability = 4"
definition CHA_Ability :: Ability where "CHA_Ability = 5"

record AbilityScores =
  Score_STR :: int
  Score_DEX :: int
  Score_CON :: int
  Score_INT :: int
  Score_WIS :: int
  Score_CHA :: int

definition Get :: "AbilityScores \<Rightarrow> Ability \<Rightarrow> int" where
  "Get a ability =
     (if ability = STR_Ability then Score_STR a
      else if ability = DEX_Ability then Score_DEX a
      else if ability = CON_Ability then Score_CON a
      else if ability = INT_Ability then Score_INT a
      else if ability = WIS_Ability then Score_WIS a
      else if ability = CHA_Ability then Score_CHA a
      else 10)"

definition Modifier :: "int \<Rightarrow> int" where
  "Modifier score = quo (wrap64 (score - 10)) 2"

definition ModifierString :: "int \<Rightarrow> string" where
  "ModifierString score =
     (let m = Modifier score in if m \<ge> 0 then ''+'' @ Itoa m else Itoa m)"

record Skill =
  Skill_Name :: string
  Skill_Ability :: Ability
  Proficient :: bool
  Expert :: bool

definition DefaultSkills :: "Skill list" where
  "DefaultSkills =
     map (\<lambda>(n, a). \<lparr>Skill_Name = n, Skill_Ability = a, Proficient = False, Expert = False\<rparr>)
       [(''Acrobatics'', DEX_Ability), (''Animal Handling'', WIS_Ability),
        (''Arcana'', INT_Ability), (''Athletics'', STR_Ability),
        (''Deception'', CHA_Ability), (''History'', INT_Ability),
        (''Insight'', WIS_Ability), (''Intimidation'', CHA_Ability),
        (''Investigation'', INT_Ability), (''Medicine'', WIS_Ability),
        (''Nature'', INT_Ability), (''Perception'', WIS_Ability),
        (''Performance'', CHA_Ability), (''Persuasion'', CHA_Ability),
        (''Religion'', INT_Ability), (''Sleight of Hand'', DEX_Ability),
        (''Stealth'', DEX_Ability), (''Survival'', WIS_Ability)]"

record InventoryItem =
  Item_Name :: string
  Quantity :: int
  Weight :: real
  Equipped :: bool

type_synonym Condition = string

record Character =
  Character_Name :: string
  Race :: string
  Class :: string
  Level :: int
  Background :: string
  Alignment :: string
  Abilities :: AbilityScores
  MaxHP :: int
  CurrentHP :: int
  TempHP :: int
  AC :: int
  Initiative :: int
  Speed :: int
  ProficiencyBonus :: int
  Skills :: "Skill list"
  Inventory :: "InventoryItem list"
  Conditions :: "Condition list"
  Gold :: int
  XP :: int
  Notes :: string

definition NewCharacter :: "string \<Rightarrow> string \<Rightarrow> string \<Rightarrow> Character" where
  "NewCharacter name race cls =
     \<lparr>Character_Name = name, Race = race, Class = cls, Level = 1,
      Background = ''Adventurer'', Alignment = ''Neutral'',
      Abilities = \<lparr>Score_STR = 10, Score_DEX = 10, Score_CON = 10, Score_INT = 10,
                   Score_WIS = 10, Score_CHA = 10\<rparr>,
      MaxHP = 10, CurrentHP = 10, TempHP = 0, AC = 10, Initiative = 0, Speed = 30,
      ProficiencyBonus = 2, Skills = DefaultSkills, Inventory = [], Conditions = [],
      Gold = 0, XP = 0, Notes = []\<rparr>"

text \<open>\<^verbatim>\<open>SkillBonus\<close>: the first skill of that name decides; 0 when there is none.\<close>

fun skillBonusLoop :: "Character \<Rightarrow> string \<Rightarrow> Skill list \<Rightarrow> int" where
  "skillBonusLoop c skillName [] = 0"
| "skillBonusLoop c skillName (skill # rest) =
     (if Skill_Name skill = skillName then
        (let bonus = Modifier (Get (Abilities c) (Skill_Ability skill)) in
         if Expert skill then wrap64 (bonus + wrap64 (ProficiencyBonus c * 2))
         else if Proficient skill then wrap64 (bonus + ProficiencyBonus c)
         else bonus)
      else skillBonusLoop c skillName rest)"

definition SkillBonus :: "Character \<Rightarrow> string \<Rightarrow> int" where
  "SkillBonus c skillName = skillBonusLoop c skillName (Skills c)"

text \<open>
  \<^verbatim>\<open>AddItem\<close> adds the quantity to the first stack of that name, or appends the item.
  \<^verbatim>\<open>RemoveItem\<close> finds the first stack of that name: it deletes the stack when its
  quantity is at most the requested one, and subtracts otherwise; it answers whether
  a stack was found.
\<close>

fun addItemLoop :: "InventoryItem list \<Rightarrow> InventoryItem \<Rightarrow> InventoryItem list" where
  "addItemLoop [] item = [item]"
| "addItemLoop (existing # rest) item =
     (if Item_Name existing = Item_Name item
      then existing\<lparr>Quantity := wrap64 (Quantity existing + Quantity item)\<rparr> # rest
      else existing # addItemLoop rest item)"

definition AddItem :: "Character \<Rightarrow> InventoryItem \<Rightarrow> Character" where
  "AddItem c item = c\<lparr>Inventory := addItemLoop (Inventory c) item\<rparr>"

fun removeItemLoop :: "InventoryItem list \<Rightarrow> string \<Rightarrow> int \<Rightarrow> InventoryItem list \<times> bool" where
  "removeItemLoop [] name quantity = ([], False)"
| "removeItemLoop (item # rest) name quantity =
     (if Item_Name item = name then
        (if Quantity item \<le> quantity then (rest, True)
         else (item\<lparr>Quantity := wrap64 (Quantity item - quantity)\<rparr> # rest, True))
      else (let (items, found) = removeItemLoop rest name quantity in (item # items, found)))"

definition RemoveItem :: "Character \<Rightarrow> string \<Rightarrow> int \<Rightarrow> Character \<times> bool" where
  "RemoveItem c name quantity =
     (let (items, found) = removeItemLoop (Inventory c) name quantity
      in (c\<lparr>Inventory := items\<rparr>, found))"

definition AddCondition :: "Character \<Rightarrow> Condition \<Rightarrow> Character" where
  "AddCondition c cond =
     (if cond \<in> set (Conditions c) then c else c\<lparr>Conditions := Conditions c @ [cond]\<rparr>)"

definition RemoveCondition :: "Character \<Rightarrow> Condition \<Rightarrow> Character" where
  "RemoveCondition c cond = c\<lparr>Conditions := remove1 cond (Conditions c)\<rparr>"

definition HasCondition :: "Character \<Rightarrow> Condition \<Rightarrow> bool" where
  "HasCondition c cond \<longleftrightarrow> cond \<in> set (Conditions c)"

text \<open>
  \<^verbatim>\<open>TakeDamage\<close>: \<open>reduceHP\<close> is its tail, the subtraction from the current hit points
  and the floor at 0.
\<close>

definition reduceHP :: "Character \<Rightarrow> int \<Rightarrow> Character" where
  "reduceHP c damage =
     (let c' = c\<lparr>CurrentHP := wrap64 (CurrentHP c - damage)\<rparr>
      in if CurrentHP c' < 0 then c'\<lparr>CurrentHP := 0\<rparr> else c')"

definition TakeDamage :: "Character \<Rightarrow> int \<Rightarrow> Character" where
  "TakeDamage c damage =
     (if TempHP c > 0 then
        (if damage \<le> TempHP c then c\<lparr>TempHP := wrap64 (TempHP c - damage)\<rparr>
         else reduceHP (c\<lparr>TempHP := 0\<rparr>) (wrap64 (damage - TempHP c)))
      else reduceHP c damage)"

definition Heal :: "Character \<Rightarrow> int \<Rightarrow> Character" where
  "Heal c amount =
     (let c1 = c\<lparr>CurrentHP := wrap64 (CurrentHP c + amount)\<rparr>
      in if CurrentHP c1 > MaxHP c1 then c1\<lparr>CurrentHP := MaxHP c1\<rparr> else c1)"

definition IsAlive :: "Character \<Rightarrow> bool" where
  "IsAlive c \<longleftrightarrow> CurrentHP c > 0"

definition Character_Summary :: "Character \<Rightarrow> string" where
  "Character_Summary c =
     Character_Name c @ '' - Level '' @ Itoa (Level c) @ '' '' @ Race c @ '' '' @ Class c
       @ '' | HP: '' @ Itoa (CurrentHP c) @ ''/'' @ Itoa (MaxHP c) @ '' | AC: '' @ Itoa (AC c)"

section \<open>World, conversation, event log and session (package domain)\<close>

text \<open>
  Time stamps (\<^verbatim>\<open>Timestamp\<close>, \<^verbatim>\<open>CreatedAt\<close>, \<^verbatim>\<open>UpdatedAt\<close>, \<^verbatim>\<open>PlayTime\<close>) are left out
  of the records: they are written from the wall clock and never read by the engine.
  So are the maps of the world that the engine never touches (\<^verbatim>\<open>NPCs\<close>, \<^verbatim>\<open>Flags\<close>,
  \<^verbatim>\<open>Variables\<close>) and the field \<^verbatim>\<open>ToolCalls\<close> of a message of the conversation, which
  no function sets or reads.
\<close>

record Location =
  Location_Name :: string
  Location_Description :: string
  Exits :: "string list"

record Quest =
  Quest_ID :: string
  Quest_Name :: string
  Quest_Description :: string
  Quest_Status :: string
  Giver :: string

record WorldState =
  Setting :: string
  CurrentLocation :: Location
  TimeOfDay :: string
  Weather :: string
  DayNumber :: int
  Quests :: "Quest list"
  MemorySummary :: string

definition NewWorldState :: "string \<Rightarrow> WorldState" where
  "NewWorldState setting =
     \<lparr>Setting = setting,
      CurrentLocation = \<lparr>Location_Name = ''Unknown'',
         Location_Description = ''You find yourself in an unfamiliar place...'', Exits = []\<rparr>,
      TimeOfDay = ''morning'', Weather = [], DayNumber = 1, Quests = [], MemorySummary = []\<rparr>"

definition AddQuest :: "WorldState \<Rightarrow> Quest \<Rightarrow> WorldState" where
  "AddQuest w quest = w\<lparr>Quests := Quests w @ [quest]\<rparr>"

fun updateQuestLoop :: "Quest list \<Rightarrow> string \<Rightarrow> string \<Rightarrow> Quest list \<times> bool" where
  "updateQuestLoop [] questID status = ([], False)"
| "updateQuestLoop (q # rest) questID status =
     (if Quest_ID q = questID then (q\<lparr>Quest_Status := status\<rparr> # rest, True)
      else (let (qs, found) = updateQuestLoop rest questID status in (q # qs, found)))"

definition UpdateQuestStatus :: "WorldState \<Rightarrow> string \<Rightarrow> string \<Rightarrow> WorldState \<times> bool" where
  "UpdateQuestStatus w questID status =
     (let (qs, found) = updateQuestLoop (Quests w) questID status in (w\<lparr>Quests := qs\<rparr>, found))"

definition GetActiveQuests :: "WorldState \<Rightarrow> Quest list" where
  "GetActiveQuests w =
     filter (\<lambda>q. Quest_Status q = ''active'' \<or> Quest_Status q = ''in_progress'') (Quests w)"

definition SetLocation :: "WorldState \<Rightarrow> Location \<Rightarrow> WorldState" where
  "SetLocation w loc = w\<lparr>CurrentLocation := loc\<rparr>"

text \<open>
  The conversation and the event log are bounded: \<^verbatim>\<open>Add\<close> appends and then keeps the
  last \<^verbatim>\<open>MaxSize\<close> entries by the slice expression \<^verbatim>\<open>xs[len(xs)-MaxSize:]\<close>, which
  panics (\<open>None\<close>) when \<^verbatim>\<open>MaxSize\<close> is negative.
\<close>

definition keepLast :: "'a list \<Rightarrow> int \<Rightarrow> 'a list option" where
  "keepLast xs maxSize =
     (if int (length xs) > maxSize
      then (if maxSize < 0 then None else Some (drop (length xs - nat maxSize) xs))
      else Some xs)"

definition RoleUser :: string where "RoleUser = ''user''"
definition RoleAssistant :: string where "RoleAssistant = ''assistant''"
definition RoleSystem :: string where "RoleSystem = ''system''"
definition RoleTool :: string where "RoleTool = ''tool''"

record Message =
  Message_ID :: string
  Message_Role :: string
  Message_Content :: string
  Message_Name :: string
  Message_ToolCallID :: string

record Conversation =
  Messages :: "Message list"
  Conversation_MaxSize :: int

definition NewConversation :: "int \<Rightarrow> Conversation" where
  "NewConversation maxSize =
     \<lparr>Messages = [], Conversation_MaxSize = (if maxSize \<le> 0 then 50 else maxSize)\<rparr>"

definition Conversation_Add :: "Conversation \<Rightarrow> Message \<Rightarrow> Conversation option" where
  "Conversation_Add c msg =
     (case keepLast (Messages c @ [msg]) (Conversation_MaxSize c) of
        None \<Rightarrow> None
      | Some ms \<Rightarrow> Some (c\<lparr>Messages := ms\<rparr>))"

definition newMessage :: "string \<Rightarrow> string \<Rightarrow> Message" where
  "newMessage role content =
     \<lparr>Message_ID = [], Message_Role = role, Message_Content = content, Message_Name = [],
      Message_ToolCallID = []\<rparr>"

definition AddUserMessage :: "Conversation \<Rightarrow> string \<Rightarrow> Conversation option" where
  "AddUserMessage c content = Conversation_Add c (newMessage RoleUser content)"

definition AddAssistantMessage :: "Conversation \<Rightarrow> string \<Rightarrow> Conversation option" where
  "AddAssistantMessage c content = Conversation_Add c (newMessage RoleAssistant content)"

definition AddSystemMessage :: "Conversation \<Rightarrow> string \<Rightarrow> Conversation option" where
  "AddSystemMessage c content = Conversation_Add c (newMessage RoleSystem content)"

datatype event_value = VInt int | VString string | VBool bool | VInts "int list"

record Event =
  Event_Type :: string
  Event_Message :: string
  Data :: "(string \<times> event_value) list"

definition NewEvent :: "string \<Rightarrow> string \<Rightarrow> Event" where
  "NewEvent eventType message = \<lparr>Event_Type = eventType, Event_Message = message, Data = []\<rparr>"

definition EventDiceRoll :: "string \<Rightarrow> int list \<Rightarrow> int \<Rightarrow> int \<Rightarrow> Event" where
  "EventDiceRoll notation rolls tot modifier =
     (NewEvent ''dice_roll''
        (''Rolled '' @ notation @ '': '' @ fmtInts rolls @ '' = '' @ Itoa tot))
     \<lparr>Data := [(''notation'', VString notation), (''rolls'', VInts rolls),
               (''total'', VInt tot), (''modifier'', VInt modifier)]\<rparr>"

definition EventHPChange :: "int \<Rightarrow> string \<Rightarrow> int \<Rightarrow> int \<Rightarrow> Event" where
  "EventHPChange delta reason currentHP maxHP =
     (NewEvent ''hp_change''
        (if delta > 0
         then ''Healed '' @ Itoa delta @ '' HP ('' @ reason @ '') ['' @ Itoa currentHP @ ''/''
                @ Itoa maxHP @ '']''
         else ''Took '' @ Itoa (wrap64 (- delta)) @ '' damage ('' @ reason @ '') [''
                @ Itoa currentHP @ ''/'' @ Itoa maxHP @ '']''))
     \<lparr>Data := [(''delta'', VInt delta), (''reason'', VString reason),
               (''current_hp'', VInt currentHP), (''max_hp'', VInt maxHP)]\<rparr>"

definition EventItemAdd :: "string \<Rightarrow> int \<Rightarrow> Event" where
  "EventItemAdd item quantity =
     (NewEvent ''item_add'' (''Added '' @ Itoa quantity @ ''x '' @ item @ '' to inventory''))
     \<lparr>Data := [(''item'', VString item), (''quantity'', VInt quantity)]\<rparr>"

definition EventItemRemove :: "string \<Rightarrow> int \<Rightarrow> Event" where
  "EventItemRemove item quantity =
     (NewEvent ''item_remove''
        (''Removed '' @ Itoa quantity @ ''x '' @ item @ '' from inventory''))
     \<lparr>Data := [(''item'', VString item), (''quantity'', VInt quantity)]\<rparr>"

definition EventConditionAdd :: "Condition \<Rightarrow> Event" where
  "EventConditionAdd condition = NewEvent ''condition_add'' (''Condition applied: '' @ condition)"

definition EventConditionRemove :: "Condition \<Rightarrow> Event" where
  "EventConditionRemove condition =
     NewEvent ''condition_remove'' (''Condition removed: '' @ condition)"

definition EventQuestAdd :: "string \<Rightarrow> Event" where
  "EventQuestAdd questName = NewEvent ''quest_add'' (''New quest: '' @ questName)"

definition EventQuestUpdate :: "string \<Rightarrow> string \<Rightarrow> Event" where
  "EventQuestUpdate questName status =
     NewEvent ''quest_update'' (''Quest '' @ [CHR 0x27] @ questName @ [CHR 0x27] @ '' updated: ''
       @ status)"

definition EventLocationChange :: "string \<Rightarrow> Event" where
  "EventLocationChange location = NewEvent ''location_change'' (''Traveled to: '' @ location)"

definition EventGoldChange :: "int \<Rightarrow> string \<Rightarrow> int \<Rightarrow> Event" where
  "EventGoldChange delta reason tot =
     (NewEvent ''gold_change''
        (if delta > 0
         then ''Gained '' @ Itoa delta @ '' gold ('' @ reason @ '') [Total: '' @ Itoa tot @ '']''
         else ''Spent '' @ Itoa (wrap64 (- delta)) @ '' gold ('' @ reason @ '') [Total: ''
                @ Itoa tot @ '']''))
     \<lparr>Data := [(''delta'', VInt delta), (''reason'', VString reason), (''total'', VInt tot)]\<rparr>"

definition EventXPGain :: "int \<Rightarrow> int \<Rightarrow> Event" where
  "EventXPGain amount tot =
     NewEvent ''xp_gain'' (''Gained '' @ Itoa amount @ '' XP [Total: '' @ Itoa tot @ '']'')"

definition checkMessage :: "string \<Rightarrow> string \<Rightarrow> int \<Rightarrow> int \<Rightarrow> int \<Rightarrow> int \<Rightarrow> bool \<Rightarrow> string" where
  "checkMessage what kind dc roll bonus tot success =
     what @ '' '' @ kind @ '' (DC '' @ Itoa dc @ ''): '' @ Itoa roll @ '' + '' @ Itoa bonus
       @ '' = '' @ Itoa tot @ '' ['' @ (if success then ''SUCCESS'' else ''FAILED'') @ '']''"

definition EventSkillCheck :: "string \<Rightarrow> int \<Rightarrow> int \<Rightarrow> int \<Rightarrow> bool \<Rightarrow> Event" where
  "EventSkillCheck skill dc roll bonus success =
     (NewEvent ''skill_check''
        (checkMessage skill ''check'' dc roll bonus (wrap64 (roll + bonus)) success))
     \<lparr>Data := [(''skill'', VString skill), (''dc'', VInt dc), (''roll'', VInt roll),
               (''bonus'', VInt bonus), (''success'', VBool success)]\<rparr>"

definition EventSavingThrow :: "string \<Rightarrow> int \<Rightarrow> int \<Rightarrow> int \<Rightarrow> bool \<Rightarrow> Event" where
  "EventSavingThrow ability dc roll bonus success =
     (NewEvent ''saving_throw''
        (checkMessage ability ''save'' dc roll bonus (wrap64 (roll + bonus)) success))
     \<lparr>Data := [(''ability'', VString ability), (''dc'', VInt dc), (''roll'', VInt roll),
               (''bonus'', VInt bonus), (''success'', VBool success)]\<rparr>"

definition EventError :: "string \<Rightarrow> Event" where
  "EventError message = NewEvent ''error'' (''ERROR: '' @ message)"

record EventLog =
  Events :: "Event list"
  EventLog_MaxSize :: int

definition NewEventLog :: "int \<Rightarrow> EventLog" where
  "NewEventLog maxSize =
     \<lparr>Events = [], EventLog_MaxSize = (if maxSize \<le> 0 then 100 else maxSize)\<rparr>"

definition EventLog_Add :: "EventLog \<Rightarrow> Event \<Rightarrow> EventLog option" where
  "EventLog_Add el event =
     (case keepLast (Events el @ [event]) (EventLog_MaxSize el) of
        None \<Rightarrow> None
      | Some es \<Rightarrow> Some (el\<lparr>Events := es\<rparr>))"

text \<open>
  The configuration, as far as the engine reads it. The texts of the two built-in
  system prompts are long constants of the source; the model keeps their opening
  sentence, no definition below looks inside them.
\<close>

record Config =
  Model :: string
  Temperature :: real
  Language :: string
  SystemPrompt :: string
  MaxTokens :: int

definition DefaultSystemPromptEN :: string where
  "DefaultSystemPromptEN =
     ''You are a masterful Dungeon Master running a tabletop RPG adventure.''"

definition DefaultSystemPromptES :: string where
  "DefaultSystemPromptES =
     ''Eres un magistral Dungeon Master dirigiendo una aventura de RPG de mesa.''"

definition GetSystemPrompt :: "Config \<Rightarrow> string" where
  "GetSystemPrompt c =
     (if SystemPrompt c \<noteq> [] then SystemPrompt c
      else if Language c = ''es'' then DefaultSystemPromptES
      else DefaultSystemPromptEN)"

record GameState =
  SaveName :: string
  Character :: Character
  World :: WorldState
  Conversation :: Conversation
  EventLog :: EventLog

definition NewGameState :: "string \<Rightarrow> Character \<Rightarrow> string \<Rightarrow> GameState" where
  "NewGameState saveName character setting =
     \<lparr>SaveName = saveName, Character = character, World = NewWorldState setting,
      Conversation = NewConversation 50, EventLog = NewEventLog 100\<rparr>"

record GameSession =
  State :: GameState
  Config :: Config
  IsModified :: bool

definition NewGameSession :: "GameState \<Rightarrow> Config \<Rightarrow> GameSession" where
  "NewGameSession state config = \<lparr>State = state, Config = config, IsModified = False\<rparr>"

definition MarkModified :: "GameSession \<Rightarrow> GameSession" where
  "MarkModified gs = gs\<lparr>IsModified := True\<rparr>"

section \<open>Tool calls and their arguments (package types)\<close>

text \<open>
  Package \<^verbatim>\<open>types\<close> declares the tool definition \<^verbatim>\<open>Tool\<close> (name, description, parameter
  schema), the invocation \<^verbatim>\<open>ToolCall\<close> (identifier, tool name, arguments) and the outcome
  \<^verbatim>\<open>ToolResult\<close> (identifier of the call, content, error).

  The fields \<^verbatim>\<open>Parameters\<close> and \<^verbatim>\<open>Arguments\<close> are of type \<^verbatim>\<open>json.RawMessage\<close>, the bytes of
  a JSON text. The program never looks at these bytes itself: a schema is a literal that
  is handed to the provider, and the arguments are read once, by
  \<^verbatim>\<open>json.Unmarshal(call.Arguments, &args)\<close> in \<^verbatim>\<open>Execute\<close>. A JSON text is therefore held as
  what the decoder of the standard library reads from it: a schema as the JSON value it
  denotes, and \<open>Arguments\<close> as the outcome of \<^verbatim>\<open>json.Unmarshal\<close> for a target of type
  \<^verbatim>\<open>map[string]any\<close>, which is either its error (malformed text, or a JSON value that
  is no object) or the entries of the map, each key once (none for \<^verbatim>\<open>null\<close>). A JSON
  number arrives as a \<^verbatim>\<open>float64\<close>.
\<close>

datatype json =
    JNull
  | JBool bool
  | JNumber real
  | JString string
  | JArray "json list"
  | JObject "(string \<times> json) list"

datatype arguments = Malformed string | Object "(string \<times> json) list"

record Tool =
  Tool_Name :: string
  Tool_Description :: string
  Parameters :: json

record ToolCall =
  ToolCall_ID :: string
  ToolCall_Name :: string
  Arguments :: arguments

record ToolResult =
  ToolCallID :: string
  Content :: string
  Error :: string

text \<open>
  The type assertions \<^verbatim>\<open>args[key].(string)\<close>, \<^verbatim>\<open>.(float64)\<close>, \<^verbatim>\<open>.(bool)\<close> and
  \<^verbatim>\<open>.([]any)\<close>: \<open>None\<close> when the key is absent or holds a value of another type.
\<close>

definition argString :: "(string \<times> json) list \<Rightarrow> string \<Rightarrow> string option" where
  "argString args key = (case map_of args key of Some (JString v) \<Rightarrow> Some v | _ \<Rightarrow> None)"

definition argFloat64 :: "(string \<times> json) list \<Rightarrow> string \<Rightarrow> real option" where
  "argFloat64 args key = (case map_of args key of Some (JNumber v) \<Rightarrow> Some v | _ \<Rightarrow> None)"

definition argBool :: "(string \<times> json) list \<Rightarrow> string \<Rightarrow> bool option" where
  "argBool args key = (case map_of args key of Some (JBool v) \<Rightarrow> Some v | _ \<Rightarrow> None)"

definition argArray :: "(string \<times> json) list \<Rightarrow> string \<Rightarrow> json list option" where
  "argArray args key = (case map_of args key of Some (JArray v) \<Rightarrow> Some v | _ \<Rightarrow> None)"

text \<open>The value of \<^verbatim>\<open>v, _ := args[key].(string)\<close>: the empty string when the assertion fails.\<close>

definition argStringOrEmpty :: "(string \<times> json) list \<Rightarrow> string \<Rightarrow> string" where
  "argStringOrEmpty args key = (case argString args key of Some v \<Rightarrow> v | None \<Rightarrow> [])"

text \<open>
  The catalogue \<^verbatim>\<open>AvailableTools\<close>. Every schema literal is an object with the members
  \<^verbatim>\<open>type\<close>, \<^verbatim>\<open>properties\<close> and \<^verbatim>\<open>required\<close>, and every property but \<^verbatim>\<open>exits\<close> an object with
  the members \<^verbatim>\<open>type\<close> and \<^verbatim>\<open>description\<close>; \<open>parameters\<close> and \<open>property\<close> write these two
  shapes.
\<close>

definition property :: "string \<Rightarrow> string \<Rightarrow> string \<Rightarrow> string \<times> json" where
  "property n t d = (n, JObject [(''type'', JString t), (''description'', JString d)])"

definition parameters :: "(string \<times> json) list \<Rightarrow> string list \<Rightarrow> json" where
  "parameters props required =
     JObject [(''type'', JString ''object''), (''properties'', JObject props),
              (''required'', JArray (map JString required))]"

definition AvailableTools :: "Tool list" where
  "AvailableTools =
   [\<lparr>Tool_Name = ''roll_dice'',
     Tool_Description = ''Roll dice using standard notation (e.g., '' @ [CHR 0x27] @ ''1d20''
       @ [CHR 0x27] @ '', '' @ [CHR 0x27] @ ''2d6+3'' @ [CHR 0x27] @ '', '' @ [CHR 0x27]
       @ ''4d6'' @ [CHR 0x27]
       @ ''). Use this for attack rolls, skill checks, saving throws, and damage.'',
     Parameters = parameters
       [property ''notation'' ''string'' (''Dice notation like '' @ [CHR 0x27] @ ''1d20''
          @ [CHR 0x27] @ '', '' @ [CHR 0x27] @ ''2d6+3'' @ [CHR 0x27] @ '', '' @ [CHR 0x27]
          @ ''1d8-1'' @ [CHR 0x27]),
        property ''reason'' ''string'' (''Why the roll is being made (e.g., '' @ [CHR 0x27]
          @ ''Attack roll'' @ [CHR 0x27] @ '', '' @ [CHR 0x27] @ ''Perception check''
          @ [CHR 0x27] @ '')'')]
       [''notation'']\<rparr>,
    \<lparr>Tool_Name = ''update_hp'',
     Tool_Description = ''Modify the player'' @ [CHR 0x27]
       @ ''s hit points. Use positive values for healing, negative for damage.'',
     Parameters = parameters
       [property ''delta'' ''integer''
          ''Amount to change HP (positive for healing, negative for damage)'',
        property ''reason'' ''string'' ''What caused the HP change'']
       [''delta'', ''reason'']\<rparr>,
    \<lparr>Tool_Name = ''add_item'',
     Tool_Description = ''Add an item to the player'' @ [CHR 0x27] @ ''s inventory.'',
     Parameters = parameters
       [property ''item'' ''string'' ''Name of the item'',
        property ''quantity'' ''integer'' ''How many to add (default: 1)'']
       [''item'']\<rparr>,
    \<lparr>Tool_Name = ''remove_item'',
     Tool_Description = ''Remove an item from the player'' @ [CHR 0x27] @ ''s inventory.'',
     Parameters = parameters
       [property ''item'' ''string'' ''Name of the item to remove'',
        property ''quantity'' ''integer'' ''How many to remove (default: 1)'']
       [''item'']\<rparr>,
    \<lparr>Tool_Name = ''set_condition'',
     Tool_Description = ''Add or remove a condition on the player character.'',
     Parameters = parameters
       [property ''condition'' ''string'' (''The condition name (e.g., '' @ [CHR 0x27]
          @ ''Poisoned'' @ [CHR 0x27] @ '', '' @ [CHR 0x27] @ ''Prone'' @ [CHR 0x27] @ '', ''
          @ [CHR 0x27] @ ''Frightened'' @ [CHR 0x27] @ '')''),
        property ''add'' ''boolean'' ''True to add the condition, false to remove it'']
       [''condition'', ''add'']\<rparr>,
    \<lparr>Tool_Name = ''update_gold'',
     Tool_Description = ''Change the player'' @ [CHR 0x27] @ ''s gold amount.'',
     Parameters = parameters
       [property ''delta'' ''integer'' ''Amount to change (positive to give, negative to take)'',
        property ''reason'' ''string'' ''Why gold is changing'']
       [''delta'', ''reason'']\<rparr>,
    \<lparr>Tool_Name = ''award_xp'',
     Tool_Description = ''Award experience points to the player.'',
     Parameters = parameters
       [property ''amount'' ''integer'' ''XP to award'',
        property ''reason'' ''string'' ''What earned the XP'']
       [''amount'']\<rparr>,
    \<lparr>Tool_Name = ''set_location'',
     Tool_Description = ''Update the player'' @ [CHR 0x27] @ ''s current location.'',
     Parameters = parameters
       [property ''name'' ''string'' ''Name of the new location'',
        property ''description'' ''string'' ''Description of the location'',
        (''exits'', JObject [(''type'', JString ''array''),
           (''items'', JObject [(''type'', JString ''string'')]),
           (''description'', JString ''Available exits/directions'')])]
       [''name'', ''description'']\<rparr>,
    \<lparr>Tool_Name = ''add_quest'',
     Tool_Description = ''Add a new quest or update an existing quest.'',
     Parameters = parameters
       [property ''id'' ''string'' ''Unique quest identifier'',
        property ''name'' ''string'' ''Quest name'',
        property ''description'' ''string'' ''Quest description'',
        property ''status'' ''string'' (''Quest status: '' @ [CHR 0x27] @ ''active'' @ [CHR 0x27]
          @ '', '' @ [CHR 0x27] @ ''completed'' @ [CHR 0x27] @ '', '' @ [CHR 0x27] @ ''failed''
          @ [CHR 0x27])]
       [''id'', ''name'', ''status'']\<rparr>,
    \<lparr>Tool_Name = ''skill_check'',
     Tool_Description = ''Perform a skill check for the player against a DC.'',
     Parameters = parameters
       [property ''skill'' ''string'' (''Skill name (e.g., '' @ [CHR 0x27] @ ''Perception''
          @ [CHR 0x27] @ '', '' @ [CHR 0x27] @ ''Stealth'' @ [CHR 0x27] @ '')''),
        property ''dc'' ''integer'' ''Difficulty class'']
       [''skill'', ''dc'']\<rparr>,
    \<lparr>Tool_Name = ''saving_throw'',
     Tool_Description = ''Perform a saving throw for the player against a DC.'',
     Parameters = parameters
       [property ''ability'' ''string'' ''Ability for the save (STR, DEX, CON, INT, WIS, CHA)'',
        property ''dc'' ''integer'' ''Difficulty class'']
       [''ability'', ''dc'']\<rparr>]"

section \<open>The tool router (internal/engine/tools.go)\<close>

definition quoted :: "string \<Rightarrow> string" where
  "quoted s = [CHR 0x27] @ s @ [CHR 0x27]"

definition missingParam :: "string \<Rightarrow> string" where
  "missingParam key = ''Missing or invalid '' @ quoted key @ '' parameter''"

definition errorResult :: "string \<Rightarrow> string \<Rightarrow> ToolResult" where
  "errorResult callID msg = \<lparr>ToolCallID = callID, Content = [], Error = msg\<rparr>"

definition contentResult :: "string \<Rightarrow> string \<Rightarrow> ToolResult" where
  "contentResult callID content = \<lparr>ToolCallID = callID, Content = content, Error = []\<rparr>"

text \<open>The text of the errors of \<^verbatim>\<open>ParseDice\<close> (\<^verbatim>\<open>err.Error()\<close>).\<close>

fun dice_error_text :: "dice_error \<Rightarrow> string" where
  "dice_error_text (InvalidNotation n) =
     ''invalid dice notation: '' @ n @ '' (expected format: NdM or NdM+K)''"
| "dice_error_text (InvalidNumDice m) = ''invalid number of dice: '' @ m"
| "dice_error_text (InvalidSides m) = ''invalid dice sides: '' @ m"
| "dice_error_text (InvalidModifier m) = ''invalid modifier: '' @ m"
| "dice_error_text NumDiceOutOfRange = ''number of dice must be between 1 and 100''"
| "dice_error_text SidesOutOfRange = ''dice sides must be between 1 and 1000''"

text \<open>
  The writes through the pointers of the session: \<^verbatim>\<open>tr.session.State.EventLog.Add\<close>,
  and the replacement of the character, the world and the conversation.
\<close>

definition addEvent :: "GameSession \<Rightarrow> Event \<Rightarrow> GameSession option" where
  "addEvent s event =
     (case EventLog_Add (EventLog (State s)) event of
        None \<Rightarrow> None
      | Some el \<Rightarrow> Some (s\<lparr>State := (State s)\<lparr>EventLog := el\<rparr>\<rparr>))"

text \<open>The session that \<open>addEvent\<close> leaves when the bound of the log is not negative.\<close>

definition logEvent :: "GameSession \<Rightarrow> Event \<Rightarrow> GameSession" where
  "logEvent s event =
     (let el = EventLog (State s); es = Events el @ [event]
      in s\<lparr>State := (State s)
             \<lparr>EventLog := el\<lparr>Events := drop (length es - nat (EventLog_MaxSize el)) es\<rparr>\<rparr>\<rparr>)"

definition setCharacter :: "GameSession \<Rightarrow> Character \<Rightarrow> GameSession" where
  "setCharacter s c = s\<lparr>State := (State s)\<lparr>Character := c\<rparr>\<rparr>"

definition setWorld :: "GameSession \<Rightarrow> WorldState \<Rightarrow> GameSession" where
  "setWorld s w = s\<lparr>State := (State s)\<lparr>World := w\<rparr>\<rparr>"

definition setConversation :: "GameSession \<Rightarrow> Conversation \<Rightarrow> GameSession" where
  "setConversation s c = s\<lparr>State := (State s)\<lparr>Conversation := c\<rparr>\<rparr>"

text \<open>
  Each handler returns the outcome and the session it leaves; \<open>None\<close> is a panic. The
  handlers that roll dice also take and return the shared random source.
\<close>

definition rollDice ::
  "string \<Rightarrow> (string \<times> json) list \<Rightarrow> GameSession \<Rightarrow> rng \<Rightarrow> (ToolResult \<times> GameSession \<times> rng) option"
where
  "rollDice callID args s g =
     (case argString args ''notation'' of
        None \<Rightarrow> Some (errorResult callID (missingParam ''notation''), s, g)
      | Some notation \<Rightarrow>
          let reason = argStringOrEmpty args ''reason'' in
          (case RollDice notation g of
             Inl err \<Rightarrow> Some (errorResult callID (dice_error_text err), s, g)
           | Inr None \<Rightarrow> None
           | Inr (Some (roll, g')) \<Rightarrow>
               let message0 = ''Rolled '' @ DiceRoll_String roll @ '': '' @ ResultString roll;
                   message = (if IsCriticalHit roll then message0 @ '' [CRITICAL HIT!]''
                              else if IsCriticalFail roll then message0 @ '' [CRITICAL FAIL!]''
                              else message0);
                   event0 = EventDiceRoll (Notation roll) (Rolls roll) (Total roll)
                              (DiceRoll_Modifier roll);
                   event = (if reason \<noteq> []
                            then event0\<lparr>Event_Message := reason @ '' - '' @ Event_Message event0\<rparr>
                            else event0)
               in (case addEvent s event of
                     None \<Rightarrow> None
                   | Some s' \<Rightarrow> Some (contentResult callID message, s', g'))))"

definition updateHP ::
  "string \<Rightarrow> (string \<times> json) list \<Rightarrow> GameSession \<Rightarrow> (ToolResult \<times> GameSession) option"
where
  "updateHP callID args s =
     (case argFloat64 args ''delta'' of
        None \<Rightarrow> Some (errorResult callID (missingParam ''delta''), s)
      | Some deltaFloat \<Rightarrow>
          let delta = int_of_float64 deltaFloat;
              reason0 = argStringOrEmpty args ''reason'';
              reason = (if reason0 = [] then ''unknown'' else reason0);
              char = (if delta < 0 then TakeDamage (Character (State s)) (wrap64 (- delta))
                      else Heal (Character (State s)) delta);
              s1 = MarkModified (setCharacter s char);
              event = EventHPChange delta reason (CurrentHP char) (MaxHP char)
          in (case addEvent s1 event of
                None \<Rightarrow> None
              | Some s2 \<Rightarrow>
                  Some (contentResult callID
                          (''HP changed by '' @ Itoa delta @ '' ('' @ reason @ ''). Current: ''
                             @ Itoa (CurrentHP char) @ ''/'' @ Itoa (MaxHP char)), s2)))"

definition addItem ::
  "string \<Rightarrow> (string \<times> json) list \<Rightarrow> GameSession \<Rightarrow> (ToolResult \<times> GameSession) option"
where
  "addItem callID args s =
     (case argString args ''item'' of
        None \<Rightarrow> Some (errorResult callID (missingParam ''item''), s)
      | Some item \<Rightarrow>
          let quantity = (case argFloat64 args ''quantity'' of
                            Some q \<Rightarrow> int_of_float64 q | None \<Rightarrow> 1);
              char = AddItem (Character (State s))
                       \<lparr>Item_Name = item, Quantity = quantity, Weight = 0, Equipped = False\<rparr>;
              s1 = MarkModified (setCharacter s char)
          in (case addEvent s1 (EventItemAdd item quantity) of
                None \<Rightarrow> None
              | Some s2 \<Rightarrow>
                  Some (contentResult callID
                          (''Added '' @ Itoa quantity @ ''x '' @ item @ '' to inventory''), s2)))"

definition removeItem ::
  "string \<Rightarrow> (string \<times> json) list \<Rightarrow> GameSession \<Rightarrow> (ToolResult \<times> GameSession) option"
where
  "removeItem callID args s =
     (case argString args ''item'' of
        None \<Rightarrow> Some (errorResult callID (missingParam ''item''), s)
      | Some item \<Rightarrow>
          let quantity = (case argFloat64 args ''quantity'' of
                            Some q \<Rightarrow> int_of_float64 q | None \<Rightarrow> 1);
              (char, found) = RemoveItem (Character (State s)) item quantity
          in if \<not> found
             then Some (errorResult callID (''Item '' @ quoted item @ '' not found in inventory''),
                        setCharacter s char)
             else let s1 = MarkModified (setCharacter s char)
                  in (case addEvent s1 (EventItemRemove item quantity) of
                        None \<Rightarrow> None
                      | Some s2 \<Rightarrow>
                          Some (contentResult callID
                                  (''Removed '' @ Itoa quantity @ ''x '' @ item
                                     @ '' from inventory''), s2)))"

definition setCondition ::
  "string \<Rightarrow> (string \<times> json) list \<Rightarrow> GameSession \<Rightarrow> (ToolResult \<times> GameSession) option"
where
  "setCondition callID args s =
     (case argString args ''condition'' of
        None \<Rightarrow> Some (errorResult callID (missingParam ''condition''), s)
      | Some condName \<Rightarrow>
          (case argBool args ''add'' of
             None \<Rightarrow> Some (errorResult callID (missingParam ''add''), s)
           | Some add \<Rightarrow>
               let char = (if add then AddCondition (Character (State s)) condName
                           else RemoveCondition (Character (State s)) condName);
                   event = (if add then EventConditionAdd condName
                            else EventConditionRemove condName)
               in (case addEvent (setCharacter s char) event of
                     None \<Rightarrow> None
                   | Some s1 \<Rightarrow>
                       Some (contentResult callID
                               (''Condition '' @ quoted condName @ '' ''
                                  @ (if \<not> add then ''removed'' else ''added'')),
                             MarkModified s1))))"

definition updateGold ::
  "string \<Rightarrow> (string \<times> json) list \<Rightarrow> GameSession \<Rightarrow> (ToolResult \<times> GameSession) option"
where
  "updateGold callID args s =
     (case argFloat64 args ''delta'' of
        None \<Rightarrow> Some (errorResult callID (missingParam ''delta''), s)
      | Some deltaFloat \<Rightarrow>
          let delta = int_of_float64 deltaFloat;
              reason0 = argStringOrEmpty args ''reason'';
              reason = (if reason0 = [] then ''transaction'' else reason0);
              char0 = Character (State s);
              char1 = char0\<lparr>Gold := wrap64 (Gold char0 + delta)\<rparr>;
              char = (if Gold char1 < 0 then char1\<lparr>Gold := 0\<rparr> else char1);
              s1 = MarkModified (setCharacter s char)
          in (case addEvent s1 (EventGoldChange delta reason (Gold char)) of
                None \<Rightarrow> None
              | Some s2 \<Rightarrow>
                  Some (contentResult callID
                          (''Gold changed by '' @ Itoa delta @ '' ('' @ reason @ ''). Total: ''
                             @ Itoa (Gold char)), s2)))"

definition awardXP ::
  "string \<Rightarrow> (string \<times> json) list \<Rightarrow> GameSession \<Rightarrow> (ToolResult \<times> GameSession) option"
where
  "awardXP callID args s =
     (case argFloat64 args ''amount'' of
        None \<Rightarrow> Some (errorResult callID (missingParam ''amount''), s)
      | Some amountFloat \<Rightarrow>
          let amount = int_of_float64 amountFloat;
              reason = argStringOrEmpty args ''reason'';
              char0 = Character (State s);
              char = char0\<lparr>XP := wrap64 (XP char0 + amount)\<rparr>;
              s1 = MarkModified (setCharacter s char);
              event0 = EventXPGain amount (XP char);
              event = (if reason \<noteq> []
                       then event0\<lparr>Event_Message := reason @ '' - '' @ Event_Message event0\<rparr>
                       else event0)
          in (case addEvent s1 event of
                None \<Rightarrow> None
              | Some s2 \<Rightarrow>
                  Some (contentResult callID
                          (''Awarded '' @ Itoa amount @ '' XP. Total: '' @ Itoa (XP char)), s2)))"

definition setLocation ::
  "string \<Rightarrow> (string \<times> json) list \<Rightarrow> GameSession \<Rightarrow> (ToolResult \<times> GameSession) option"
where
  "setLocation callID args s =
     (case argString args ''name'' of
        None \<Rightarrow> Some (errorResult callID (missingParam ''name''), s)
      | Some name \<Rightarrow>
          let description = argStringOrEmpty args ''description'';
              exits = (case argArray args ''exits'' of
                         Some exitsRaw \<Rightarrow>
                           List.map_filter (\<lambda>e. case e of JString x \<Rightarrow> Some x | _ \<Rightarrow> None) exitsRaw
                       | None \<Rightarrow> []);
              loc = \<lparr>Location_Name = name, Location_Description = description, Exits = exits\<rparr>;
              s1 = MarkModified (setWorld s (SetLocation (World (State s)) loc))
          in (case addEvent s1 (EventLocationChange name) of
                None \<Rightarrow> None
              | Some s2 \<Rightarrow> Some (contentResult callID (''Moved to: '' @ name), s2)))"

definition addQuest ::
  "string \<Rightarrow> (string \<times> json) list \<Rightarrow> GameSession \<Rightarrow> (ToolResult \<times> GameSession) option"
where
  "addQuest callID args s =
     (case argString args ''id'' of
        None \<Rightarrow> Some (errorResult callID (missingParam ''id''), s)
      | Some questID \<Rightarrow>
          (case argString args ''name'' of
             None \<Rightarrow> Some (errorResult callID (missingParam ''name''), s)
           | Some name \<Rightarrow>
               let status0 = argStringOrEmpty args ''status'';
                   status = (if status0 = [] then ''active'' else status0);
                   description = argStringOrEmpty args ''description'';
                   (world, found) = UpdateQuestStatus (World (State s)) questID status;
                   r = (if found then addEvent (setWorld s world) (EventQuestUpdate name status)
                        else addEvent
                               (setWorld s (AddQuest world
                                  \<lparr>Quest_ID = questID, Quest_Name = name,
                                   Quest_Description = description, Quest_Status = status,
                                   Giver = []\<rparr>))
                               (EventQuestAdd name))
               in (case r of
                     None \<Rightarrow> None
                   | Some s1 \<Rightarrow>
                       Some (contentResult callID
                               (''Quest '' @ quoted name @ '' set to '' @ quoted status),
                             MarkModified s1))))"

text \<open>
  \<^verbatim>\<open>skillCheck\<close> and \<^verbatim>\<open>savingThrow\<close> roll \<^verbatim>\<open>RollD20()\<close> and read \<^verbatim>\<open>roll.Rolls[0]\<close>, which
  panics on an empty slice.
\<close>

definition checkOutcome ::
  "DiceRoll \<Rightarrow> int \<Rightarrow> int \<Rightarrow> (int \<times> int \<times> bool \<times> string) option"
where
  "checkOutcome roll bonus dc =
     (case Rolls roll of
        [] \<Rightarrow> None
      | r0 # rest \<Rightarrow>
          let tot = wrap64 (Total roll + bonus);
              success = (tot \<ge> dc);
              critMsg = (if IsCriticalHit roll then '' [NATURAL 20!]''
                         else if IsCriticalFail roll then '' [NATURAL 1!]'' else [])
          in Some (r0, tot, success, critMsg))"

definition skillCheck ::
  "string \<Rightarrow> (string \<times> json) list \<Rightarrow> GameSession \<Rightarrow> rng \<Rightarrow> (ToolResult \<times> GameSession \<times> rng) option"
where
  "skillCheck callID args s g =
     (case argString args ''skill'' of
        None \<Rightarrow> Some (errorResult callID (missingParam ''skill''), s, g)
      | Some skill \<Rightarrow>
          (case argFloat64 args ''dc'' of
             None \<Rightarrow> Some (errorResult callID (missingParam ''dc''), s, g)
           | Some dcFloat \<Rightarrow>
               let dc = int_of_float64 dcFloat;
                   bonus = SkillBonus (Character (State s)) skill
               in (case RollD20 g of
                     None \<Rightarrow> None
                   | Some (roll, g') \<Rightarrow>
                       (case checkOutcome roll bonus dc of
                          None \<Rightarrow> None
                        | Some (r0, tot, success, critMsg) \<Rightarrow>
                            (case addEvent s (EventSkillCheck skill dc r0 bonus success) of
                               None \<Rightarrow> None
                             | Some s' \<Rightarrow>
                                 Some (contentResult callID
                                         (checkMessage skill ''check'' dc r0 bonus tot success
                                            @ critMsg), s', g'))))))"

definition parseAbility :: "string \<Rightarrow> Ability option" where
  "parseAbility abilityStr =
     (if abilityStr = ''STR'' then Some STR_Ability
      else if abilityStr = ''DEX'' then Some DEX_Ability
      else if abilityStr = ''CON'' then Some CON_Ability
      else if abilityStr = ''INT'' then Some INT_Ability
      else if abilityStr = ''WIS'' then Some WIS_Ability
      else if abilityStr = ''CHA'' then Some CHA_Ability
      else None)"

definition savingThrow ::
  "string \<Rightarrow> (string \<times> json) list \<Rightarrow> GameSession \<Rightarrow> rng \<Rightarrow> (ToolResult \<times> GameSession \<times> rng) option"
where
  "savingThrow callID args s g =
     (case argString args ''ability'' of
        None \<Rightarrow> Some (errorResult callID (missingParam ''ability''), s, g)
      | Some abilityStr0 \<Rightarrow>
          (case argFloat64 args ''dc'' of
             None \<Rightarrow> Some (errorResult callID (missingParam ''dc''), s, g)
           | Some dcFloat \<Rightarrow>
               let dc = int_of_float64 dcFloat;
                   abilityStr = ToUpper abilityStr0
               in (case parseAbility abilityStr of
                     None \<Rightarrow> Some (errorResult callID (''Invalid ability: '' @ abilityStr), s, g)
                   | Some ability \<Rightarrow>
                       let bonus = Modifier (Get (Abilities (Character (State s))) ability)
                       in (case RollD20 g of
                             None \<Rightarrow> None
                           | Some (roll, g') \<Rightarrow>
                               (case checkOutcome roll bonus dc of
                                  None \<Rightarrow> None
                                | Some (r0, tot, success, critMsg) \<Rightarrow>
                                    (case addEvent s
                                            (EventSavingThrow abilityStr dc r0 bonus success) of
                                       None \<Rightarrow> None
                                     | Some s' \<Rightarrow>
                                         Some (contentResult callID
                                                 (checkMessage abilityStr ''save'' dc r0 bonus tot
                                                    success @ critMsg), s', g')))))))"

definition GetToolDefinitions :: "Tool list" where
  "GetToolDefinitions = AvailableTools"

text \<open>\<^verbatim>\<open>ToolRouter.Execute\<close>: decode the arguments, dispatch on the name.\<close>

definition keepRng ::
  "rng \<Rightarrow> (ToolResult \<times> GameSession) option \<Rightarrow> (ToolResult \<times> GameSession \<times> rng) option"
where
  "keepRng g r = (case r of None \<Rightarrow> None | Some (result, s) \<Rightarrow> Some (result, s, g))"

definition Execute :: "ToolCall \<Rightarrow> GameSession \<Rightarrow> rng \<Rightarrow> (ToolResult \<times> GameSession \<times> rng) option" where
  "Execute call s g =
     (case Arguments call of
        Malformed err \<Rightarrow>
          Some (errorResult (ToolCall_ID call) (''Failed to parse arguments: '' @ err), s, g)
      | Object args \<Rightarrow>
          let callID = ToolCall_ID call; name = ToolCall_Name call in
          if name = ''roll_dice'' then rollDice callID args s g
          else if name = ''update_hp'' then keepRng g (updateHP callID args s)
          else if name = ''add_item'' then keepRng g (addItem callID args s)
          else if name = ''remove_item'' then keepRng g (removeItem callID args s)
          else if name = ''set_condition'' then keepRng g (setCondition callID args s)
          else if name = ''update_gold'' then keepRng g (updateGold callID args s)
          else if name = ''award_xp'' then keepRng g (awardXP callID args s)
          else if name = ''set_location'' then keepRng g (setLocation callID args s)
          else if name = ''add_quest'' then keepRng g (addQuest callID args s)
          else if name = ''skill_check'' then skillCheck callID args s g
          else if name = ''saving_throw'' then savingThrow callID args s g
          else Some (errorResult callID (''Unknown tool: '' @ name), s, g))"

section \<open>The provider contract (package providers)\<close>

text \<open>
  Package \<^verbatim>\<open>providers\<close> declares the messages of a chat (\<^verbatim>\<open>Message\<close>, whose tool calls are
  \<^verbatim>\<open>ToolCallInfo\<close> with a \<^verbatim>\<open>FunctionCall\<close>), the request \<^verbatim>\<open>ChatRequest\<close>, the response
  \<^verbatim>\<open>ChatResponse\<close> with its \<^verbatim>\<open>Usage\<close>, the interface \<^verbatim>\<open>Provider\<close> and the conversion
  \<^verbatim>\<open>ConvertToolCallToTypesFormat\<close>. Its roles are the four strings of package \<^verbatim>\<open>domain\<close>.

  The arguments of a \<^verbatim>\<open>FunctionCall\<close> are a JSON text in a string. The conversion hands
  them over byte for byte, as \<^verbatim>\<open>json.RawMessage(tc.Function.Arguments)\<close>, so they are held
  in the form of the field \<open>Arguments\<close> of a \<open>ToolCall\<close>.
\<close>

record FunctionCall =
  Function_Name :: string
  Function_Arguments :: arguments

record ToolCallInfo =
  ToolCallInfo_ID :: string
  ToolCallInfo_Type :: string
  Function :: FunctionCall

record providers_Message =
  Msg_Role :: string
  Msg_Content :: string
  Msg_Name :: string
  Msg_ToolCalls :: "ToolCallInfo list"
  Msg_ToolCallID :: string

record ChatRequest =
  Request_Messages :: "providers_Message list"
  Tools :: "Tool list"
  Request_Model :: string
  Request_Temperature :: real
  Request_MaxTokens :: int

record Usage =
  PromptTokens :: int
  CompletionTokens :: int
  TotalTokens :: int

record ChatResponse =
  Resp_Content :: string
  Resp_ToolCalls :: "ToolCallInfo list"
  FinishReason :: string
  Usage :: Usage
  Resp_Model :: string
  Latency :: int

text \<open>
  The interface \<^verbatim>\<open>Provider\<close>. An implementation is a value with a state of its own, of
  type \<open>'p\<close>. \<open>Chat\<close> returns an \<open>outcome\<close>, the pair \<^verbatim>\<open>(*ChatResponse, error)\<close> of the Go
  method with \<open>None\<close> for \<^verbatim>\<open>nil\<close> and an error as its message, and the state of the
  provider after the call. The context is only handed through; what it makes a provider
  do is part of \<open>Chat\<close>.
\<close>

type_synonym outcome = "ChatResponse option \<times> string option"

record 'p Provider =
  Chat :: "'p \<Rightarrow> ChatRequest \<Rightarrow> outcome \<times> 'p"
  Provider_Name :: "'p \<Rightarrow> string"
  SupportsTools :: "'p \<Rightarrow> bool"

definition ConvertToolCallToTypesFormat :: "ToolCallInfo \<Rightarrow> ToolCall" where
  "ConvertToolCallToTypesFormat tc =
     \<lparr>ToolCall_ID = ToolCallInfo_ID tc, ToolCall_Name = Function_Name (Function tc),
      Arguments = Function_Arguments (Function tc)\<rparr>"

section \<open>The orchestrator (internal/engine/orchestrator.go)\<close>

definition maxToolIterations :: nat where
  "maxToolIterations = 5"

datatype orchestrator_error = NoProvider | RequestFailed string | MaxIterations


record OrchestratorResponse =
  Narrative :: string
  Response_Events :: "Event list"
  TokensUsed :: int
  LatencyMs :: int
  Response_Error :: "orchestrator_error option"

definition newline :: string where
  "newline = [CHR 0x0A]"

definition formatCharacterState :: "GameSession \<Rightarrow> string" where
  "formatCharacterState s =
     (let c = Character (State s); a = Abilities c in
      ''Name: '' @ Character_Name c @ newline
      @ ''Race: '' @ Race c @ '', Class: '' @ Class c @ '', Level: '' @ Itoa (Level c) @ newline
      @ ''HP: '' @ Itoa (CurrentHP c) @ ''/'' @ Itoa (MaxHP c) @ '', AC: '' @ Itoa (AC c)
      @ '', Speed: '' @ Itoa (Speed c) @ '' ft'' @ newline
      @ ''Abilities: STR '' @ Itoa (Score_STR a) @ '' ('' @ ModifierString (Score_STR a)
      @ ''), DEX '' @ Itoa (Score_DEX a) @ '' ('' @ ModifierString (Score_DEX a)
      @ ''), CON '' @ Itoa (Score_CON a) @ '' ('' @ ModifierString (Score_CON a)
      @ ''), INT '' @ Itoa (Score_INT a) @ '' ('' @ ModifierString (Score_INT a)
      @ ''), WIS '' @ Itoa (Score_WIS a) @ '' ('' @ ModifierString (Score_WIS a)
      @ ''), CHA '' @ Itoa (Score_CHA a) @ '' ('' @ ModifierString (Score_CHA a) @ '')''
      @ newline
      @ ''Gold: '' @ Itoa (Gold c) @ '', XP: '' @ Itoa (XP c) @ newline
      @ (if length (Conditions c) > 0
         then ''Conditions: '' @ fmtStrings (Conditions c) @ newline else [])
      @ (if length (Inventory c) > 0
         then ''Inventory: ''
              @ Join (map (\<lambda>item. if Quantity item > 1
                                    then Item_Name item @ '' (x'' @ Itoa (Quantity item) @ '')''
                                    else Item_Name item) (Inventory c)) '', ''
              @ newline
         else []))"

definition formatWorldState :: "GameSession \<Rightarrow> string" where
  "formatWorldState s =
     (let w = World (State s) in
      ''Setting: '' @ Setting w @ newline
      @ ''Location: '' @ Location_Name (CurrentLocation w) @ newline
      @ (if Location_Description (CurrentLocation w) \<noteq> []
         then ''Description: '' @ Location_Description (CurrentLocation w) @ newline else [])
      @ ''Time: Day '' @ Itoa (DayNumber w) @ '', '' @ TimeOfDay w @ newline
      @ (if length (Quests w) > 0
         then ''Active Quests:'' @ newline
              @ concat (map (\<lambda>q. ''  - '' @ Quest_Name q @ '': '' @ Quest_Description q @ newline)
                          (GetActiveQuests w))
         else []))"

definition buildSystemPrompt :: "GameSession \<Rightarrow> string" where
  "buildSystemPrompt s =
     GetSystemPrompt (Config s) @ newline @ newline
     @ ''=== CURRENT CHARACTER STATE ==='' @ newline
     @ formatCharacterState s @ newline @ newline
     @ ''=== CURRENT WORLD STATE ==='' @ newline
     @ formatWorldState s @ newline @ newline
     @ (if MemorySummary (World (State s)) \<noteq> []
        then ''=== STORY SO FAR ==='' @ newline @ MemorySummary (World (State s))
             @ newline @ newline
        else [])
     @ ''=== INSTRUCTIONS ==='' @ newline
     @ ''- Use tools to track game state changes (HP, inventory, conditions, etc.)'' @ newline
     @ ''- Always use roll_dice for uncertain outcomes'' @ newline
     @ ''- Keep responses atmospheric and engaging'' @ newline
     @ ''- End with suggested actions for the player'' @ newline"

definition buildMessages :: "GameSession \<Rightarrow> providers_Message list" where
  "buildMessages s =
     \<lparr>Msg_Role = RoleSystem, Msg_Content = buildSystemPrompt s, Msg_Name = [],
      Msg_ToolCalls = [], Msg_ToolCallID = []\<rparr>
     # map (\<lambda>msg.
            \<lparr>Msg_Role = (if Message_Role msg = RoleAssistant then RoleAssistant
                          else if Message_Role msg = RoleSystem then RoleSystem
                          else if Message_Role msg = RoleTool then RoleTool
                          else RoleUser),
             Msg_Content = Message_Content msg, Msg_Name = Message_Name msg,
             Msg_ToolCalls = [], Msg_ToolCallID = Message_ToolCallID msg\<rparr>)
         (Messages (Conversation (State s)))"

text \<open>
  The inner loop of \<^verbatim>\<open>ProcessInput\<close>: each tool call of a response is executed in
  order; its content, or its error behind the prefix \<^verbatim>\<open>Error: \<close>, is appended to the
  request as a tool message, and an error also becomes an event of the response.
\<close>

fun executeToolCalls ::
  "ToolCallInfo list \<Rightarrow> ChatRequest \<Rightarrow> OrchestratorResponse \<Rightarrow> GameSession \<Rightarrow> rng
   \<Rightarrow> (ChatRequest \<times> OrchestratorResponse \<times> GameSession \<times> rng) option"
where
  "executeToolCalls [] req response s g = Some (req, response, s, g)"
| "executeToolCalls (tc # tcs) req response s g =
     (case Execute (ConvertToolCallToTypesFormat tc) s g of
        None \<Rightarrow> None
      | Some (result, s', g') \<Rightarrow>
          let content = (if Error result \<noteq> [] then ''Error: '' @ Error result
                         else Content result);
              response' = (if Error result \<noteq> []
                           then response\<lparr>Response_Events :=
                                  Response_Events response @ [EventError (Error result)]\<rparr>
                           else response);
              toolMsg = \<lparr>Msg_Role = RoleTool, Msg_Content = content, Msg_Name = [],
                         Msg_ToolCalls = [], Msg_ToolCallID = ToolCallInfo_ID tc\<rparr>
          in executeToolCalls tcs
               (req\<lparr>Request_Messages := Request_Messages req @ [toolMsg]\<rparr>) response' s' g')"

text \<open>
  What a call of \<^verbatim>\<open>ProcessInput\<close> leaves behind: the response it returns, the session,
  the state of the provider, the random source, and the record of the calls of \<^verbatim>\<open>Chat\<close>
  it made, each with its request and what \<^verbatim>\<open>Chat\<close> returned, in order.
\<close>

record 'p turn =
  Turn_Response :: OrchestratorResponse
  Turn_Session :: GameSession
  Turn_Provider :: 'p
  Turn_Rng :: rng
  Turn_Calls :: "(ChatRequest \<times> outcome) list"

text \<open>
  The loop \<^verbatim>\<open>for iteration := 0; iteration < maxToolIterations; iteration++\<close>. A call of
  \<^verbatim>\<open>Chat\<close> that returns neither a response nor an error makes \<^verbatim>\<open>resp.Latency\<close> panic.
\<close>

function toolLoop ::
  "'p Provider \<Rightarrow> nat \<Rightarrow> ChatRequest \<Rightarrow> int \<Rightarrow> int \<Rightarrow> 'p turn \<Rightarrow> 'p turn option"
where
  "toolLoop provider iteration req totalLatency totalTokens t =
     (if iteration < maxToolIterations then
        (case Chat provider (Turn_Provider t) req of
           ((r, Some err), p') \<Rightarrow>
             Some (t\<lparr>Turn_Response := (Turn_Response t)\<lparr>Response_Error := Some (RequestFailed err)\<rparr>,
                     Turn_Provider := p', Turn_Calls := Turn_Calls t @ [(req, r, Some err)]\<rparr>)
         | ((None, None), p') \<Rightarrow> None
         | ((Some resp, None), p') \<Rightarrow>
             let totalLatency' = wrap64 (totalLatency + Latency resp);
                 totalTokens' = wrap64 (totalTokens + TotalTokens (Usage resp));
                 t1 = t\<lparr>Turn_Provider := p',
                        Turn_Calls := Turn_Calls t @ [(req, Some resp, None)]\<rparr>
             in if length (Resp_ToolCalls resp) = 0 then
                  (case AddAssistantMessage (Conversation (State (Turn_Session t1)))
                          (Resp_Content resp) of
                     None \<Rightarrow> None
                   | Some conv \<Rightarrow>
                       Some (t1\<lparr>Turn_Response := (Turn_Response t1)
                                   \<lparr>Narrative := Resp_Content resp, LatencyMs := totalLatency',
                                    TokensUsed := totalTokens'\<rparr>,
                                Turn_Session :=
                                  MarkModified (setConversation (Turn_Session t1) conv)\<rparr>))
                else
                  (case executeToolCalls (Resp_ToolCalls resp)
                          (req\<lparr>Request_Messages := Request_Messages req
                                 @ [\<lparr>Msg_Role = RoleAssistant, Msg_Content = Resp_Content resp,
                                     Msg_Name = [], Msg_ToolCalls = Resp_ToolCalls resp,
                                     Msg_ToolCallID = []\<rparr>]\<rparr>)
                          (Turn_Response t1) (Turn_Session t1) (Turn_Rng t1) of
                     None \<Rightarrow> None
                   | Some (req', response', s', g') \<Rightarrow>
                       toolLoop provider (iteration + 1) req' totalLatency' totalTokens'
                         (t1\<lparr>Turn_Response := response', Turn_Session := s', Turn_Rng := g'\<rparr>)))
      else Some (t\<lparr>Turn_Response := (Turn_Response t)
                     \<lparr>Response_Error := Some MaxIterations, LatencyMs := totalLatency,
                      TokensUsed := totalTokens\<rparr>\<rparr>))"
  by pat_completeness auto
termination
  by (relation "measure (\<lambda>(provider, iteration, req, totalLatency, totalTokens, t).
                  maxToolIterations - iteration)") auto

declare toolLoop.simps [simp del]

text \<open>
  \<^verbatim>\<open>ProcessInput\<close>: \<open>provider\<close> is \<open>None\<close> for the nil provider; \<open>p\<close> is the state of the
  provider, \<open>s\<close> the session, \<open>g\<close> the shared random source of the dice.
\<close>

definition ProcessInput ::
  "'p Provider option \<Rightarrow> 'p \<Rightarrow> GameSession \<Rightarrow> rng \<Rightarrow> string \<Rightarrow> 'p turn option"
where
  "ProcessInput provider p s g input =
     (let response = \<lparr>Narrative = [], Response_Events = [], TokensUsed = 0, LatencyMs = 0,
                       Response_Error = None\<rparr>;
          t0 = \<lparr>Turn_Response = response, Turn_Session = s, Turn_Provider = p, Turn_Rng = g,
                Turn_Calls = []\<rparr>
      in case provider of
           None \<Rightarrow> Some (t0\<lparr>Turn_Response := response\<lparr>Response_Error := Some NoProvider\<rparr>\<rparr>)
         | Some pr \<Rightarrow>
             (case AddUserMessage (Conversation (State s)) input of
                None \<Rightarrow> None
              | Some conv \<Rightarrow>
                  let s1 = setConversation s conv;
                      req = \<lparr>Request_Messages = buildMessages s1, Tools = GetToolDefinitions,
                             Request_Model = Model (Config s1),
                             Request_Temperature = Temperature (Config s1),
                             Request_MaxTokens = MaxTokens (Config s1)\<rparr>
                  in toolLoop pr 0 req 0 0 (t0\<lparr>Turn_Session := s1\<rparr>)))"

section \<open>The dice grammar in the words of the specification\<close>

text \<open>
  The notation \<^verbatim>\<open>[count]d<sides>[+|-modifier]\<close>: \<open>matchesGrammar s cnt sides md\<close> says
  that \<open>s\<close> is the digits \<open>cnt\<close> (possibly none), the letter \<^verbatim>\<open>d\<close>, the digits \<open>sides\<close>
  (at least one) and \<open>md\<close>, which is empty or a sign followed by digits. \<open>countOf\<close> and
  \<open>modifierOf\<close> are the numbers these parts denote, the count being 1 when omitted.
\<close>

definition matchesGrammar :: "string \<Rightarrow> string \<Rightarrow> string \<Rightarrow> string \<Rightarrow> bool" where
  "matchesGrammar s cnt sides md \<longleftrightarrow>
     s = cnt @ ''d'' @ sides @ md \<and> list_all isDigit cnt \<and> sides \<noteq> [] \<and> list_all isDigit sides
     \<and> (md = [] \<or> (hd md = CHR ''+'' \<or> hd md = CHR ''-'') \<and> tl md \<noteq> []
                    \<and> list_all isDigit (tl md))"

definition countOf :: "string \<Rightarrow> int" where
  "countOf cnt = (if cnt = [] then 1 else decimal cnt)"

definition modifierOf :: "string \<Rightarrow> int" where
  "modifierOf md =
     (if md = [] then 0 else if hd md = CHR ''-'' then - decimal (tl md) else decimal (tl md))"

section \<open>Notions used in the statements and proofs\<close>

text \<open>
  \<open>sameFrame s s'\<close>: the conversation, the bound of the event log and the configuration
  of \<open>s'\<close> are those of \<open>s\<close>. No tool touches them.
\<close>

definition sameFrame :: "GameSession \<Rightarrow> GameSession \<Rightarrow> bool" where
  "sameFrame s s' \<longleftrightarrow> Conversation (State s') = Conversation (State s)
     \<and> EventLog_MaxSize (EventLog (State s')) = EventLog_MaxSize (EventLog (State s))
     \<and> Config s' = Config s"

text \<open>
  An outcome of \<^verbatim>\<open>Chat\<close> \<open>failed\<close> when the error is not
  \<^verbatim>\<open>nil\<close>; it \<open>askedTools\<close> when it is a response with tool calls and no error; it
  \<open>answered\<close> when it is a response without tool calls and no error. \<open>tokensOf\<close>,
  \<open>latencyOf\<close>, \<open>contentOf\<close> and \<open>toolCallsOf\<close> read the response of an outcome, and
  \<open>errorOf\<close> its error message.
\<close>

definition failed :: "outcome \<Rightarrow> bool" where
  "failed out \<longleftrightarrow> snd out \<noteq> None"

definition askedTools :: "outcome \<Rightarrow> bool" where
  "askedTools out \<longleftrightarrow>
     (case out of (Some resp, None) \<Rightarrow> Resp_ToolCalls resp \<noteq> [] | _ \<Rightarrow> False)"

definition answered :: "outcome \<Rightarrow> bool" where
  "answered out \<longleftrightarrow>
     (case out of (Some resp, None) \<Rightarrow> Resp_ToolCalls resp = [] | _ \<Rightarrow> False)"

definition tokensOf :: "outcome \<Rightarrow> int" where
  "tokensOf out = (case fst out of Some resp \<Rightarrow> TotalTokens (Usage resp) | None \<Rightarrow> 0)"

definition latencyOf :: "outcome \<Rightarrow> int" where
  "latencyOf out = (case fst out of Some resp \<Rightarrow> Latency resp | None \<Rightarrow> 0)"

definition contentOf :: "outcome \<Rightarrow> string" where
  "contentOf out = (case fst out of Some resp \<Rightarrow> Resp_Content resp | None \<Rightarrow> [])"

definition toolCallsOf :: "outcome \<Rightarrow> ToolCallInfo list" where
  "toolCallsOf out = (case fst out of Some resp \<Rightarrow> Resp_ToolCalls resp | None \<Rightarrow> [])"

definition errorOf :: "outcome \<Rightarrow> string" where
  "errorOf out = (case snd out of Some err \<Rightarrow> err | None \<Rightarrow> [])"

text \<open>
  \<open>runTools\<close> executes tool calls in order, as the inner loop of \<^verbatim>\<open>ProcessInput\<close> does, and
  returns the session and the random source they leave.
\<close>

fun runTools :: "ToolCallInfo list \<Rightarrow> GameSession \<Rightarrow> rng \<Rightarrow> (GameSession \<times> rng) option" where
  "runTools [] s g = Some (s, g)"
| "runTools (tc # tcs) s g =
     (case Execute (ConvertToolCallToTypesFormat tc) s g of
        None \<Rightarrow> None
      | Some (result, s', g') \<Rightarrow> runTools tcs s' g')"

text \<open>
  The outcomes of a turn determine what the loop returns. \<open>traceOk n outs\<close> says that
  \<open>outs\<close> can be the outcomes of a loop with \<open>n\<close> iterations left: every outcome is a
  response or an error, every outcome before the last asked for tools, and only the
  iteration limit ends the loop after an outcome that asked for tools. \<open>finalError\<close>,
  \<open>finalTotal\<close>, \<open>finalNarrative\<close> and \<open>finalSession\<close> are the error, a running total (of
  tokens or latency), the narrative and the session that the loop leaves after these
  outcomes; \<open>ranTools\<close> are the tool calls that were executed.
\<close>

fun traceOk :: "nat \<Rightarrow> outcome list \<Rightarrow> bool" where
  "traceOk n [] \<longleftrightarrow> n = 0"
| "traceOk n (out # outs) \<longleftrightarrow>
     0 < n \<and> out \<noteq> (None, None) \<and> (if askedTools out then traceOk (n - 1) outs else outs = [])"

fun finalError :: "orchestrator_error option \<Rightarrow> outcome list \<Rightarrow> orchestrator_error option" where
  "finalError e [] = Some MaxIterations"
| "finalError e (out # outs) =
     (if failed out then Some (RequestFailed (errorOf out))
      else if askedTools out then finalError e outs else e)"

fun finalTotal :: "(outcome \<Rightarrow> int) \<Rightarrow> int \<Rightarrow> int \<Rightarrow> outcome list \<Rightarrow> int" where
  "finalTotal f old acc [] = acc"
| "finalTotal f old acc (out # outs) =
     (if failed out then old
      else if askedTools out then finalTotal f old (wrap64 (acc + f out)) outs
      else wrap64 (acc + f out))"

fun finalNarrative :: "string \<Rightarrow> outcome list \<Rightarrow> string" where
  "finalNarrative old [] = old"
| "finalNarrative old (out # outs) =
     (if failed out then old else if askedTools out then finalNarrative old outs else contentOf out)"

definition ranTools :: "outcome list \<Rightarrow> ToolCallInfo list" where
  "ranTools outs = concat (map toolCallsOf (filter askedTools outs))"

fun finalSession :: "GameSession \<Rightarrow> outcome list \<Rightarrow> GameSession" where
  "finalSession sr [] = sr"
| "finalSession sr (out # outs) =
     (if answered out
      then (case AddAssistantMessage (Conversation (State sr)) (contentOf out) of
              Some conv \<Rightarrow> MarkModified (setConversation sr conv)
            | None \<Rightarrow> sr)
      else finalSession sr outs)"

section \<open>Example data\<close>

definition DefaultConfig :: Config where
  "DefaultConfig =
     \<lparr>Model = ''gpt-4o-mini'', Temperature = 0.8, Language = ''en'', SystemPrompt = [],
      MaxTokens = 2048\<rparr>"

definition potions :: InventoryItem where
  "potions = \<lparr>Item_Name = ''Potion'', Quantity = 2, Weight = 0, Equipped = False\<rparr>"

text \<open>A new character with dexterity 9, three temporary hit points and two potions.\<close>

definition exampleCharacter :: Character where
  "exampleCharacter =
     (NewCharacter ''Aria'' ''Elf'' ''Ranger'')
       \<lparr>Abilities := (Abilities (NewCharacter ''Aria'' ''Elf'' ''Ranger''))\<lparr>Score_DEX := 9\<rparr>,
        TempHP := 3, Inventory := [potions]\<rparr>"

definition exampleSession :: GameSession where
  "exampleSession =
     NewGameSession (NewGameState ''demo'' exampleCharacter ''fantasy'') DefaultConfig"

text \<open>The same session with 2000 of 3000 hit points.\<close>

definition sturdySession :: GameSession where
  "sturdySession =
     setCharacter exampleSession (exampleCharacter\<lparr>MaxHP := 3000, CurrentHP := 2000\<rparr>)"

definition exampleRng :: rng where
  "exampleRng = (\<lambda>i. i + 3)"

definition toolCall :: "string \<Rightarrow> (string \<times> json) list \<Rightarrow> ToolCall" where
  "toolCall name args = \<lparr>ToolCall_ID = ''call_1'', ToolCall_Name = name, Arguments = Object args\<rparr>"

text \<open>
  What \<^verbatim>\<open>ParseDice\<close> reads from \<^verbatim>\<open>2d6+5\<close>, and from \<^verbatim>\<open>1d20+9223372036854775807\<close>, whose
  modifier is the largest \<^verbatim>\<open>int\<close>.
\<close>

definition oneD20plusMax :: DiceRoll where
  "oneD20plusMax =
     \<lparr>Notation = ''1d20+9223372036854775807'', NumDice = 1, DiceSides = 20,
      DiceRoll_Modifier = 9223372036854775807, Rolls = [], Total = 0\<rparr>"

definition twoD6plus5 :: DiceRoll where
  "twoD6plus5 =
     \<lparr>Notation = ''2d6+5'', NumDice = 2, DiceSides = 6, DiceRoll_Modifier = 5, Rolls = [],
      Total = 0\<rparr>"

text \<open>A random source for which the four dice of an ability score show 3, 1, 1 and 6.\<close>

definition tiedDice :: rng where
  "tiedDice = (\<lambda>i. if i = 0 then 2 else if i = 3 then 5 else 0)"

text \<open>
  A provider that plays a script: its state counts the calls, the call number \<open>p\<close> returns
  entry \<open>p\<close> of the script, and every call after the script returns \<open>rest\<close>.
\<close>

definition scriptedProvider :: "outcome list \<Rightarrow> outcome \<Rightarrow> nat Provider" where
  "scriptedProvider script rest =
     \<lparr>Chat = (\<lambda>p req. (if p < length script then script ! p else rest, Suc p)),
      Provider_Name = (\<lambda>p. ''scripted''), SupportsTools = (\<lambda>p. True)\<rparr>"

text \<open>
  Outcomes of \<^verbatim>\<open>Chat\<close>: a response that calls \<^verbatim>\<open>update_gold\<close> with 5, a response that
  narrates, an error, and a response that calls a tool and reports \<open>2^62\<close> tokens.
\<close>

definition toolCallInfo :: "string \<Rightarrow> (string \<times> json) list \<Rightarrow> ToolCallInfo" where
  "toolCallInfo name args =
     \<lparr>ToolCallInfo_ID = ''call_1'', ToolCallInfo_Type = ''function'',
      Function = \<lparr>Function_Name = name, Function_Arguments = Object args\<rparr>\<rparr>"

definition chatResponse :: "string \<Rightarrow> ToolCallInfo list \<Rightarrow> int \<Rightarrow> int \<Rightarrow> ChatResponse" where
  "chatResponse content calls tokens latency =
     \<lparr>Resp_Content = content, Resp_ToolCalls = calls,
      FinishReason = (if calls = [] then ''stop'' else ''tool_calls''),
      Usage = \<lparr>PromptTokens = tokens, CompletionTokens = 0, TotalTokens = tokens\<rparr>,
      Resp_Model = ''gpt-4o-mini'', Latency = latency\<rparr>"

definition findsGold :: outcome where
  "findsGold = (Some (chatResponse [] [toolCallInfo ''update_gold''
                   [(''delta'', JNumber 5), (''reason'', JString ''loot'')]] 120 40), None)"

definition narrates :: outcome where
  "narrates = (Some (chatResponse ''You find five gold coins.'' [] 80 30), None)"


definition hungry :: outcome where
  "hungry = (Some (chatResponse [] [toolCallInfo ''award_xp'' [(''amount'', JNumber 1)]]
                4611686018427387904 10), None)"

section \<open>Auxiliary lemmas\<close>

section \<open>The dice grammar\<close>

lemma isDigit_simps [simp]: "\<not> isDigit CHR ''d''" "\<not> isDigit CHR ''+''" "\<not> isDigit CHR ''-''"
  by (simp_all add: isDigit_def)

lemma takeWhile_digits: "list_all isDigit xs \<Longrightarrow> \<not> isDigit c \<Longrightarrow> takeWhile isDigit (xs @ c # ys) = xs"
  by (induction xs) auto

lemma dropWhile_digits: "list_all isDigit xs \<Longrightarrow> \<not> isDigit c \<Longrightarrow> dropWhile isDigit (xs @ c # ys) = c # ys"
  by (induction xs) auto

lemma takeWhile_all: "list_all isDigit xs \<Longrightarrow> takeWhile isDigit xs = xs"
  by (induction xs) auto

lemma dropWhile_all: "list_all isDigit xs \<Longrightarrow> dropWhile isDigit xs = []"
  by (induction xs) auto

lemma list_all_takeWhile: "list_all P (takeWhile P xs)"
  by (induction xs) auto

lemma FindStringSubmatch_iff:
  "FindStringSubmatch s = Some (m1, m2, m3) \<longleftrightarrow> matchesGrammar s m1 m2 m3"
proof
  assume a: "FindStringSubmatch s = Some (m1, m2, m3)"
  define r1 where "r1 = dropWhile isDigit s"
  have s: "s = takeWhile isDigit s @ r1" by (simp add: r1_def)
  from a obtain r2 where r1: "r1 = CHR ''d'' # r2"
    by (cases r1) (auto simp: FindStringSubmatch_def Let_def r1_def split: list.splits if_splits)
  define t where "t = dropWhile isDigit r2"
  have r2: "r2 = takeWhile isDigit r2 @ t" by (simp add: t_def)
  from a r1 have m: "m1 = takeWhile isDigit s" "m2 = takeWhile isDigit r2" "m3 = t" "m2 \<noteq> []"
    "t = [] \<or> (hd t = CHR ''+'' \<or> hd t = CHR ''-'') \<and> tl t \<noteq> [] \<and> list_all isDigit (tl t)"
    by (auto simp: FindStringSubmatch_def Let_def r1_def[symmetric] t_def[symmetric]
        split: list.splits if_splits)
  have "s = m1 @ ''d'' @ m2 @ m3"
    using s r1 r2 m(1-3) by simp
  moreover have "list_all isDigit m1" "list_all isDigit m2"
    unfolding m by (rule list_all_takeWhile)+
  ultimately show "matchesGrammar s m1 m2 m3"
    using m(3-5) unfolding matchesGrammar_def by blast
next
  assume m: "matchesGrammar s m1 m2 m3"
  show "FindStringSubmatch s = Some (m1, m2, m3)"
  proof (cases m3)
    case Nil
    with m show ?thesis
      by (auto simp: FindStringSubmatch_def matchesGrammar_def Let_def takeWhile_digits dropWhile_digits takeWhile_all dropWhile_all)
  next
    case (Cons sg ds)
    with m have sg: "\<not> isDigit sg" by (auto simp: matchesGrammar_def)
    from m Cons sg show ?thesis
      by (auto simp: FindStringSubmatch_def matchesGrammar_def Let_def takeWhile_digits dropWhile_digits takeWhile_all dropWhile_all)
  qed
qed

lemma Atoi_digits: "ds \<noteq> [] \<Longrightarrow> list_all isDigit ds \<Longrightarrow> Atoi ds = (if in_int64 (decimal ds) then Some (decimal ds) else None)"
  by (cases ds) (auto simp: Atoi_def Let_def isDigit_def)

lemma Atoi_signed: "md \<noteq> [] \<Longrightarrow> hd md = CHR ''+'' \<or> hd md = CHR ''-'' \<Longrightarrow> tl md \<noteq> [] \<Longrightarrow> list_all isDigit (tl md)
  \<Longrightarrow> Atoi md = (if in_int64 (modifierOf md) then Some (modifierOf md) else None)"
  by (cases md) (auto simp: Atoi_def Let_def modifierOf_def)

lemma modifierOf_Nil [simp]: "modifierOf [] = 0" "in_int64 0"
  by (simp_all add: modifierOf_def in_int64_def)

theorem ParseDice_grammar:
  "ParseDice s = Inr dr \<longleftrightarrow>
     (\<exists>cnt sides md. matchesGrammar (ToLower (TrimSpace s)) cnt sides md
        \<and> 1 \<le> countOf cnt \<and> countOf cnt \<le> 100 \<and> 1 \<le> decimal sides \<and> decimal sides \<le> 1000
        \<and> in_int64 (modifierOf md)
        \<and> dr = \<lparr>Notation = ToLower (TrimSpace s), NumDice = countOf cnt, DiceSides = decimal sides,
                  DiceRoll_Modifier = modifierOf md, Rolls = [], Total = 0\<rparr>)"
  (is "?L \<longleftrightarrow> ?R")
proof
  assume ?L
  then obtain m1 m2 m3 where f: "FindStringSubmatch (ToLower (TrimSpace s)) = Some (m1, m2, m3)"
    by (auto simp: ParseDice_def Let_def split: option.splits)
  then have g: "matchesGrammar (ToLower (TrimSpace s)) m1 m2 m3" by (simp add: FindStringSubmatch_iff)
  show ?R
    apply (rule exI[of _ m1], rule exI[of _ m2], rule exI[of _ m3])
    using \<open>?L\<close> f g
    apply (auto simp: ParseDice_def Let_def matchesGrammar_def countOf_def Atoi_digits Atoi_signed split: option.splits if_splits)
    done
next
  assume ?R
  then obtain cnt sides md where g: "matchesGrammar (ToLower (TrimSpace s)) cnt sides md"
    and r: "1 \<le> countOf cnt" "countOf cnt \<le> 100" "1 \<le> decimal sides" "decimal sides \<le> 1000" "in_int64 (modifierOf md)"
    and dr: "dr = \<lparr>Notation = ToLower (TrimSpace s), NumDice = countOf cnt, DiceSides = decimal sides,
                  DiceRoll_Modifier = modifierOf md, Rolls = [], Total = 0\<rparr>"
    by blast
  from g have f: "FindStringSubmatch (ToLower (TrimSpace s)) = Some (cnt, sides, md)" by (simp add: FindStringSubmatch_iff)
  from r have i: "in_int64 (decimal sides)" "cnt \<noteq> [] \<Longrightarrow> in_int64 (decimal cnt)"
    by (auto simp: in_int64_def countOf_def)
  show ?L
    using f g r dr i
    by (auto simp: ParseDice_def Let_def matchesGrammar_def countOf_def Atoi_digits Atoi_signed modifierOf_def split: option.splits if_splits)
qed

lemma wrap64_id: "in_int64 x \<Longrightarrow> wrap64 x = x"
  by (simp add: wrap64_def in_int64_def)

lemma in_int64_wrap64 [simp]: "in_int64 (wrap64 x)"
proof -
  have "0 \<le> (x + 2 ^ 63) mod 2 ^ 64" "(x + 2 ^ 63) mod 2 ^ 64 < (2 ^ 64 :: int)"
    by simp_all
  then show ?thesis by (simp add: wrap64_def in_int64_def)
qed

lemma wrap64_small: "- 4611686018427387904 \<le> x \<Longrightarrow> x \<le> 4611686018427387904 \<Longrightarrow> wrap64 x = x"
  by (rule wrap64_id) (simp add: in_int64_def)

lemma Intn_pos: "1 \<le> n \<Longrightarrow> \<exists>r g'. Intn g n = Some (r, g') \<and> 0 \<le> r \<and> r < n \<and> r = int (g 0) mod n \<and> g' = (\<lambda>i. g (Suc i))"
  by (simp add: Intn_def)

lemma rollLoop_ok:
  "1 \<le> sides \<Longrightarrow> sides \<le> 1000 \<Longrightarrow> 0 \<le> acc \<Longrightarrow> acc + int k * 1000 \<le> 1000000 \<Longrightarrow>
   \<exists>new g'. rollLoop k sides rolls acc g = Some (rolls @ new, acc + sum_list new, g')
      \<and> length new = k \<and> (\<forall>r\<in>set new. 1 \<le> r \<and> r \<le> sides)"
proof (induction k arbitrary: rolls acc g)
  case 0
  then show ?case by simp
next
  case (Suc k)
  define r where "r = int (g 0) mod sides"
  have r: "0 \<le> r" "r < sides" using Suc.prems by (simp_all add: r_def)
  have I: "Intn g sides = Some (r, \<lambda>i. g (Suc i))" using Suc.prems by (simp add: Intn_def r_def)
  have w1: "wrap64 (r + 1) = r + 1" using r Suc.prems by (intro wrap64_small) auto
  have w2: "wrap64 (acc + (r + 1)) = acc + (r + 1)" using r Suc.prems by (intro wrap64_small) auto
  have "0 \<le> acc + (r + 1)" "acc + (r + 1) + int k * 1000 \<le> 1000000"
    using r Suc.prems by auto
  from Suc.IH[OF Suc.prems(1,2) this, of "rolls @ [r + 1]" "\<lambda>i. g (Suc i)"]
  obtain new g' where n: "rollLoop k sides (rolls @ [r + 1]) (acc + (r + 1)) (\<lambda>i. g (Suc i)) = Some ((rolls @ [r + 1]) @ new, acc + (r + 1) + sum_list new, g')"
    "length new = k" "\<forall>r\<in>set new. 1 \<le> r \<and> r \<le> sides" by blast
  show ?case
    apply (rule exI[of _ "(r + 1) # new"], rule exI[of _ g'])
    using n r by (simp add: I w1 w2 Let_def)
qed

section \<open>C5: the results of a roll\<close>

text \<open>
  Claim C5, as amended. For a roll specification with a count in \<open>[1, 100]\<close> and sides
  in \<open>[1, 1000]\<close>, and for every random source, \<^verbatim>\<open>DiceRoll.Roll\<close> returns: it stores
  exactly count rolls, each in \<open>[1, sides]\<close>; the total is their sum plus the modifier
  whenever that number fits \<^verbatim>\<open>int\<close>, and is that number wrapped around to \<^verbatim>\<open>int\<close>
  otherwise; nothing else of the specification changes; rolling again from the rolled
  state gives what rolling the fresh specification gives, so earlier results are
  overwritten, not accumulated. \<^verbatim>\<open>Roller.Roll\<close> on a notation that parses to the
  specification returns the same.
\<close>

theorem Roll_results:
  assumes "1 \<le> NumDice dr" "NumDice dr \<le> 100" "1 \<le> DiceSides dr" "DiceSides dr \<le> 1000"
  shows "\<exists>dr' g'. DiceRoll_Roll dr g = Some (dr', g')
     \<and> int (length (Rolls dr')) = NumDice dr
     \<and> (\<forall>r\<in>set (Rolls dr'). 1 \<le> r \<and> r \<le> DiceSides dr)
     \<and> Total dr' = wrap64 (sum_list (Rolls dr') + DiceRoll_Modifier dr)
     \<and> (in_int64 (sum_list (Rolls dr') + DiceRoll_Modifier dr)
          \<longrightarrow> Total dr' = sum_list (Rolls dr') + DiceRoll_Modifier dr)
     \<and> dr' = dr\<lparr>Rolls := Rolls dr', Total := Total dr'\<rparr>
     \<and> (\<forall>g2. DiceRoll_Roll dr' g2 = DiceRoll_Roll dr g2)
     \<and> (\<forall>notation. ParseDice notation = Inr dr \<longrightarrow> Roller_Roll g notation = Inr (Some (dr', g')))"
proof -
  have "0 \<le> (0::int)" "0 + int (nat (NumDice dr)) * 1000 \<le> 1000000" using assms by auto
  from rollLoop_ok[OF assms(3,4) this, of "[]" g]
  obtain new g' where n: "rollLoop (nat (NumDice dr)) (DiceSides dr) [] 0 g = Some (new, sum_list new, g')"
    "length new = nat (NumDice dr)" "\<forall>r\<in>set new. 1 \<le> r \<and> r \<le> DiceSides dr" by auto
  show ?thesis
    apply (rule exI[of _ "dr\<lparr>Rolls := new, Total := wrap64 (sum_list new + DiceRoll_Modifier dr)\<rparr>"], rule exI[of _ g'])
    using n assms by (auto simp: DiceRoll_Roll_def Roller_Roll_def wrap64_id split: option.splits)
qed

lemma minIndex_aux:
  "n \<le> length (rolls :: int list) \<Longrightarrow>
   (let m = foldl (\<lambda>minIdx i. if rolls ! i < rolls ! minIdx then i else minIdx) 0 [0..<n]
    in (m = 0 \<or> m < n) \<and> (\<forall>j<n. rolls ! m \<le> rolls ! j) \<and> (\<forall>j<m. rolls ! m < rolls ! j))"
proof (induction n)
  case 0
  then show ?case by simp
next
  case (Suc n)
  define m where "m = foldl (\<lambda>minIdx i. if rolls ! i < rolls ! minIdx then i else minIdx) 0 [0..<n]"
  from Suc have ih: "m = 0 \<or> m < n" "\<forall>j<n. rolls ! m \<le> rolls ! j" "\<forall>j<m. rolls ! m < rolls ! j"
    by (simp_all add: Let_def m_def)
  have step: "foldl (\<lambda>minIdx i. if rolls ! i < rolls ! minIdx then i else minIdx) 0 [0..<Suc n]
      = (if rolls ! n < rolls ! m then n else m)"
    by (simp add: m_def)
  show ?case
  proof (cases "rolls ! n < rolls ! m")
    case True
    have "\<forall>j<Suc n. rolls ! n \<le> rolls ! j"
      using ih(2) True by (auto simp: less_Suc_eq)
    moreover have "\<forall>j<n. rolls ! n < rolls ! j"
      using ih(2) True by force
    ultimately show ?thesis
      unfolding Let_def step using True by simp
  next
    case False
    have "\<forall>j<Suc n. rolls ! m \<le> rolls ! j"
      using ih(2) False by (auto simp: less_Suc_eq)
    then show ?thesis
      unfolding Let_def step using False ih(1,3) by auto
  qed
qed

lemma drawLoop_4d6:
  "drawLoop 4 6 [] g = Some (map (\<lambda>i. int (g i) mod 6 + 1) [0, 1, 2, 3], \<lambda>i. g (i + 4))"
proof -
  have w: "wrap64 (int n mod 6 + 1) = int n mod 6 + 1" for n
    by (rule wrap64_small) auto
  have "drawLoop (Suc (Suc (Suc (Suc 0)))) 6 [] g = Some (map (\<lambda>i. int (g i) mod 6 + 1) [0, 1, 2, 3], \<lambda>i. g (i + 4))"
    by (simp add: Intn_def w eval_nat_numeral)
  then show ?thesis by (simp add: eval_nat_numeral)
qed

lemma minIndex_first_min:
  assumes "rolls \<noteq> []"
  shows "minIndex rolls < length rolls" "\<forall>j<length rolls. rolls ! minIndex rolls \<le> rolls ! j"
    "\<forall>j<minIndex rolls. rolls ! minIndex rolls < rolls ! j"
  using minIndex_aux[of "length rolls" rolls] assms
  by (auto simp: minIndex_def Let_def)

section \<open>C8: ability scores\<close>

text \<open>
  Claim C8. For every random source \<^verbatim>\<open>RollAbilityScore\<close> returns. With \<open>rolls\<close> the four
  dice it draws, each in \<open>[1, 6]\<close>, and \<open>m\<close> the first position of a lowest die, the
  rolls it keeps are the four dice without position \<open>m\<close>, in order; they are three;
  the total is their sum and lies in \<open>[3, 18]\<close>.
\<close>

theorem RollAbilityScore_drops_lowest:
  "\<exists>dr g' rolls m.
      RollAbilityScore g = Some (dr, g')
    \<and> rolls = map (\<lambda>i. int (g i) mod 6 + 1) [0, 1, 2, 3]
    \<and> (\<forall>r\<in>set rolls. 1 \<le> r \<and> r \<le> 6)
    \<and> m < 4 \<and> (\<forall>j<4. rolls ! m \<le> rolls ! j) \<and> (\<forall>j<m. rolls ! m < rolls ! j)
    \<and> Rolls dr = take m rolls @ drop (Suc m) rolls
    \<and> length (Rolls dr) = 3
    \<and> Total dr = sum_list (Rolls dr)
    \<and> 3 \<le> Total dr \<and> Total dr \<le> 18"
proof -
  define rolls where "rolls = map (\<lambda>i. int (g i) mod 6 + 1) [0, 1, 2, 3]"
  define m where "m = minIndex rolls"
  have len: "length rolls = 4" by (simp add: rolls_def)
  then have ne: "rolls \<noteq> []" by auto
  have rng: "\<forall>r\<in>set rolls. 1 \<le> r \<and> r \<le> 6"
    by (auto simp: rolls_def)
  note mi = minIndex_first_min[OF ne, folded m_def, unfolded len]
  obtain a b c d where abcd: "rolls = [a, b, c, d]" by (simp add: rolls_def)
  with rng have b: "1 \<le> a" "a \<le> 6" "1 \<le> b" "b \<le> 6" "1 \<le> c" "c \<le> 6" "1 \<le> d" "d \<le> 6" by auto
  from mi(1) have mc: "m = 0 \<or> m = 1 \<or> m = 2 \<or> m = 3" by auto
  have up: "[0..<4] = [0, 1, 2, 3]" by (simp add: upt_rec)
  have k: "keepOthers rolls m = (sum_list (take m rolls @ drop (Suc m) rolls), take m rolls @ drop (Suc m) rolls)"
    using mc b by (auto simp: keepOthers_def abcd up wrap64_small)
  have tot: "3 \<le> sum_list (take m rolls @ drop (Suc m) rolls)" "sum_list (take m rolls @ drop (Suc m) rolls) \<le> 18"
    using mc b by (auto simp: abcd)
  have l3: "length (take m rolls @ drop (Suc m) rolls) = 3"
    using mi(1) len by auto
  have d: "drawLoop 4 6 [] g = Some (rolls, \<lambda>i. g (i + 4))"
    unfolding rolls_def by (rule drawLoop_4d6)
  define dr where "dr = \<lparr>Notation = ''4d6 drop lowest'', NumDice = 4, DiceSides = 6,
      DiceRoll_Modifier = 0, Rolls = take m rolls @ drop (Suc m) rolls,
      Total = sum_list (take m rolls @ drop (Suc m) rolls)\<rparr>"
  have R: "RollAbilityScore g = Some (dr, \<lambda>i. g (i + 4))"
    by (simp add: RollAbilityScore_def d m_def[symmetric] k Let_def dr_def)
  have f: "Rolls dr = take m rolls @ drop (Suc m) rolls" "Total dr = sum_list (Rolls dr)"
    by (simp_all add: dr_def)
  show ?thesis
  proof (intro exI conjI)
    show "RollAbilityScore g = Some (dr, \<lambda>i. g (i + 4))" by (rule R)
    show "rolls = map (\<lambda>i. int (g i) mod 6 + 1) [0, 1, 2, 3]" by (rule rolls_def)
    show "\<forall>r\<in>set rolls. 1 \<le> r \<and> r \<le> 6" by (rule rng)
    show "m < 4" by (rule mi(1))
    show "\<forall>j<4. rolls ! m \<le> rolls ! j" by (rule mi(2))
    show "\<forall>j<m. rolls ! m < rolls ! j" by (rule mi(3))
    show "Rolls dr = take m rolls @ drop (Suc m) rolls" by (rule f(1))
    show "length (Rolls dr) = 3" unfolding f(1) by (rule l3)
    show "Total dr = sum_list (Rolls dr)" by (rule f(2))
    show "3 \<le> Total dr" "Total dr \<le> 18" unfolding f(2) f(1) by (rule tot)+
  qed
qed

lemma keepLast_Some: "0 \<le> maxSize \<Longrightarrow> \<exists>ys. keepLast xs maxSize = Some ys"
  by (simp add: keepLast_def)

lemma addEvent_Some:
  assumes "0 \<le> EventLog_MaxSize (EventLog (State s))"
  shows "\<exists>el. addEvent s e = Some (s\<lparr>State := (State s)\<lparr>EventLog := el\<rparr>\<rparr>)
              \<and> EventLog_MaxSize el = EventLog_MaxSize (EventLog (State s))"
  using assms by (auto simp: addEvent_def EventLog_Add_def keepLast_def split: option.splits)

section \<open>Inventory\<close>

lemma removeItemLoop_absent:
  "\<forall>x\<in>set items. Item_Name x \<noteq> name \<Longrightarrow> removeItemLoop items name q = (items, False)"
  by (induction items) auto

lemma removeItemLoop_present:
  "\<forall>x\<in>set pre. Item_Name x \<noteq> name \<Longrightarrow> Item_Name it = name \<Longrightarrow>
   removeItemLoop (pre @ it # post) name q =
     (if Quantity it \<le> q then pre @ post else pre @ it\<lparr>Quantity := wrap64 (Quantity it - q)\<rparr> # post, True)"
  by (induction pre) auto

section \<open>C2: remove_item\<close>

text \<open>
  Claim C2, as amended. For a \<^verbatim>\<open>remove_item\<close> invocation that names the item \<open>name\<close>, on
  a session whose event log has a bound that is not negative. The requested quantity
  \<open>quantity\<close> is the number given as \<^verbatim>\<open>quantity\<close> converted to \<^verbatim>\<open>int\<close>, and 1 when no
  number is given. When no stack of the inventory has that name, \<^verbatim>\<open>Execute\<close> returns
  the error outcome and the session it was given; when \<open>it\<close> is the first stack of that
  name, \<^verbatim>\<open>Execute\<close> returns a success outcome, and the stack is deleted when its
  quantity is at most the requested one (also when it is lower); otherwise its quantity
  becomes the difference of the two in the arithmetic of \<^verbatim>\<open>int\<close>, which wraps around.
\<close>

theorem remove_item_outcome:
  assumes "ToolCall_Name call = ''remove_item''" and "Arguments call = Object args"
    and "argString args ''item'' = Some name"
    and "quantity = (case argFloat64 args ''quantity'' of Some q \<Rightarrow> int_of_float64 q | None \<Rightarrow> 1)"
    and "0 \<le> EventLog_MaxSize (EventLog (State s))"
  shows "((\<forall>it\<in>set (Inventory (Character (State s))). Item_Name it \<noteq> name) \<longrightarrow>
           Execute call s g
             = Some (errorResult (ToolCall_ID call)
                       (''Item '' @ quoted name @ '' not found in inventory''), s, g))
       \<and> (\<forall>pre it post.
             Inventory (Character (State s)) = pre @ it # post
               \<and> (\<forall>x\<in>set pre. Item_Name x \<noteq> name) \<and> Item_Name it = name \<longrightarrow>
             (\<exists>s'. Execute call s g
                      = Some (contentResult (ToolCall_ID call)
                                (''Removed '' @ Itoa quantity @ ''x '' @ name @ '' from inventory''),
                              s', g)
                \<and> Inventory (Character (State s'))
                     = (if Quantity it \<le> quantity then pre @ post
                        else pre @ it\<lparr>Quantity := wrap64 (Quantity it - quantity)\<rparr> # post)
                \<and> Character (State s')
                     = (Character (State s))\<lparr>Inventory := Inventory (Character (State s'))\<rparr>
                \<and> IsModified s'))"
proof (intro conjI impI allI)
  assume a: "\<forall>it\<in>set (Inventory (Character (State s))). Item_Name it \<noteq> name"
  show "Execute call s g
             = Some (errorResult (ToolCall_ID call)
                       (''Item '' @ quoted name @ '' not found in inventory''), s, g)"
    using assms(1-3)
    by (simp add: Execute_def keepRng_def removeItem_def RemoveItem_def removeItemLoop_absent[OF a]
        setCharacter_def Let_def)
next
  fix pre it post
  assume p: "Inventory (Character (State s)) = pre @ it # post
               \<and> (\<forall>x\<in>set pre. Item_Name x \<noteq> name) \<and> Item_Name it = name"
  define s1 where "s1 = MarkModified (setCharacter s ((Character (State s))\<lparr>Inventory :=
     (if Quantity it \<le> quantity then pre @ post
                        else pre @ it\<lparr>Quantity := wrap64 (Quantity it - quantity)\<rparr> # post)\<rparr>))"
  have "0 \<le> EventLog_MaxSize (EventLog (State s1))"
    using assms(5) by (simp add: s1_def MarkModified_def setCharacter_def)
  from addEvent_Some[OF this, of "EventItemRemove name quantity"]
  obtain el where el: "addEvent s1 (EventItemRemove name quantity) = Some (s1\<lparr>State := (State s1)\<lparr>EventLog := el\<rparr>\<rparr>)"
    by blast
  have r: "removeItem (ToolCall_ID call) args s = Some (contentResult (ToolCall_ID call)
                                (''Removed '' @ Itoa quantity @ ''x '' @ name @ '' from inventory''),
                              s1\<lparr>State := (State s1)\<lparr>EventLog := el\<rparr>\<rparr>)"
    using assms(3) p el
    by (simp add: removeItem_def RemoveItem_def removeItemLoop_present Let_def assms(4)[symmetric] s1_def)
  show "\<exists>s'. Execute call s g
                      = Some (contentResult (ToolCall_ID call)
                                (''Removed '' @ Itoa quantity @ ''x '' @ name @ '' from inventory''),
                              s', g)
                \<and> Inventory (Character (State s'))
                     = (if Quantity it \<le> quantity then pre @ post
                        else pre @ it\<lparr>Quantity := wrap64 (Quantity it - quantity)\<rparr> # post)
                \<and> Character (State s')
                     = (Character (State s))\<lparr>Inventory := Inventory (Character (State s'))\<rparr>
                \<and> IsModified s'"
    apply (rule exI[of _ "s1\<lparr>State := (State s1)\<lparr>EventLog := el\<rparr>\<rparr>"])
    using assms(1,2) r
    by (simp add: Execute_def keepRng_def s1_def MarkModified_def setCharacter_def)
qed



section \<open>C10: add_item\<close>


section \<open>C9: set_location\<close>

text \<open>
  Claim C9, as amended. For a \<^verbatim>\<open>set_location\<close> invocation on a session whose event log
  has a bound that is not negative: without a string argument \<^verbatim>\<open>name\<close>, \<^verbatim>\<open>Execute\<close>
  returns the error outcome that cites \<^verbatim>\<open>name\<close> and the session it was given; with a
  name and without a string argument \<^verbatim>\<open>description\<close>, it returns a success outcome and
  the current location becomes the named one, with an empty description.
\<close>

theorem set_location_outcome:
  assumes "ToolCall_Name call = ''set_location''" and "Arguments call = Object args"
    and "0 \<le> EventLog_MaxSize (EventLog (State s))"
  shows "(argString args ''name'' = None \<longrightarrow>
            Execute call s g = Some (errorResult (ToolCall_ID call) (missingParam ''name''), s, g))
       \<and> (\<forall>name. argString args ''name'' = Some name \<and> argString args ''description'' = None \<longrightarrow>
            (\<exists>s'. Execute call s g
                     = Some (contentResult (ToolCall_ID call) (''Moved to: '' @ name), s', g)
               \<and> Location_Name (CurrentLocation (World (State s'))) = name
               \<and> Location_Description (CurrentLocation (World (State s'))) = []
               \<and> IsModified s'))"
proof (intro conjI impI allI)
  assume "argString args ''name'' = None"
  then show "Execute call s g = Some (errorResult (ToolCall_ID call) (missingParam ''name''), s, g)"
    using assms(1,2) by (simp add: Execute_def keepRng_def setLocation_def)
next
  fix name assume n: "argString args ''name'' = Some name \<and> argString args ''description'' = None"
  define loc where "loc = \<lparr>Location_Name = name, Location_Description = [],
     Exits = (case argArray args ''exits'' of
                         Some exitsRaw \<Rightarrow>
                           List.map_filter (\<lambda>e. case e of JString x \<Rightarrow> Some x | _ \<Rightarrow> None) exitsRaw
                       | None \<Rightarrow> [])\<rparr>"
  define s1 where "s1 = MarkModified (setWorld s (SetLocation (World (State s)) loc))"
  have "0 \<le> EventLog_MaxSize (EventLog (State s1))"
    using assms(3) by (simp add: s1_def MarkModified_def setWorld_def)
  from addEvent_Some[OF this, of "EventLocationChange name"]
  obtain el where el: "addEvent s1 (EventLocationChange name) = Some (s1\<lparr>State := (State s1)\<lparr>EventLog := el\<rparr>\<rparr>)"
    by blast
  have r: "Execute call s g = Some (contentResult (ToolCall_ID call) (''Moved to: '' @ name), s1\<lparr>State := (State s1)\<lparr>EventLog := el\<rparr>\<rparr>, g)"
    using assms(1,2) n el
    by (simp add: Execute_def keepRng_def setLocation_def Let_def s1_def loc_def argStringOrEmpty_def)
  show "\<exists>s'. Execute call s g
                     = Some (contentResult (ToolCall_ID call) (''Moved to: '' @ name), s', g)
               \<and> Location_Name (CurrentLocation (World (State s'))) = name
               \<and> Location_Description (CurrentLocation (World (State s'))) = []
               \<and> IsModified s'"
    apply (rule exI[of _ "s1\<lparr>State := (State s1)\<lparr>EventLog := el\<rparr>\<rparr>"])
    using r by (simp add: s1_def MarkModified_def setWorld_def SetLocation_def loc_def)
qed

section \<open>Hit points\<close>

lemma wrap64_over:
  assumes "2 ^ 63 \<le> x" "x < 2 ^ 64"
  shows "wrap64 x = x - 2 ^ 64"
proof -
  define a where "a = x + 2 ^ 63 - 2 ^ 64"
  have a: "0 \<le> a" "a < 2 ^ 64" using assms by (simp_all add: a_def)
  have "(x + 2 ^ 63) mod 2 ^ 64 = (a + 2 ^ 64) mod 2 ^ 64" by (simp add: a_def add.commute)
  also have "\<dots> = a mod 2 ^ 64" by (rule mod_add_self2)
  also have "\<dots> = a" using a by (rule mod_pos_pos_trivial)
  finally show ?thesis by (simp add: wrap64_def a_def)
qed

lemma reduceHP_range:
  assumes "0 \<le> CurrentHP c" "CurrentHP c \<le> MaxHP c" "in_int64 (MaxHP c)"
    and "0 < d \<and> d < 2 ^ 63 \<or> d = - (2 ^ 63)"
  shows "0 \<le> CurrentHP (reduceHP c d)" "CurrentHP (reduceHP c d) \<le> MaxHP (reduceHP c d)"
    "MaxHP (reduceHP c d) = MaxHP c" "TempHP (reduceHP c d) = TempHP c"
    "0 < d \<Longrightarrow> CurrentHP (reduceHP c d) = max 0 (CurrentHP c - d)"
proof -
  have w: "wrap64 (CurrentHP c - d) = (if d = - (2 ^ 63) then CurrentHP c - 2 ^ 63 else CurrentHP c - d)"
  proof (cases "d = - (2 ^ 63)")
    case True
    have "wrap64 (CurrentHP c + 2 ^ 63) = CurrentHP c + 2 ^ 63 - 2 ^ 64"
      using assms(1-3) by (intro wrap64_over) (auto simp: in_int64_def)
    with True show ?thesis by simp
  next
    case False
    with assms have "in_int64 (CurrentHP c - d)" by (auto simp: in_int64_def)
    with False show ?thesis by (simp add: wrap64_id)
  qed
  show "0 \<le> CurrentHP (reduceHP c d)" "CurrentHP (reduceHP c d) \<le> MaxHP (reduceHP c d)"
    "MaxHP (reduceHP c d) = MaxHP c" "TempHP (reduceHP c d) = TempHP c"
    "0 < d \<Longrightarrow> CurrentHP (reduceHP c d) = max 0 (CurrentHP c - d)"
    using assms by (auto simp: reduceHP_def Let_def w in_int64_def)
qed

lemma TakeDamage_range:
  assumes "0 \<le> CurrentHP c" "CurrentHP c \<le> MaxHP c" "in_int64 (MaxHP c)" "in_int64 (TempHP c)"
    and "0 < d \<and> d < 2 ^ 63 \<or> d = - (2 ^ 63)"
  shows "0 \<le> CurrentHP (TakeDamage c d) \<and> CurrentHP (TakeDamage c d) \<le> MaxHP (TakeDamage c d)
       \<and> MaxHP (TakeDamage c d) = MaxHP c"
proof (cases "0 < TempHP c \<and> \<not> d \<le> TempHP c")
  case True
  then have d: "0 < d" "d < 2 ^ 63" using assms(5) by auto
  have "in_int64 (d - TempHP c)" using True d assms(4) by (auto simp: in_int64_def)
  then have w: "wrap64 (d - TempHP c) = d - TempHP c" by (rule wrap64_id)
  have "0 < d - TempHP c \<and> d - TempHP c < 2 ^ 63 \<or> d - TempHP c = - (2 ^ 63)" using True d by auto
  from reduceHP_range(1-3)[of "c\<lparr>TempHP := 0\<rparr>" "d - TempHP c"] this assms(1-3) True
  show ?thesis by (simp add: TakeDamage_def w)
next
  case False
  from reduceHP_range(1-3)[of c d] assms
  show ?thesis using False by (auto simp: TakeDamage_def)
qed

lemma TakeDamage_absorbs:
  assumes "0 \<le> CurrentHP c" "CurrentHP c \<le> MaxHP c" "in_int64 (MaxHP c)" "in_int64 (TempHP c)"
    and "0 < d" "d < 2 ^ 63"
  shows "TempHP (TakeDamage c d) = TempHP c - min d (max 0 (TempHP c))"
    "CurrentHP (TakeDamage c d) = max 0 (CurrentHP c - (d - min d (max 0 (TempHP c))))"
proof -
  have w1: "0 < TempHP c \<Longrightarrow> wrap64 (TempHP c - d) = TempHP c - d"
    using assms by (intro wrap64_id) (auto simp: in_int64_def)
  have w2: "0 < TempHP c \<Longrightarrow> wrap64 (d - TempHP c) = d - TempHP c"
    using assms by (intro wrap64_id) (auto simp: in_int64_def)
  have r1: "\<not> 0 < TempHP c \<Longrightarrow> CurrentHP (reduceHP c d) = max 0 (CurrentHP c - d)"
    "\<not> 0 < TempHP c \<Longrightarrow> TempHP (reduceHP c d) = TempHP c"
    using reduceHP_range(4,5)[of c d] assms by auto
  have r2: "0 < TempHP c \<Longrightarrow> \<not> d \<le> TempHP c \<Longrightarrow> CurrentHP (reduceHP (c\<lparr>TempHP := 0\<rparr>) (d - TempHP c)) = max 0 (CurrentHP c - (d - TempHP c))"
    "0 < TempHP c \<Longrightarrow> \<not> d \<le> TempHP c \<Longrightarrow> TempHP (reduceHP (c\<lparr>TempHP := 0\<rparr>) (d - TempHP c)) = 0"
    using reduceHP_range(4,5)[of "c\<lparr>TempHP := 0\<rparr>" "d - TempHP c"] assms by auto
  show "TempHP (TakeDamage c d) = TempHP c - min d (max 0 (TempHP c))"
    "CurrentHP (TakeDamage c d) = max 0 (CurrentHP c - (d - min d (max 0 (TempHP c))))"
    using assms by (auto simp: TakeDamage_def w1 w2 r1 r2 min_def max_def)
qed

lemma TakeDamage_least:
  assumes "0 \<le> CurrentHP c" "CurrentHP c \<le> MaxHP c" "in_int64 (MaxHP c)" "in_int64 (TempHP c)"
  shows "0 < TempHP c \<Longrightarrow> TempHP (TakeDamage c (- (2 ^ 63))) = TempHP c - 2 ^ 63
                      \<and> CurrentHP (TakeDamage c (- (2 ^ 63))) = CurrentHP c"
    "\<not> 0 < TempHP c \<Longrightarrow> TempHP (TakeDamage c (- (2 ^ 63))) = TempHP c
                      \<and> CurrentHP (TakeDamage c (- (2 ^ 63))) = 0"
proof -
  have w: "0 < TempHP c \<Longrightarrow> wrap64 (TempHP c + 2 ^ 63) = TempHP c + 2 ^ 63 - 2 ^ 64"
    using assms(4) by (intro wrap64_over) (auto simp: in_int64_def)
  have v: "wrap64 (CurrentHP c + 2 ^ 63) = CurrentHP c + 2 ^ 63 - 2 ^ 64"
    using assms(1-3) by (intro wrap64_over) (auto simp: in_int64_def)
  have w': "0 < TempHP c \<Longrightarrow> wrap64 (TempHP c + 9223372036854775808) = TempHP c - 9223372036854775808"
    using w by simp
  have v': "wrap64 (CurrentHP c + 9223372036854775808) = CurrentHP c - 9223372036854775808"
    using v by simp
  show "0 < TempHP c \<Longrightarrow> TempHP (TakeDamage c (- (2 ^ 63))) = TempHP c - 2 ^ 63
                      \<and> CurrentHP (TakeDamage c (- (2 ^ 63))) = CurrentHP c"
    using assms(4) by (simp add: TakeDamage_def w' in_int64_def)
  show "\<not> 0 < TempHP c \<Longrightarrow> TempHP (TakeDamage c (- (2 ^ 63))) = TempHP c
                      \<and> CurrentHP (TakeDamage c (- (2 ^ 63))) = 0"
    using assms(1-3) by (simp add: TakeDamage_def reduceHP_def Let_def v' in_int64_def)
qed

lemma Heal_no_overflow:
  assumes "0 \<le> CurrentHP c" "CurrentHP c \<le> MaxHP c" "0 \<le> amount" "CurrentHP c + amount < 2 ^ 63"
  shows "CurrentHP (Heal c amount) = min (MaxHP c) (CurrentHP c + amount)"
    "TempHP (Heal c amount) = TempHP c" "MaxHP (Heal c amount) = MaxHP c"
proof -
  have "wrap64 (CurrentHP c + amount) = CurrentHP c + amount"
    using assms by (intro wrap64_id) (auto simp: in_int64_def)
  then show "CurrentHP (Heal c amount) = min (MaxHP c) (CurrentHP c + amount)"
    "TempHP (Heal c amount) = TempHP c" "MaxHP (Heal c amount) = MaxHP c"
    by (auto simp: Heal_def Let_def)
qed

lemma neg_int64: "in_int64 d \<Longrightarrow> d < 0 \<Longrightarrow> (0 < wrap64 (- d) \<and> wrap64 (- d) < 2 ^ 63 \<and> wrap64 (- d) = - d \<and> d \<noteq> - (2 ^ 63)) \<or> (d = - (2 ^ 63) \<and> wrap64 (- d) = - (2 ^ 63))"
proof (cases "d = - (2 ^ 63)")
  case True
  then show ?thesis by (simp add: wrap64_def)
next
  case False
  assume "in_int64 d" "d < 0"
  with False have "in_int64 (- d)" by (auto simp: in_int64_def)
  then have "wrap64 (- d) = - d" by (rule wrap64_id)
  with False \<open>d < 0\<close> \<open>in_int64 (- d)\<close> show ?thesis by (auto simp: in_int64_def)
qed

lemma in_int64_int_of_float64 [simp]: "in_int64 (int_of_float64 q)"
  by (simp add: int_of_float64_def Let_def in_int64_def)

lemma addEvent_eq [simp]:
  "0 \<le> EventLog_MaxSize (EventLog (State s)) \<Longrightarrow> addEvent s e = Some (logEvent s e)"
  by (simp add: addEvent_def EventLog_Add_def keepLast_def logEvent_def Let_def)

lemma logEvent_simps [simp]:
  "Character (State (logEvent s e)) = Character (State s)"
  "World (State (logEvent s e)) = World (State s)"
  "Conversation (State (logEvent s e)) = Conversation (State s)"
  "SaveName (State (logEvent s e)) = SaveName (State s)"
  "EventLog_MaxSize (EventLog (State (logEvent s e))) = EventLog_MaxSize (EventLog (State s))"
  "Config (logEvent s e) = Config s"
  "IsModified (logEvent s e) = IsModified s"
  by (simp_all add: logEvent_def Let_def)

lemma session_simps [simp]:
  "Character (State (setCharacter s c)) = c"
  "World (State (setCharacter s c)) = World (State s)"
  "Conversation (State (setCharacter s c)) = Conversation (State s)"
  "EventLog (State (setCharacter s c)) = EventLog (State s)"
  "Config (setCharacter s c) = Config s"
  "IsModified (setCharacter s c) = IsModified s"
  "Character (State (setWorld s w)) = Character (State s)"
  "World (State (setWorld s w)) = w"
  "Conversation (State (setWorld s w)) = Conversation (State s)"
  "EventLog (State (setWorld s w)) = EventLog (State s)"
  "Config (setWorld s w) = Config s"
  "IsModified (setWorld s w) = IsModified s"
  "Character (State (setConversation s cv)) = Character (State s)"
  "World (State (setConversation s cv)) = World (State s)"
  "Conversation (State (setConversation s cv)) = cv"
  "EventLog (State (setConversation s cv)) = EventLog (State s)"
  "Config (setConversation s cv) = Config s"
  "IsModified (setConversation s cv) = IsModified s"
  "State (MarkModified s) = State s"
  "Config (MarkModified s) = Config s"
  "IsModified (MarkModified s)"
  by (simp_all add: setCharacter_def setWorld_def setConversation_def MarkModified_def)

section \<open>C6: update_hp\<close>

text \<open>
  Claim C6, as amended. For an \<^verbatim>\<open>update_hp\<close> invocation with the number \<open>q\<close> as delta, on
  a character \<open>c\<close> whose current hit points are in \<open>[0, MaxHP]\<close> (the maximum and the
  temporary hit points being values of \<^verbatim>\<open>int\<close>), \<^verbatim>\<open>Execute\<close> returns a success outcome
  and leaves a character \<open>c'\<close> with the same maximum. The delta is
  \<open>q\<close> converted to \<^verbatim>\<open>int\<close>. A negative delta other than the least \<^verbatim>\<open>int\<close>, \<open>-2^63\<close>, is
  absorbed by the temporary hit points first, and only the rest reduces the current hit
  points, not below 0. The least \<^verbatim>\<open>int\<close> is its own negation: positive temporary hit
  points wrap around to \<open>TempHP - 2^63\<close> and leave the current hit points as they are,
  and without temporary hit points the current hit points become 0. A delta that is
  not negative heals, up to the maximum, provided the sum of the current hit points and
  the delta fits \<^verbatim>\<open>int\<close>. Afterwards the current hit points are in \<open>[0, MaxHP]\<close> for every
  negative delta, and for every other delta whose sum with the current hit points fits
  \<^verbatim>\<open>int\<close>.
\<close>

theorem update_hp_outcome:
  assumes "ToolCall_Name call = ''update_hp''" and "Arguments call = Object args"
    and "argFloat64 args ''delta'' = Some q" and "delta = int_of_float64 q"
    and "c = Character (State s)"
    and "0 \<le> CurrentHP c" and "CurrentHP c \<le> MaxHP c"
    and "in_int64 (MaxHP c)" and "in_int64 (TempHP c)"
    and "0 \<le> EventLog_MaxSize (EventLog (State s))"
  shows "\<exists>res s' c'. Execute call s g = Some (res, s', g) \<and> Error res = []
       \<and> c' = Character (State s') \<and> MaxHP c' = MaxHP c
       \<and> (delta < 0 \<and> delta \<noteq> - (2 ^ 63) \<longrightarrow>
            TempHP c' = TempHP c - min (- delta) (max 0 (TempHP c))
          \<and> CurrentHP c' = max 0 (CurrentHP c - (- delta - min (- delta) (max 0 (TempHP c)))))
       \<and> (delta = - (2 ^ 63) \<longrightarrow>
            (if 0 < TempHP c then TempHP c' = TempHP c - 2 ^ 63 \<and> CurrentHP c' = CurrentHP c
             else TempHP c' = TempHP c \<and> CurrentHP c' = 0))
       \<and> (0 \<le> delta \<and> CurrentHP c + delta < 2 ^ 63 \<longrightarrow>
            TempHP c' = TempHP c \<and> CurrentHP c' = min (MaxHP c) (CurrentHP c + delta))
       \<and> (delta < 0 \<or> CurrentHP c + delta < 2 ^ 63 \<longrightarrow>
            0 \<le> CurrentHP c' \<and> CurrentHP c' \<le> MaxHP c')"
proof -
  define c' where "c' = (if delta < 0 then TakeDamage c (wrap64 (- delta)) else Heal c delta)"
  define reason where "reason = (if argStringOrEmpty args ''reason'' = [] then ''unknown'' else argStringOrEmpty args ''reason'')"
  define s' where "s' = logEvent (MarkModified (setCharacter s c')) (EventHPChange delta reason (CurrentHP c') (MaxHP c'))"
  define res where "res = contentResult (ToolCall_ID call)
                          (''HP changed by '' @ Itoa delta @ '' ('' @ reason @ ''). Current: ''
                             @ Itoa (CurrentHP c') @ ''/'' @ Itoa (MaxHP c'))"
  have u: "updateHP (ToolCall_ID call) args s = Some (res, s')"
    unfolding updateHP_def Let_def assms(3) assms(4)[symmetric] assms(5)[symmetric]
      c'_def[symmetric] reason_def[symmetric] option.case
    using assms(10) by (simp add: s'_def res_def)
  have r: "Execute call s g = Some (res, s', g)"
    using assms(1,2) u by (simp add: Execute_def keepRng_def)
  have cs: "Character (State s') = c'"
    by (simp add: s'_def)
  have d64: "in_int64 delta" by (simp add: assms(4))
  have A: "delta < 0 \<Longrightarrow> 0 \<le> CurrentHP c' \<and> CurrentHP c' \<le> MaxHP c' \<and> MaxHP c' = MaxHP c"
    using TakeDamage_range[OF assms(6-9), of "wrap64 (- delta)"] neg_int64[OF d64]
    by (auto simp: c'_def)
  have B: "delta < 0 \<Longrightarrow> delta \<noteq> - (2 ^ 63) \<Longrightarrow> TempHP c' = TempHP c - min (- delta) (max 0 (TempHP c))
          \<and> CurrentHP c' = max 0 (CurrentHP c - (- delta - min (- delta) (max 0 (TempHP c))))"
    using TakeDamage_absorbs[OF assms(6-9), of "- delta"] neg_int64[OF d64]
    by (auto simp: c'_def)
  have G: "delta = - (2 ^ 63) \<Longrightarrow>
            (if 0 < TempHP c then TempHP c' = TempHP c - 2 ^ 63 \<and> CurrentHP c' = CurrentHP c
             else TempHP c' = TempHP c \<and> CurrentHP c' = 0)"
  proof -
    assume l: "delta = - (2 ^ 63)"
    then have "wrap64 (- delta) = - (2 ^ 63)" using neg_int64[OF d64] by auto
    with l have "c' = TakeDamage c (- (2 ^ 63))" by (simp add: c'_def)
    with TakeDamage_least[OF assms(6-9)] show ?thesis by auto
  qed
  have C: "0 \<le> delta \<Longrightarrow> CurrentHP c + delta < 2 ^ 63 \<Longrightarrow> TempHP c' = TempHP c \<and> CurrentHP c' = min (MaxHP c) (CurrentHP c + delta) \<and> MaxHP c' = MaxHP c"
    using Heal_no_overflow[OF assms(6,7), of delta] by (auto simp: c'_def)
  have D: "MaxHP c' = MaxHP c"
    using A by (cases "delta < 0") (auto simp: c'_def Heal_def Let_def)
  have E: "delta < 0 \<or> CurrentHP c + delta < 2 ^ 63 \<Longrightarrow> 0 \<le> CurrentHP c' \<and> CurrentHP c' \<le> MaxHP c'"
  proof (cases "delta < 0")
    case True
    with A show ?thesis by simp
  next
    case False
    assume "delta < 0 \<or> CurrentHP c + delta < 2 ^ 63"
    with False C D assms(6,7) show ?thesis by auto
  qed
  have F: "Error res = []" by (simp add: res_def contentResult_def)
  show ?thesis
  proof (intro exI conjI)
    show "Execute call s g = Some (res, s', g)" by (rule r)
    show "Error res = []" by (rule F)
    show "c' = Character (State s')" by (rule cs[symmetric])
    show "MaxHP c' = MaxHP c" by (rule D)
    show "delta < 0 \<and> delta \<noteq> - (2 ^ 63) \<longrightarrow>
            TempHP c' = TempHP c - min (- delta) (max 0 (TempHP c))
          \<and> CurrentHP c' = max 0 (CurrentHP c - (- delta - min (- delta) (max 0 (TempHP c))))"
      using B by blast
    show "delta = - (2 ^ 63) \<longrightarrow>
            (if 0 < TempHP c then TempHP c' = TempHP c - 2 ^ 63 \<and> CurrentHP c' = CurrentHP c
             else TempHP c' = TempHP c \<and> CurrentHP c' = 0)"
      using G by blast
    show "0 \<le> delta \<and> CurrentHP c + delta < 2 ^ 63 \<longrightarrow>
            TempHP c' = TempHP c \<and> CurrentHP c' = min (MaxHP c) (CurrentHP c + delta)"
      using C by blast
    show "delta < 0 \<or> CurrentHP c + delta < 2 ^ 63 \<longrightarrow>
            0 \<le> CurrentHP c' \<and> CurrentHP c' \<le> MaxHP c'"
      using E by blast
  qed
qed

section \<open>Every tool call returns\<close>

lemma ParseDice_valid:
  "ParseDice n = Inr dr \<Longrightarrow> 1 \<le> NumDice dr \<and> NumDice dr \<le> 100 \<and> 1 \<le> DiceSides dr \<and> DiceSides dr \<le> 1000"
  by (auto simp: ParseDice_def Let_def split: option.splits if_splits)

lemma DiceRoll_Roll_Some:
  assumes "1 \<le> NumDice dr" "NumDice dr \<le> 100" "1 \<le> DiceSides dr" "DiceSides dr \<le> 1000"
  shows "\<exists>rolls g'. DiceRoll_Roll dr g
           = Some (dr\<lparr>Rolls := rolls, Total := wrap64 (sum_list rolls + DiceRoll_Modifier dr)\<rparr>, g')
         \<and> length rolls = nat (NumDice dr) \<and> (\<forall>r\<in>set rolls. 1 \<le> r \<and> r \<le> DiceSides dr)"
proof -
  have "0 \<le> (0::int)" "0 + int (nat (NumDice dr)) * 1000 \<le> 1000000" using assms by auto
  from rollLoop_ok[OF assms(3,4) this, of "[]" g]
  obtain new g' where n: "rollLoop (nat (NumDice dr)) (DiceSides dr) [] 0 g = Some (new, sum_list new, g')"
    "length new = nat (NumDice dr)" "\<forall>r\<in>set new. 1 \<le> r \<and> r \<le> DiceSides dr" by auto
  then show ?thesis using assms by (auto simp: DiceRoll_Roll_def)
qed

lemma sameFrame_simps [simp]:
  "sameFrame s s"
  "sameFrame s (logEvent s' e) = sameFrame s s'"
  "sameFrame s (MarkModified s') = sameFrame s s'"
  "sameFrame s (setCharacter s' c) = sameFrame s s'"
  "sameFrame s (setWorld s' w) = sameFrame s s'"
  by (simp_all add: sameFrame_def)

lemma rollDice_wf:
  assumes "0 \<le> EventLog_MaxSize (EventLog (State s))"
  shows "\<exists>res s' g'. rollDice callID args s g = Some (res, s', g') \<and> sameFrame s s'"
proof (cases "argString args ''notation''")
  case None
  then show ?thesis by (simp add: rollDice_def)
next
  case (Some nota)
  show ?thesis
  proof (cases "ParseDice nota")
    case (Inl err)
    with Some show ?thesis by (simp add: rollDice_def RollDice_def)
  next
    case (Inr dr)
    from DiceRoll_Roll_Some[of dr g] ParseDice_valid[OF Inr]
    obtain dr' g' where "DiceRoll_Roll dr g = Some (dr', g')" by blast
    with Some Inr assms show ?thesis
      by (simp add: rollDice_def RollDice_def Let_def)
  qed
qed

lemma RollD20_Some: "\<exists>r g' nt. RollD20 g = Some (\<lparr>Notation = nt, NumDice = 1, DiceSides = 20,
     DiceRoll_Modifier = 0, Rolls = [r], Total = r\<rparr>, g') \<and> 1 \<le> r \<and> r \<le> 20"
proof -
  define r where "r = int (g 0) mod 20"
  have r: "0 \<le> r" "r < 20" by (simp_all add: r_def)
  have w: "wrap64 (r + 1) = r + 1" "wrap64 (0 + (r + 1)) = r + 1" "wrap64 (r + 1 + 0) = r + 1"
    using r by (simp_all add: wrap64_small)
  have "\<exists>nt. RollD20 g = Some (\<lparr>Notation = nt, NumDice = 1, DiceSides = 20,
     DiceRoll_Modifier = 0, Rolls = [r + 1], Total = r + 1\<rparr>, \<lambda>i. g (Suc i))"
    by (simp add: RollD20_def Roll_def DiceRoll_Roll_def Intn_def r_def[symmetric] w Let_def)
  with r show ?thesis by auto
qed

lemma skillCheck_wf:
  assumes "0 \<le> EventLog_MaxSize (EventLog (State s))"
  shows "\<exists>res s' g'. skillCheck callID args s g = Some (res, s', g') \<and> sameFrame s s'"
proof -
  from RollD20_Some[of g] obtain r g' nt where "RollD20 g = Some (\<lparr>Notation = nt, NumDice = 1, DiceSides = 20,
     DiceRoll_Modifier = 0, Rolls = [r], Total = r\<rparr>, g')" by blast
  with assms show ?thesis
    by (auto simp: skillCheck_def checkOutcome_def Let_def split: option.splits)
qed

lemma savingThrow_wf:
  assumes "0 \<le> EventLog_MaxSize (EventLog (State s))"
  shows "\<exists>res s' g'. savingThrow callID args s g = Some (res, s', g') \<and> sameFrame s s'"
proof -
  from RollD20_Some[of g] obtain r g' nt where "RollD20 g = Some (\<lparr>Notation = nt, NumDice = 1, DiceSides = 20,
     DiceRoll_Modifier = 0, Rolls = [r], Total = r\<rparr>, g')" by blast
  with assms show ?thesis
    by (auto simp: savingThrow_def checkOutcome_def Let_def split: option.splits)
qed

lemma plain_handlers_wf:
  assumes "0 \<le> EventLog_MaxSize (EventLog (State s))"
  shows "\<exists>res s'. updateHP callID args s = Some (res, s') \<and> sameFrame s s'"
    "\<exists>res s'. addItem callID args s = Some (res, s') \<and> sameFrame s s'"
    "\<exists>res s'. removeItem callID args s = Some (res, s') \<and> sameFrame s s'"
    "\<exists>res s'. setCondition callID args s = Some (res, s') \<and> sameFrame s s'"
    "\<exists>res s'. updateGold callID args s = Some (res, s') \<and> sameFrame s s'"
    "\<exists>res s'. awardXP callID args s = Some (res, s') \<and> sameFrame s s'"
    "\<exists>res s'. setLocation callID args s = Some (res, s') \<and> sameFrame s s'"
    "\<exists>res s'. addQuest callID args s = Some (res, s') \<and> sameFrame s s'"
  using assms
  by (auto simp: updateHP_def addItem_def removeItem_def setCondition_def updateGold_def
      awardXP_def setLocation_def addQuest_def Let_def split: option.splits prod.splits)

lemma Execute_wf:
  assumes "0 \<le> EventLog_MaxSize (EventLog (State s))"
  shows "\<exists>res s' g'. Execute call s g = Some (res, s', g') \<and> sameFrame s s'"
proof (cases "Arguments call")
  case (Malformed err)
  then show ?thesis by (simp add: Execute_def)
next
  case (Object args)
  note h = plain_handlers_wf[OF assms, of "ToolCall_ID call" args]
    rollDice_wf[OF assms, of "ToolCall_ID call" args g]
    skillCheck_wf[OF assms, of "ToolCall_ID call" args g]
    savingThrow_wf[OF assms, of "ToolCall_ID call" args g]
  show ?thesis
    unfolding Execute_def Object arguments.case Let_def
    using h by (auto simp: keepRng_def)
qed

section \<open>The example data\<close>

lemma exampleSession_log: "0 \<le> EventLog_MaxSize (EventLog (State exampleSession))"
  "0 \<le> EventLog_MaxSize (EventLog (State sturdySession))"
  by code_simp+

lemma Execute_update_hp:
  assumes "ToolCall_Name call = ''update_hp''" and "Arguments call = Object args"
    and "argFloat64 args ''delta'' = Some q"
    and "0 \<le> EventLog_MaxSize (EventLog (State s))"
    and "c' = (if int_of_float64 q < 0
               then TakeDamage (Character (State s)) (wrap64 (- int_of_float64 q))
               else Heal (Character (State s)) (int_of_float64 q))"
    and "reason = (if argStringOrEmpty args ''reason'' = [] then ''unknown''
                   else argStringOrEmpty args ''reason'')"
  shows "Execute call s g
     = Some (contentResult (ToolCall_ID call)
               (''HP changed by '' @ Itoa (int_of_float64 q) @ '' ('' @ reason @ ''). Current: ''
                  @ Itoa (CurrentHP c') @ ''/'' @ Itoa (MaxHP c')),
             logEvent (MarkModified (setCharacter s c'))
               (EventHPChange (int_of_float64 q) reason (CurrentHP c') (MaxHP c')), g)"
proof -
  have "updateHP (ToolCall_ID call) args s
     = Some (contentResult (ToolCall_ID call)
               (''HP changed by '' @ Itoa (int_of_float64 q) @ '' ('' @ reason @ ''). Current: ''
                  @ Itoa (CurrentHP c') @ ''/'' @ Itoa (MaxHP c')),
             logEvent (MarkModified (setCharacter s c'))
               (EventHPChange (int_of_float64 q) reason (CurrentHP c') (MaxHP c')))"
    unfolding updateHP_def Let_def assms(3) assms(5)[symmetric] assms(6)[symmetric] option.case
    using assms(4) by simp
  then show ?thesis
    using assms(1,2) by (simp add: Execute_def keepRng_def)
qed

text \<open>
  Claim C6 as first stated (for a delta of any magnitude) fails where the addition of
  \<^verbatim>\<open>Heal\<close> wraps around: 2000 hit points of 3000 and the delta \<open>2^63 - 1024\<close>, which a
  \<^verbatim>\<open>float64\<close> holds exactly, leave negative hit points.
\<close>

theorem update_hp_overflow_counterexample:
  "0 \<le> CurrentHP (Character (State sturdySession))
   \<and> CurrentHP (Character (State sturdySession)) \<le> MaxHP (Character (State sturdySession))
   \<and> map_option (CurrentHP \<circ> Character \<circ> State \<circ> fst \<circ> snd)
         (Execute (toolCall ''update_hp'' [(''delta'', JNumber 9223372036854774784),
                                           (''reason'', JString ''blessing'')])
            sturdySession exampleRng)
       = Some (- 9223372036854774832)"
proof -
  have d: "int_of_float64 9223372036854774784 = 9223372036854774784"
    by (simp add: int_of_float64_def in_int64_def)
  have c: "CurrentHP (Character (State sturdySession)) = 2000"
    "MaxHP (Character (State sturdySession)) = 3000"
    by code_simp+
  have h: "CurrentHP (Heal (Character (State sturdySession)) 9223372036854774784)
     = - 9223372036854774832"
    by (simp add: Heal_def c wrap64_def Let_def)
  have a: "argFloat64 [(''delta'', JNumber 9223372036854774784), (''reason'', JString ''blessing'')] ''delta''
     = Some 9223372036854774784"
    by (simp add: argFloat64_def)
  have n: "ToolCall_Name (toolCall ''update_hp'' [(''delta'', JNumber 9223372036854774784),
                                           (''reason'', JString ''blessing'')]) = ''update_hp''"
    "Arguments (toolCall ''update_hp'' [(''delta'', JNumber 9223372036854774784),
                                           (''reason'', JString ''blessing'')])
       = Object [(''delta'', JNumber 9223372036854774784), (''reason'', JString ''blessing'')]"
    by (simp_all add: toolCall_def)
  note e = Execute_update_hp[OF n a exampleSession_log(2) refl refl, of exampleRng]
  show ?thesis
    by (simp add: e d h c)
qed

section \<open>C1: ability modifiers\<close>

text \<open>
  Claim C1 says that the modifier of a score \<open>s\<close> is \<open>floor((s - 10) / 2)\<close>. The division
  of \<^verbatim>\<open>Modifier\<close> truncates towards zero instead: the score 9 has the modifier 0, where
  the floor is \<open>-1\<close>, and a character with dexterity 9 has the bonus 0 on a skill of
  dexterity without proficiency.
\<close>

theorem Modifier_truncates_towards_zero:
  "Modifier 9 = 0 \<and> \<lfloor>(9 - 10) / (2::real)\<rfloor> = - 1
   \<and> Get (Abilities exampleCharacter) DEX_Ability = 9
   \<and> SkillBonus exampleCharacter ''Stealth'' = 0"
  by code_simp

text \<open>
  Claim C2 as first stated (the call fails when the stack holds less than requested)
  fails on two potions and a request for five: the outcome is a success and the stack
  is gone.
\<close>

theorem remove_item_insufficient_counterexample:
  "Quantity potions < 5
   \<and> Inventory (Character (State exampleSession)) = [potions]
   \<and> map_option (Error \<circ> fst)
         (Execute (toolCall ''remove_item'' [(''item'', JString ''Potion''), (''quantity'', JNumber 5)])
            exampleSession exampleRng) = Some []
   \<and> map_option (Content \<circ> fst)
         (Execute (toolCall ''remove_item'' [(''item'', JString ''Potion''), (''quantity'', JNumber 5)])
            exampleSession exampleRng) = Some ''Removed 5x Potion from inventory''
   \<and> map_option (Inventory \<circ> Character \<circ> State \<circ> fst \<circ> snd)
         (Execute (toolCall ''remove_item'' [(''item'', JString ''Potion''), (''quantity'', JNumber 5)])
            exampleSession exampleRng) = Some []"
  by code_simp

lemma ParseDice_examples:
  "ParseDice ''1d20'' = Inr \<lparr>Notation = ''1d20'', NumDice = 1, DiceSides = 20,
      DiceRoll_Modifier = 0, Rolls = [], Total = 0\<rparr>"
  "ParseDice ''d20'' = Inr \<lparr>Notation = ''d20'', NumDice = 1, DiceSides = 20,
      DiceRoll_Modifier = 0, Rolls = [], Total = 0\<rparr>"
  "ParseDice ''2d6+5'' = Inr \<lparr>Notation = ''2d6+5'', NumDice = 2, DiceSides = 6,
      DiceRoll_Modifier = 5, Rolls = [], Total = 0\<rparr>"
  "ParseDice ''1d20-2'' = Inr \<lparr>Notation = ''1d20-2'', NumDice = 1, DiceSides = 20,
      DiceRoll_Modifier = - 2, Rolls = [], Total = 0\<rparr>"
  "ParseDice [] = Inl (InvalidNotation [])"
  "ParseDice ''invalid'' = Inl (InvalidNotation ''invalid'')"
  "ParseDice ''1d'' = Inl (InvalidNotation ''1d'')"
  "ParseDice ''d'' = Inl (InvalidNotation ''d'')"
  "ParseDice ''1d0'' = Inl SidesOutOfRange"
  by code_simp+

text \<open>
  Claim C4 as first stated (success exactly when the notation matches with count and
  sides in range) fails where the modifier does not fit \<^verbatim>\<open>int\<close>: \<^verbatim>\<open>strconv.Atoi\<close>
  reports a range error and \<^verbatim>\<open>ParseDice\<close> returns its error for an invalid modifier.
\<close>

theorem ParseDice_modifier_range_counterexample:
  "matchesGrammar (ToLower (TrimSpace ''1d20+9223372036854775808''))
     ''1'' ''20'' ''+9223372036854775808''
   \<and> 1 \<le> countOf ''1'' \<and> countOf ''1'' \<le> 100 \<and> 1 \<le> decimal ''20'' \<and> decimal ''20'' \<le> 1000
   \<and> ParseDice ''1d20+9223372036854775808'' = Inl (InvalidModifier ''+9223372036854775808'')"
  by code_simp

section \<open>C4: which notations ParseDice accepts\<close>

text \<open>
  Claim C4, as amended. \<^verbatim>\<open>ParseDice\<close> succeeds with the roll specification \<open>dr\<close> exactly when
  the trimmed, lower-cased notation matches \<^verbatim>\<open>[count]d<sides>[+|-modifier]\<close> with the
  count (1 when omitted) in \<open>[1, 100]\<close>, the sides in \<open>[1, 1000]\<close> and the signed modifier
  within the range of \<^verbatim>\<open>int\<close>, and \<open>dr\<close> holds that count, sides and modifier. The
  notations \<^verbatim>\<open>1d20\<close>, \<^verbatim>\<open>d20\<close>, \<^verbatim>\<open>2d6+5\<close> and \<^verbatim>\<open>1d20-2\<close> are accepted with the expected
  numbers; the empty notation, \<^verbatim>\<open>invalid\<close>, \<^verbatim>\<open>1d\<close>, \<^verbatim>\<open>d\<close> and \<^verbatim>\<open>1d0\<close> are rejected.
\<close>

theorem ParseDice_accepts_grammar:
  "(ParseDice s = Inr dr \<longleftrightarrow>
     (\<exists>cnt sides md. matchesGrammar (ToLower (TrimSpace s)) cnt sides md
        \<and> 1 \<le> countOf cnt \<and> countOf cnt \<le> 100 \<and> 1 \<le> decimal sides \<and> decimal sides \<le> 1000
        \<and> in_int64 (modifierOf md)
        \<and> dr = \<lparr>Notation = ToLower (TrimSpace s), NumDice = countOf cnt,
                  DiceSides = decimal sides, DiceRoll_Modifier = modifierOf md, Rolls = [],
                  Total = 0\<rparr>))
   \<and> ParseDice ''1d20'' = Inr \<lparr>Notation = ''1d20'', NumDice = 1, DiceSides = 20,
         DiceRoll_Modifier = 0, Rolls = [], Total = 0\<rparr>
   \<and> ParseDice ''d20'' = Inr \<lparr>Notation = ''d20'', NumDice = 1, DiceSides = 20,
         DiceRoll_Modifier = 0, Rolls = [], Total = 0\<rparr>
   \<and> ParseDice ''2d6+5'' = Inr \<lparr>Notation = ''2d6+5'', NumDice = 2, DiceSides = 6,
         DiceRoll_Modifier = 5, Rolls = [], Total = 0\<rparr>
   \<and> ParseDice ''1d20-2'' = Inr \<lparr>Notation = ''1d20-2'', NumDice = 1, DiceSides = 20,
         DiceRoll_Modifier = - 2, Rolls = [], Total = 0\<rparr>
   \<and> ParseDice [] = Inl (InvalidNotation [])
   \<and> ParseDice ''invalid'' = Inl (InvalidNotation ''invalid'')
   \<and> ParseDice ''1d'' = Inl (InvalidNotation ''1d'')
   \<and> ParseDice ''d'' = Inl (InvalidNotation ''d'')
   \<and> ParseDice ''1d0'' = Inl SidesOutOfRange"
  by (intro conjI ParseDice_examples) (rule ParseDice_grammar)

text \<open>
  The theorem at the notation \<^verbatim>\<open> 3D8-1 \<close>, which \<^verbatim>\<open>ParseDice\<close> accepts.
\<close>

theorem ParseDice_accepts_grammar_witness:
  "\<exists>cnt sides md. matchesGrammar (ToLower (TrimSpace '' 3D8-1 '')) cnt sides md
      \<and> countOf cnt = 3 \<and> decimal sides = 8 \<and> modifierOf md = - 1"
proof -
  have "ParseDice '' 3D8-1 '' = Inr \<lparr>Notation = ''3d8-1'', NumDice = 3, DiceSides = 8,
      DiceRoll_Modifier = - 1, Rolls = [], Total = 0\<rparr>"
    by code_simp
  with ParseDice_accepts_grammar[of "'' 3D8-1 ''" "\<lparr>Notation = ''3d8-1'', NumDice = 3, DiceSides = 8,
      DiceRoll_Modifier = - 1, Rolls = [], Total = 0\<rparr>", THEN conjunct1]
  obtain cnt sides md where g: "matchesGrammar (ToLower (TrimSpace '' 3D8-1 '')) cnt sides md"
    and v: "\<lparr>Notation = ''3d8-1'', NumDice = 3, DiceSides = 8,
      DiceRoll_Modifier = - 1, Rolls = [], Total = 0\<rparr>
      = \<lparr>Notation = ToLower (TrimSpace '' 3D8-1 ''), NumDice = countOf cnt,
                  DiceSides = decimal sides, DiceRoll_Modifier = modifierOf md, Rolls = [],
                  Total = 0\<rparr>"
    by blast
  from v have "countOf cnt = 3" "decimal sides = 8" "modifierOf md = - 1" by simp_all
  with g show ?thesis by blast
qed

text \<open>
  Claim C5 as first stated (the total is the sum of the rolls plus the modifier, for
  every valid specification) fails where the addition wraps around: \<^verbatim>\<open>ParseDice\<close> accepts
  \<^verbatim>\<open>1d20+9223372036854775807\<close>, the die shows 4, and the total is \<open>-9223372036854775805\<close>.
\<close>

theorem Roll_total_wraps_counterexample:
  "ParseDice ''1d20+9223372036854775807'' = Inr oneD20plusMax
   \<and> map_option (Rolls \<circ> fst) (DiceRoll_Roll oneD20plusMax exampleRng) = Some [4]
   \<and> map_option (Total \<circ> fst) (DiceRoll_Roll oneD20plusMax exampleRng)
       = Some (- 9223372036854775805)
   \<and> sum_list [4] + DiceRoll_Modifier oneD20plusMax \<noteq> - 9223372036854775805"
  by code_simp

text \<open>
  The theorem at \<^verbatim>\<open>2d6+5\<close> with the source 3, 4, 5, ...: the dice show 4 and 5, the
  total is 14, and a second roll of the rolled specification again holds two rolls.
\<close>

theorem Roll_results_witness:
  "1 \<le> NumDice twoD6plus5 \<and> NumDice twoD6plus5 \<le> 100
   \<and> 1 \<le> DiceSides twoD6plus5 \<and> DiceSides twoD6plus5 \<le> 1000
   \<and> ParseDice ''2d6+5'' = Inr twoD6plus5
   \<and> (\<exists>dr' g'. DiceRoll_Roll twoD6plus5 exampleRng = Some (dr', g')
          \<and> Roller_Roll exampleRng ''2d6+5'' = Inr (Some (dr', g'))
          \<and> Rolls dr' = [4, 5] \<and> Total dr' = 14
          \<and> (\<forall>r\<in>set (Rolls dr'). 1 \<le> r \<and> r \<le> 6)
          \<and> map_option (Rolls \<circ> fst) (DiceRoll_Roll dr' exampleRng) = Some [4, 5])"
proof -
  have h: "1 \<le> NumDice twoD6plus5" "NumDice twoD6plus5 \<le> 100"
    "1 \<le> DiceSides twoD6plus5" "DiceSides twoD6plus5 \<le> 1000"
    by code_simp+
  have p: "ParseDice ''2d6+5'' = Inr twoD6plus5" by code_simp
  have e: "map_option fst (DiceRoll_Roll twoD6plus5 exampleRng)
             = Some (twoD6plus5\<lparr>Rolls := [4, 5], Total := 14\<rparr>)"
    by code_simp
  have s: "DiceSides twoD6plus5 = 6" by code_simp
  from Roll_results[OF h, of exampleRng] obtain dr' g' where
    r: "DiceRoll_Roll twoD6plus5 exampleRng = Some (dr', g')"
       "\<forall>r\<in>set (Rolls dr'). 1 \<le> r \<and> r \<le> DiceSides twoD6plus5"
       "\<forall>g2. DiceRoll_Roll dr' g2 = DiceRoll_Roll twoD6plus5 g2"
       "\<forall>notation. ParseDice notation = Inr twoD6plus5 \<longrightarrow> Roller_Roll exampleRng notation = Inr (Some (dr', g'))"
    by blast
  from r(1) e have d: "dr' = twoD6plus5\<lparr>Rolls := [4, 5], Total := 14\<rparr>" by simp
  have "map_option (Rolls \<circ> fst) (DiceRoll_Roll dr' exampleRng) = Some [4, 5]"
    using r(3) r(1) d by (simp add: option.map_comp[symmetric] del: option.map_comp) 
  with h p r d s show ?thesis by auto
qed

text \<open>
  The theorem at the dice 3, 1, 1, 6: of the two lowest dice the first is dropped.
\<close>

theorem RollAbilityScore_drops_lowest_witness:
  "\<exists>dr g'. RollAbilityScore tiedDice = Some (dr, g')
      \<and> map (\<lambda>i. int (tiedDice i) mod 6 + 1) [0, 1, 2, 3] = [3, 1, 1, 6]
      \<and> Rolls dr = [3, 1, 6] \<and> Total dr = 10 \<and> 3 \<le> Total dr \<and> Total dr \<le> 18"
proof -
  have e: "map_option fst (RollAbilityScore tiedDice)
     = Some \<lparr>Notation = ''4d6 drop lowest'', NumDice = 4, DiceSides = 6,
              DiceRoll_Modifier = 0, Rolls = [3, 1, 6], Total = 10\<rparr>"
    by code_simp
  have m: "map (\<lambda>i. int (tiedDice i) mod 6 + 1) [0, 1, 2, 3] = [3, 1, 1, 6]"
    by code_simp
  from RollAbilityScore_drops_lowest[of tiedDice] obtain dr g' where
    r: "RollAbilityScore tiedDice = Some (dr, g')" "3 \<le> Total dr" "Total dr \<le> 18"
    by blast
  with e m show ?thesis by auto
qed

text \<open>
  The theorem at a damage of 5 with 3 temporary hit points (10 hit points become 8),
  at a healing of 1500 from 2000 of 3000 hit points, and at the delta \<open>-2^63\<close> with 3
  temporary hit points, which become \<open>3 - 2^63\<close> while the 10 hit points stay.
\<close>

theorem update_hp_outcome_witness:
  "(\<exists>res s'. Execute (toolCall ''update_hp'' [(''delta'', JNumber (- 5)), (''reason'', JString ''arrow'')])
                  exampleSession exampleRng = Some (res, s', exampleRng)
        \<and> TempHP (Character (State exampleSession)) = 3
        \<and> CurrentHP (Character (State exampleSession)) = 10
        \<and> TempHP (Character (State s')) = 0 \<and> CurrentHP (Character (State s')) = 8)
   \<and> (\<exists>res s'. Execute (toolCall ''update_hp'' [(''delta'', JNumber 1500)])
                  sturdySession exampleRng = Some (res, s', exampleRng)
        \<and> CurrentHP (Character (State sturdySession)) = 2000
        \<and> MaxHP (Character (State sturdySession)) = 3000
        \<and> CurrentHP (Character (State s')) = 3000)
   \<and> (\<exists>res s'. Execute (toolCall ''update_hp'' [(''delta'', JNumber (- 9223372036854775808))])
                  exampleSession exampleRng = Some (res, s', exampleRng)
        \<and> TempHP (Character (State s')) = - 9223372036854775805
        \<and> CurrentHP (Character (State s')) = 10)"
proof -
  have c: "TempHP (Character (State exampleSession)) = 3"
    "CurrentHP (Character (State exampleSession)) = 10"
    "MaxHP (Character (State exampleSession)) = 10"
    "CurrentHP (Character (State sturdySession)) = 2000"
    "MaxHP (Character (State sturdySession)) = 3000"
    "TempHP (Character (State sturdySession)) = 3"
    by code_simp+
  have d: "int_of_float64 (- 5) = - 5" "int_of_float64 1500 = 1500"
    "int_of_float64 (- 9223372036854775808) = - 9223372036854775808"
    by (simp_all add: int_of_float64_def in_int64_def)
  have A: "\<exists>res s'. Execute (toolCall ''update_hp'' [(''delta'', JNumber (- 5)), (''reason'', JString ''arrow'')])
                  exampleSession exampleRng = Some (res, s', exampleRng)
        \<and> TempHP (Character (State exampleSession)) = 3
        \<and> CurrentHP (Character (State exampleSession)) = 10
        \<and> TempHP (Character (State s')) = 0 \<and> CurrentHP (Character (State s')) = 8"
    using update_hp_outcome[of "toolCall ''update_hp'' [(''delta'', JNumber (- 5)), (''reason'', JString ''arrow'')]"
        "[(''delta'', JNumber (- 5)), (''reason'', JString ''arrow'')]" "- 5" "- 5"
        "Character (State exampleSession)" exampleSession exampleRng] exampleSession_log
    by (auto simp: toolCall_def argFloat64_def d c in_int64_def)
  have B: "\<exists>res s'. Execute (toolCall ''update_hp'' [(''delta'', JNumber 1500)])
                  sturdySession exampleRng = Some (res, s', exampleRng)
        \<and> CurrentHP (Character (State sturdySession)) = 2000
        \<and> MaxHP (Character (State sturdySession)) = 3000
        \<and> CurrentHP (Character (State s')) = 3000"
    using update_hp_outcome[of "toolCall ''update_hp'' [(''delta'', JNumber 1500)]"
        "[(''delta'', JNumber 1500)]" "1500" "1500"
        "Character (State sturdySession)" sturdySession exampleRng] exampleSession_log
    by (auto simp: toolCall_def argFloat64_def d c in_int64_def)
  have C: "\<exists>res s'. Execute (toolCall ''update_hp'' [(''delta'', JNumber (- 9223372036854775808))])
                  exampleSession exampleRng = Some (res, s', exampleRng)
        \<and> TempHP (Character (State s')) = - 9223372036854775805
        \<and> CurrentHP (Character (State s')) = 10"
    using update_hp_outcome[of "toolCall ''update_hp'' [(''delta'', JNumber (- 9223372036854775808))]"
        "[(''delta'', JNumber (- 9223372036854775808))]" "- 9223372036854775808"
        "- 9223372036854775808" "Character (State exampleSession)" exampleSession exampleRng]
      exampleSession_log
    by (auto simp: toolCall_def argFloat64_def d c in_int64_def)
  show ?thesis by (intro conjI A B C)
qed

text \<open>
  Claim C9 as first stated (a missing description is an error that leaves the location
  unchanged) fails on a call that gives only the name: the outcome is a success and the
  location is replaced.
\<close>

theorem set_location_without_description_counterexample:
  "argString [(''name'', JString ''Cave'')] ''description'' = None
   \<and> Location_Name (CurrentLocation (World (State exampleSession))) = ''Unknown''
   \<and> map_option (Error \<circ> fst)
         (Execute (toolCall ''set_location'' [(''name'', JString ''Cave'')])
            exampleSession exampleRng) = Some []
   \<and> map_option (CurrentLocation \<circ> World \<circ> State \<circ> fst \<circ> snd)
         (Execute (toolCall ''set_location'' [(''name'', JString ''Cave'')])
            exampleSession exampleRng)
       = Some \<lparr>Location_Name = ''Cave'', Location_Description = [], Exits = []\<rparr>"
  by code_simp

text \<open>
  The theorem at a call without a name, and at a call with only a name.
\<close>

theorem set_location_outcome_witness:
  "Execute (toolCall ''set_location'' [(''description'', JString ''A dark cave'')])
      exampleSession exampleRng
     = Some (errorResult ''call_1'' (missingParam ''name''), exampleSession, exampleRng)
   \<and> (\<exists>s'. Execute (toolCall ''set_location'' [(''name'', JString ''Cave'')])
               exampleSession exampleRng
             = Some (contentResult ''call_1'' ''Moved to: Cave'', s', exampleRng)
          \<and> Location_Name (CurrentLocation (World (State s'))) = ''Cave''
          \<and> Location_Description (CurrentLocation (World (State s'))) = [])"
proof -
  have A: "Execute (toolCall ''set_location'' [(''description'', JString ''A dark cave'')])
      exampleSession exampleRng
     = Some (errorResult ''call_1'' (missingParam ''name''), exampleSession, exampleRng)"
    using set_location_outcome[of "toolCall ''set_location'' [(''description'', JString ''A dark cave'')]"
        "[(''description'', JString ''A dark cave'')]" exampleSession exampleRng] exampleSession_log
    by (simp add: toolCall_def argString_def)
  have B: "\<exists>s'. Execute (toolCall ''set_location'' [(''name'', JString ''Cave'')])
               exampleSession exampleRng
             = Some (contentResult ''call_1'' ''Moved to: Cave'', s', exampleRng)
          \<and> Location_Name (CurrentLocation (World (State s'))) = ''Cave''
          \<and> Location_Description (CurrentLocation (World (State s'))) = []"
    using set_location_outcome[of "toolCall ''set_location'' [(''name'', JString ''Cave'')]"
        "[(''name'', JString ''Cave'')]" exampleSession exampleRng,
        THEN conjunct2, rule_format, of "''Cave''"] exampleSession_log
    by (auto simp: toolCall_def argString_def)
  show ?thesis by (intro conjI A B)
qed


text \<open>
  The theorem at an inventory of two potions: removing a sword is an error that leaves
  the session as it was, removing five potions deletes the stack, removing one leaves
  one.
\<close>

theorem remove_item_outcome_witness:
  "Execute (toolCall ''remove_item'' [(''item'', JString ''Sword'')]) exampleSession exampleRng
     = Some (errorResult ''call_1'' (''Item '' @ quoted ''Sword'' @ '' not found in inventory''),
             exampleSession, exampleRng)
   \<and> (\<exists>s'. Execute (toolCall ''remove_item'' [(''item'', JString ''Potion''), (''quantity'', JNumber 5)])
               exampleSession exampleRng
             = Some (contentResult ''call_1'' (''Removed '' @ Itoa 5 @ ''x Potion from inventory''),
                     s', exampleRng)
          \<and> Inventory (Character (State s')) = [] \<and> IsModified s')
   \<and> (\<exists>s'. Execute (toolCall ''remove_item'' [(''item'', JString ''Potion'')])
               exampleSession exampleRng
             = Some (contentResult ''call_1'' (''Removed '' @ Itoa 1 @ ''x Potion from inventory''),
                     s', exampleRng)
          \<and> Inventory (Character (State s')) = [potions\<lparr>Quantity := 1\<rparr>])"
proof -
  have i: "Inventory (Character (State exampleSession)) = [] @ potions # []"
    "Item_Name potions = ''Potion''" "Quantity potions = 2"
    by code_simp+
  have w: "wrap64 (2 - 1) = 1" by code_simp
  have a: "\<forall>it\<in>set (Inventory (Character (State exampleSession))). Item_Name it \<noteq> ''Sword''"
    by (simp add: i)
  have A: "Execute (toolCall ''remove_item'' [(''item'', JString ''Sword'')]) exampleSession exampleRng
     = Some (errorResult ''call_1'' (''Item '' @ quoted ''Sword'' @ '' not found in inventory''),
             exampleSession, exampleRng)"
    using remove_item_outcome[of "toolCall ''remove_item'' [(''item'', JString ''Sword'')]"
        "[(''item'', JString ''Sword'')]" "''Sword''" 1 exampleSession exampleRng] a exampleSession_log
    by (simp add: toolCall_def argString_def argFloat64_def)
  have B: "\<exists>s'. Execute (toolCall ''remove_item'' [(''item'', JString ''Potion''), (''quantity'', JNumber 5)])
               exampleSession exampleRng
             = Some (contentResult ''call_1'' (''Removed '' @ Itoa 5 @ ''x Potion from inventory''),
                     s', exampleRng)
          \<and> Inventory (Character (State s')) = [] \<and> IsModified s'"
    using remove_item_outcome[of "toolCall ''remove_item'' [(''item'', JString ''Potion''), (''quantity'', JNumber 5)]"
        "[(''item'', JString ''Potion''), (''quantity'', JNumber 5)]" "''Potion''" 5 exampleSession exampleRng,
        THEN conjunct2, rule_format, of "[]" potions "[]"] i exampleSession_log
    by (auto simp: toolCall_def argString_def argFloat64_def int_of_float64_def in_int64_def)
  have C: "\<exists>s'. Execute (toolCall ''remove_item'' [(''item'', JString ''Potion'')])
               exampleSession exampleRng
             = Some (contentResult ''call_1'' (''Removed '' @ Itoa 1 @ ''x Potion from inventory''),
                     s', exampleRng)
          \<and> Inventory (Character (State s')) = [potions\<lparr>Quantity := 1\<rparr>]"
    using remove_item_outcome[of "toolCall ''remove_item'' [(''item'', JString ''Potion'')]"
        "[(''item'', JString ''Potion'')]" "''Potion''" 1 exampleSession exampleRng,
        THEN conjunct2, rule_format, of "[]" potions "[]"] i exampleSession_log w
    by (auto simp: toolCall_def argString_def argFloat64_def)
  show ?thesis by (intro conjI A B C)
qed

section \<open>The orchestrator loop\<close>

lemma runTools_append:
  "runTools (xs @ ys) s g
     = (case runTools xs s g of None \<Rightarrow> None | Some (s', g') \<Rightarrow> runTools ys s' g')"
  by (induction xs arbitrary: s g) (auto split: option.splits)

lemma sameFrame_refl: "sameFrame s s"
  by (simp add: sameFrame_def)

lemma sameFrame_trans: "sameFrame s s1 \<Longrightarrow> sameFrame s1 s2 \<Longrightarrow> sameFrame s s2"
  by (simp add: sameFrame_def)

lemma executeToolCalls_wf:
  assumes "0 \<le> EventLog_MaxSize (EventLog (State s))"
  shows "\<exists>req' response' s' g'. executeToolCalls tcs req response s g = Some (req', response', s', g')
          \<and> runTools tcs s g = Some (s', g') \<and> sameFrame s s'
          \<and> Narrative response' = Narrative response \<and> TokensUsed response' = TokensUsed response
          \<and> LatencyMs response' = LatencyMs response \<and> Response_Error response' = Response_Error response"
  using assms
proof (induction tcs arbitrary: req response s g)
  case Nil
  show ?case by (simp add: sameFrame_refl)
next
  case (Cons tc tcs)
  from Execute_wf[OF Cons.prems, of "ConvertToolCallToTypesFormat tc" g]
  obtain res s1 g1 where e: "Execute (ConvertToolCallToTypesFormat tc) s g = Some (res, s1, g1)"
    and f: "sameFrame s s1" by blast
  from f Cons.prems have w: "0 \<le> EventLog_MaxSize (EventLog (State s1))" by (simp add: sameFrame_def)
  define req1 where "req1 = req\<lparr>Request_Messages := Request_Messages req @
     [\<lparr>Msg_Role = RoleTool, Msg_Content = (if Error res \<noteq> [] then ''Error: '' @ Error res else Content res),
       Msg_Name = [], Msg_ToolCalls = [], Msg_ToolCallID = ToolCallInfo_ID tc\<rparr>]\<rparr>"
  define response1 where "response1 = (if Error res \<noteq> []
                           then response\<lparr>Response_Events :=
                                  Response_Events response @ [EventError (Error res)]\<rparr>
                           else response)"
  from Cons.IH[OF w, of req1 response1 g1]
  obtain req' response' s' g' where i: "executeToolCalls tcs req1 response1 s1 g1 = Some (req', response', s', g')"
    "runTools tcs s1 g1 = Some (s', g')" "sameFrame s1 s'"
    "Narrative response' = Narrative response1" "TokensUsed response' = TokensUsed response1"
    "LatencyMs response' = LatencyMs response1" "Response_Error response' = Response_Error response1"
    by blast
  have x: "executeToolCalls (tc # tcs) req response s g = Some (req', response', s', g')"
    unfolding executeToolCalls.simps e option.case prod.case Let_def
    using i(1) by (simp only: req1_def response1_def)
  have y: "runTools (tc # tcs) s g = Some (s', g')" using e i(2) by simp
  have z: "sameFrame s s'" using f i(3) by (rule sameFrame_trans)
  have r: "Narrative response1 = Narrative response" "TokensUsed response1 = TokensUsed response"
    "LatencyMs response1 = LatencyMs response" "Response_Error response1 = Response_Error response"
    by (simp_all add: response1_def)
  show ?case
  proof (intro exI conjI)
    show "executeToolCalls (tc # tcs) req response s g = Some (req', response', s', g')" by (rule x)
    show "runTools (tc # tcs) s g = Some (s', g')" by (rule y)
    show "sameFrame s s'" by (rule z)
    show "Narrative response' = Narrative response" using i(4) r(1) by simp
    show "TokensUsed response' = TokensUsed response" using i(5) r(2) by simp
    show "LatencyMs response' = LatencyMs response" using i(6) r(3) by simp
    show "Response_Error response' = Response_Error response" using i(7) r(4) by simp
  qed
qed

lemma toolLoop_exhausted:
  "\<not> i < maxToolIterations \<Longrightarrow>
   toolLoop pr i req lat tok t
     = Some (t\<lparr>Turn_Response := (Turn_Response t)
                 \<lparr>Response_Error := Some MaxIterations, LatencyMs := lat, TokensUsed := tok\<rparr>\<rparr>)"
  by (subst toolLoop.simps) simp

lemma toolLoop_failed:
  "i < maxToolIterations \<Longrightarrow> Chat pr (Turn_Provider t) req = ((r, Some err), p') \<Longrightarrow>
   toolLoop pr i req lat tok t
     = Some (t\<lparr>Turn_Response := (Turn_Response t)\<lparr>Response_Error := Some (RequestFailed err)\<rparr>,
               Turn_Provider := p', Turn_Calls := Turn_Calls t @ [(req, r, Some err)]\<rparr>)"
  by (subst toolLoop.simps) (cases r; simp)

lemma toolLoop_panic:
  "i < maxToolIterations \<Longrightarrow> Chat pr (Turn_Provider t) req = ((None, None), p') \<Longrightarrow>
   toolLoop pr i req lat tok t = None"
  by (subst toolLoop.simps) simp

lemma toolLoop_answered:
  "i < maxToolIterations \<Longrightarrow> Chat pr (Turn_Provider t) req = ((Some resp, None), p') \<Longrightarrow>
   Resp_ToolCalls resp = [] \<Longrightarrow>
   AddAssistantMessage (Conversation (State (Turn_Session t))) (Resp_Content resp) = Some conv \<Longrightarrow>
   toolLoop pr i req lat tok t
     = Some (t\<lparr>Turn_Provider := p', Turn_Calls := Turn_Calls t @ [(req, Some resp, None)],
               Turn_Response := (Turn_Response t)
                 \<lparr>Narrative := Resp_Content resp, LatencyMs := wrap64 (lat + Latency resp),
                  TokensUsed := wrap64 (tok + TotalTokens (Usage resp))\<rparr>,
               Turn_Session := MarkModified (setConversation (Turn_Session t) conv)\<rparr>)"
  by (subst toolLoop.simps) (simp add: Let_def)

lemma toolLoop_tools:
  "i < maxToolIterations \<Longrightarrow> Chat pr (Turn_Provider t) req = ((Some resp, None), p') \<Longrightarrow>
   Resp_ToolCalls resp \<noteq> [] \<Longrightarrow>
   executeToolCalls (Resp_ToolCalls resp)
     (req\<lparr>Request_Messages := Request_Messages req
            @ [\<lparr>Msg_Role = RoleAssistant, Msg_Content = Resp_Content resp,
                Msg_Name = [], Msg_ToolCalls = Resp_ToolCalls resp, Msg_ToolCallID = []\<rparr>]\<rparr>)
     (Turn_Response t) (Turn_Session t) (Turn_Rng t) = Some (req', response', s', g') \<Longrightarrow>
   toolLoop pr i req lat tok t
     = toolLoop pr (Suc i) req' (wrap64 (lat + Latency resp))
         (wrap64 (tok + TotalTokens (Usage resp)))
         (t\<lparr>Turn_Provider := p', Turn_Calls := Turn_Calls t @ [(req, Some resp, None)],
            Turn_Response := response', Turn_Session := s', Turn_Rng := g'\<rparr>)"
  by (subst toolLoop.simps) (simp add: Let_def)

lemma outcome_simps:
  "failed (r, Some err)" "\<not> failed (r, None)"
  "\<not> askedTools (r, Some err)" "askedTools (Some resp, None) \<longleftrightarrow> Resp_ToolCalls resp \<noteq> []"
  "\<not> askedTools (None, e)"
  "\<not> answered (r, Some err)" "answered (Some resp, None) \<longleftrightarrow> Resp_ToolCalls resp = []"
  "\<not> answered (None, e)"
  "tokensOf (Some resp, e) = TotalTokens (Usage resp)"
  "latencyOf (Some resp, e) = Latency resp"
  "contentOf (Some resp, e) = Resp_Content resp"
  "toolCallsOf (Some resp, e) = Resp_ToolCalls resp"
  "errorOf (r, Some err) = err"
  by (auto simp: failed_def askedTools_def answered_def tokensOf_def latencyOf_def contentOf_def
        toolCallsOf_def errorOf_def split: option.splits)

lemma ranTools_simps:
  "ranTools [] = []"
  "askedTools out \<Longrightarrow> ranTools (out # outs) = toolCallsOf out @ ranTools outs"
  "\<not> askedTools out \<Longrightarrow> ranTools (out # outs) = ranTools outs"
  by (simp_all add: ranTools_def)

lemma AddAssistantMessage_Some:
  "0 \<le> Conversation_MaxSize c \<Longrightarrow> \<exists>conv. AddAssistantMessage c content = Some conv"
  by (simp add: AddAssistantMessage_def Conversation_Add_def keepLast_def)

lemma toolLoop_inv:
  assumes "maxToolIterations - i = n"
    and "0 \<le> Conversation_MaxSize (Conversation (State (Turn_Session t)))"
    and "0 \<le> EventLog_MaxSize (EventLog (State (Turn_Session t)))"
    and "\<forall>p req. fst (Chat pr p req) \<noteq> (None, None)"
  shows "\<exists>t' new sr. toolLoop pr i req lat tok t = Some t'
      \<and> Turn_Calls t' = Turn_Calls t @ new
      \<and> traceOk (maxToolIterations - i) (map snd new)
      \<and> (\<forall>c\<in>set new. \<exists>p'. fst (Chat pr p' (fst c)) = snd c)
      \<and> Response_Error (Turn_Response t') = finalError (Response_Error (Turn_Response t)) (map snd new)
      \<and> TokensUsed (Turn_Response t') = finalTotal tokensOf (TokensUsed (Turn_Response t)) tok (map snd new)
      \<and> LatencyMs (Turn_Response t') = finalTotal latencyOf (LatencyMs (Turn_Response t)) lat (map snd new)
      \<and> Narrative (Turn_Response t') = finalNarrative (Narrative (Turn_Response t)) (map snd new)
      \<and> runTools (ranTools (map snd new)) (Turn_Session t) (Turn_Rng t) = Some (sr, Turn_Rng t')
      \<and> sameFrame (Turn_Session t) sr
      \<and> Turn_Session t' = finalSession sr (map snd new)"
  using assms
proof (induction n arbitrary: i req lat tok t)
  case 0
  then have e: "\<not> i < maxToolIterations" by simp
  then have z: "maxToolIterations - i = 0" by simp
  show ?case
    unfolding toolLoop_exhausted[OF e] z
    by (rule exI[of _ "t\<lparr>Turn_Response := (Turn_Response t)
                 \<lparr>Response_Error := Some MaxIterations, LatencyMs := lat, TokensUsed := tok\<rparr>\<rparr>"],
        rule exI[of _ "[]"], rule exI[of _ "Turn_Session t"])
       (simp add: ranTools_simps sameFrame_refl)
next
  case (Suc n)
  then have lt: "i < maxToolIterations" and n: "maxToolIterations - Suc i = n"
    and pos: "0 < maxToolIterations - i" and m1: "maxToolIterations - i - 1 = n" by simp_all
  note wfc = Suc.prems(2) and wfe = Suc.prems(3) and tot = Suc.prems(4)
  obtain r e p' where c: "Chat pr (Turn_Provider t) req = ((r, e), p')"
    by (metis surj_pair)
  from tot c have ne: "(r, e) \<noteq> (None, None)" by (metis fst_conv)
  have fc: "\<exists>p'. fst (Chat pr p' req) = (r, e)" using c by (metis fst_conv)
  show ?case
  proof (cases e)
    case (Some err)
    note c' = c[unfolded Some]
    show ?thesis
      unfolding toolLoop_failed[OF lt c']
      by (rule exI[of _ "t\<lparr>Turn_Response := (Turn_Response t)\<lparr>Response_Error := Some (RequestFailed err)\<rparr>,
               Turn_Provider := p', Turn_Calls := Turn_Calls t @ [(req, r, Some err)]\<rparr>"],
          rule exI[of _ "[(req, r, Some err)]"], rule exI[of _ "Turn_Session t"])
         (use pos fc Some in \<open>simp add: outcome_simps ranTools_simps sameFrame_refl\<close>)
  next
    case None
    with ne obtain resp where r: "r = Some resp" by (cases r) auto
    note c' = c[unfolded None r]
    show ?thesis
    proof (cases "Resp_ToolCalls resp = []")
      case True
      from AddAssistantMessage_Some[OF wfc] obtain conv where
        a: "AddAssistantMessage (Conversation (State (Turn_Session t))) (Resp_Content resp) = Some conv"
        by blast
      show ?thesis
        unfolding toolLoop_answered[OF lt c' True a]
        by (rule exI[of _ "t\<lparr>Turn_Provider := p', Turn_Calls := Turn_Calls t @ [(req, Some resp, None)],
               Turn_Response := (Turn_Response t)
                 \<lparr>Narrative := Resp_Content resp, LatencyMs := wrap64 (lat + Latency resp),
                  TokensUsed := wrap64 (tok + TotalTokens (Usage resp))\<rparr>,
               Turn_Session := MarkModified (setConversation (Turn_Session t) conv)\<rparr>"],
            rule exI[of _ "[(req, Some resp, None)]"], rule exI[of _ "Turn_Session t"])
           (use pos fc None r True a in \<open>simp add: outcome_simps ranTools_simps sameFrame_refl\<close>)
    next
      case False
      define req1 where "req1 = req\<lparr>Request_Messages := Request_Messages req
            @ [\<lparr>Msg_Role = RoleAssistant, Msg_Content = Resp_Content resp,
                Msg_Name = [], Msg_ToolCalls = Resp_ToolCalls resp, Msg_ToolCallID = []\<rparr>]\<rparr>"
      from executeToolCalls_wf[OF wfe, of "Resp_ToolCalls resp" req1 "Turn_Response t" "Turn_Rng t"]
      obtain req' response' s' g' where
        x: "executeToolCalls (Resp_ToolCalls resp) req1 (Turn_Response t) (Turn_Session t) (Turn_Rng t)
              = Some (req', response', s', g')"
        and rt: "runTools (Resp_ToolCalls resp) (Turn_Session t) (Turn_Rng t) = Some (s', g')"
        and sf: "sameFrame (Turn_Session t) s'"
        and keep: "Narrative response' = Narrative (Turn_Response t)"
          "TokensUsed response' = TokensUsed (Turn_Response t)"
          "LatencyMs response' = LatencyMs (Turn_Response t)"
          "Response_Error response' = Response_Error (Turn_Response t)"
        by blast
      define t1 where "t1 = t\<lparr>Turn_Provider := p', Turn_Calls := Turn_Calls t @ [(req, Some resp, None)],
            Turn_Response := response', Turn_Session := s', Turn_Rng := g'\<rparr>"
      have t1: "Turn_Response t1 = response'" "Turn_Session t1 = s'" "Turn_Rng t1 = g'"
        "Turn_Calls t1 = Turn_Calls t @ [(req, Some resp, None)]"
        by (simp_all add: t1_def)
      have w1: "0 \<le> Conversation_MaxSize (Conversation (State (Turn_Session t1)))"
        "0 \<le> EventLog_MaxSize (EventLog (State (Turn_Session t1)))"
        using sf wfc wfe by (simp_all add: t1 sameFrame_def)
      have step: "toolLoop pr i req lat tok t
         = toolLoop pr (Suc i) req' (wrap64 (lat + Latency resp))
             (wrap64 (tok + TotalTokens (Usage resp))) t1"
        unfolding t1_def by (rule toolLoop_tools[OF lt c' False x[unfolded req1_def]])
      from Suc.IH[OF n w1 tot, of req' "wrap64 (lat + Latency resp)"
          "wrap64 (tok + TotalTokens (Usage resp))"]
      obtain t' new sr where
        ih: "toolLoop pr (Suc i) req' (wrap64 (lat + Latency resp))
               (wrap64 (tok + TotalTokens (Usage resp))) t1 = Some t'"
          "Turn_Calls t' = Turn_Calls t1 @ new"
          "traceOk (maxToolIterations - Suc i) (map snd new)"
          "\<forall>c\<in>set new. \<exists>p'. fst (Chat pr p' (fst c)) = snd c"
          "Response_Error (Turn_Response t') = finalError (Response_Error (Turn_Response t1)) (map snd new)"
          "TokensUsed (Turn_Response t') = finalTotal tokensOf (TokensUsed (Turn_Response t1))
               (wrap64 (tok + TotalTokens (Usage resp))) (map snd new)"
          "LatencyMs (Turn_Response t') = finalTotal latencyOf (LatencyMs (Turn_Response t1))
               (wrap64 (lat + Latency resp)) (map snd new)"
          "Narrative (Turn_Response t') = finalNarrative (Narrative (Turn_Response t1)) (map snd new)"
          "runTools (ranTools (map snd new)) (Turn_Session t1) (Turn_Rng t1) = Some (sr, Turn_Rng t')"
          "sameFrame (Turn_Session t1) sr"
          "Turn_Session t' = finalSession sr (map snd new)"
        by blast
      have asked: "askedTools (Some resp, None)" "\<not> failed (Some resp, None)"
        "\<not> answered (Some resp, None)"
        using False by (simp_all add: outcome_simps)
      show ?thesis
      proof (intro exI conjI)
        show "toolLoop pr i req lat tok t = Some t'" using step ih(1) by simp
        show "Turn_Calls t' = Turn_Calls t @ ((req, Some resp, None) # new)"
          using ih(2) by (simp add: t1)
        show "traceOk (maxToolIterations - i) (map snd ((req, Some resp, None) # new))"
          using ih(3) pos asked n m1 by simp
        show "\<forall>c\<in>set ((req, Some resp, None) # new). \<exists>p'. fst (Chat pr p' (fst c)) = snd c"
          using ih(4) fc None r by simp
        show "Response_Error (Turn_Response t')
            = finalError (Response_Error (Turn_Response t)) (map snd ((req, Some resp, None) # new))"
          using ih(5) asked keep by (simp add: t1)
        show "TokensUsed (Turn_Response t')
            = finalTotal tokensOf (TokensUsed (Turn_Response t)) tok (map snd ((req, Some resp, None) # new))"
          using ih(6) asked keep by (simp add: t1 outcome_simps)
        show "LatencyMs (Turn_Response t')
            = finalTotal latencyOf (LatencyMs (Turn_Response t)) lat (map snd ((req, Some resp, None) # new))"
          using ih(7) asked keep by (simp add: t1 outcome_simps)
        show "Narrative (Turn_Response t')
            = finalNarrative (Narrative (Turn_Response t)) (map snd ((req, Some resp, None) # new))"
          using ih(8) asked keep by (simp add: t1)
        show "runTools (ranTools (map snd ((req, Some resp, None) # new))) (Turn_Session t) (Turn_Rng t)
            = Some (sr, Turn_Rng t')"
          using ih(9) asked rt by (simp add: t1 ranTools_simps runTools_append outcome_simps)
        show "sameFrame (Turn_Session t) sr"
          using sf ih(10) by (simp add: t1 sameFrame_def)
        show "Turn_Session t' = finalSession sr (map snd ((req, Some resp, None) # new))"
          using ih(11) asked by simp
      qed
    qed
  qed
qed

lemma traceOk_length: "traceOk n outs \<Longrightarrow> length outs \<le> n"
proof (induction outs arbitrary: n)
  case Nil
  then show ?case by simp
next
  case (Cons out outs)
  show ?case
  proof (cases "askedTools out")
    case True
    with Cons.prems have "traceOk (n - 1) outs" "0 < n" by simp_all
    with Cons.IH[of "n - 1"] show ?thesis by simp
  next
    case False
    with Cons.prems show ?thesis by simp
  qed
qed

lemma traceOk_nonempty: "traceOk n outs \<Longrightarrow> 0 < n \<Longrightarrow> outs \<noteq> []"
  by (cases outs) simp_all

lemma traceOk_butlast: "traceOk n outs \<Longrightarrow> list_all askedTools (butlast outs)"
proof (induction outs arbitrary: n)
  case Nil
  then show ?case by simp
next
  case (Cons out outs)
  show ?case
  proof (cases "askedTools out")
    case True
    with Cons.prems have "traceOk (n - 1) outs" by simp
    with Cons.IH[of "n - 1"] True show ?thesis by simp
  next
    case False
    with Cons.prems show ?thesis by simp
  qed
qed

lemma traceOk_full: "traceOk n outs \<Longrightarrow> list_all askedTools outs \<Longrightarrow> length outs = n"
proof (induction outs arbitrary: n)
  case Nil
  then show ?case by simp
next
  case (Cons out outs)
  then have "traceOk (n - 1) outs" "0 < n" "list_all askedTools outs" by simp_all
  with Cons.IH[of "n - 1"] show ?case by simp
qed

lemma asked_not_failed: "askedTools out \<Longrightarrow> \<not> failed out"
  by (cases out) (auto simp: askedTools_def failed_def split: option.splits)

lemma asked_not_answered: "askedTools out \<Longrightarrow> \<not> answered out"
  by (cases out) (auto simp: askedTools_def answered_def split: option.splits)

lemma answered_not_failed: "answered out \<Longrightarrow> \<not> failed out"
  by (cases out) (auto simp: answered_def failed_def split: option.splits)

lemma outcome_cases: "out \<noteq> (None, None) \<Longrightarrow> failed out \<or> askedTools out \<or> answered out"
  by (cases out) (auto simp: askedTools_def answered_def failed_def split: option.splits)

lemma wrap64_add_left: "wrap64 (wrap64 a + b) = wrap64 (a + b)"
proof -
  have "(wrap64 a + b + 2 ^ 63) mod 2 ^ 64 = ((a + 2 ^ 63) mod 2 ^ 64 + b) mod 2 ^ 64"
    by (simp add: wrap64_def)
  also have "\<dots> = (a + 2 ^ 63 + b) mod 2 ^ 64" by (rule mod_add_left_eq)
  also have "\<dots> = (a + b + 2 ^ 63) mod 2 ^ 64" by (simp add: algebra_simps)
  finally show ?thesis unfolding wrap64_def[of "wrap64 a + b"] wrap64_def[of "a + b"] by simp
qed

lemma finalTotal_sum:
  "traceOk n outs \<Longrightarrow> outs = [] \<or> \<not> failed (last outs) \<Longrightarrow> in_int64 acc \<Longrightarrow>
   finalTotal f old acc outs = wrap64 (acc + sum_list (map f outs))"
proof (induction outs arbitrary: n acc)
  case Nil
  then show ?case by (simp add: wrap64_id)
next
  case (Cons out outs)
  show ?case
  proof (cases "askedTools out")
    case True
    with Cons.prems have t: "traceOk (n - 1) outs" by simp
    from Cons.prems(2) True have l: "outs = [] \<or> \<not> failed (last outs)" by auto
    have "finalTotal f old (wrap64 (acc + f out)) outs
        = wrap64 (wrap64 (acc + f out) + sum_list (map f outs))"
      by (rule Cons.IH[OF t l]) simp
    also have "\<dots> = wrap64 (acc + f out + sum_list (map f outs))" by (rule wrap64_add_left)
    finally show ?thesis using True by (simp add: asked_not_failed add.assoc)
  next
    case False
    with Cons.prems have "outs = []" "\<not> failed out" by auto
    with False show ?thesis by simp
  qed
qed

lemma final_exhausted:
  "traceOk n outs \<Longrightarrow> list_all askedTools outs \<Longrightarrow>
   finalError e outs = Some MaxIterations \<and> finalSession sr outs = sr
   \<and> ranTools outs = concat (map toolCallsOf outs)"
proof (induction outs arbitrary: n)
  case Nil
  then show ?case by (simp add: ranTools_simps)
next
  case (Cons out outs)
  then have t: "traceOk (n - 1) outs" and a: "askedTools out" "list_all askedTools outs"
    by simp_all
  from Cons.IH[OF t a(2)] a(1) show ?case
    by (simp add: asked_not_failed asked_not_answered ranTools_simps)
qed

lemma final_answered:
  "traceOk n outs \<Longrightarrow> outs \<noteq> [] \<Longrightarrow> answered (last outs) \<Longrightarrow>
   finalError e outs = e \<and> finalNarrative old outs = contentOf (last outs)
   \<and> finalSession sr outs
       = (case AddAssistantMessage (Conversation (State sr)) (contentOf (last outs)) of
            Some conv \<Rightarrow> MarkModified (setConversation sr conv) | None \<Rightarrow> sr)
   \<and> ranTools outs = concat (map toolCallsOf (butlast outs))"
proof (induction outs arbitrary: n)
  case Nil
  then show ?case by simp
next
  case (Cons out outs)
  show ?case
  proof (cases "askedTools out")
    case True
    with Cons.prems have t: "traceOk (n - 1) outs" by simp
    from Cons.prems(3) True have ne: "outs \<noteq> []" by (auto simp: asked_not_answered)
    with Cons.prems(3) have l: "answered (last outs)" by simp
    from Cons.IH[OF t ne l] True ne show ?thesis
      by (simp add: asked_not_failed asked_not_answered ranTools_simps)
  next
    case False
    with Cons.prems have "outs = []" "answered out" by auto
    with False show ?thesis by (simp add: answered_not_failed ranTools_simps)
  qed
qed



lemma AddUserMessage_Some:
  "0 \<le> Conversation_MaxSize c \<Longrightarrow>
   \<exists>conv. AddUserMessage c content = Some conv \<and> Conversation_MaxSize conv = Conversation_MaxSize c"
  by (simp add: AddUserMessage_def Conversation_Add_def keepLast_def)


lemma ProcessInput_trace:
  assumes "0 \<le> Conversation_MaxSize (Conversation (State s))"
    and "0 \<le> EventLog_MaxSize (EventLog (State s))"
    and "\<forall>p req. fst (Chat pr p req) \<noteq> (None, None)"
  shows "\<exists>t conv sr. ProcessInput (Some pr) p s g input = Some t
      \<and> AddUserMessage (Conversation (State s)) input = Some conv
      \<and> traceOk maxToolIterations (map snd (Turn_Calls t))
      \<and> (\<forall>c\<in>set (Turn_Calls t). \<exists>p'. fst (Chat pr p' (fst c)) = snd c)
      \<and> Response_Error (Turn_Response t) = finalError None (map snd (Turn_Calls t))
      \<and> TokensUsed (Turn_Response t) = finalTotal tokensOf 0 0 (map snd (Turn_Calls t))
      \<and> LatencyMs (Turn_Response t) = finalTotal latencyOf 0 0 (map snd (Turn_Calls t))
      \<and> Narrative (Turn_Response t) = finalNarrative [] (map snd (Turn_Calls t))
      \<and> runTools (ranTools (map snd (Turn_Calls t))) (setConversation s conv) g
           = Some (sr, Turn_Rng t)
      \<and> sameFrame (setConversation s conv) sr
      \<and> Turn_Session t = finalSession sr (map snd (Turn_Calls t))"
proof -
  from AddUserMessage_Some[OF assms(1)] obtain conv where
    u: "AddUserMessage (Conversation (State s)) input = Some conv"
    and m: "Conversation_MaxSize conv = Conversation_MaxSize (Conversation (State s))" by blast
  define s1 where "s1 = setConversation s conv"
  define response where "response = \<lparr>Narrative = [], Response_Events = [], TokensUsed = 0,
     LatencyMs = 0, Response_Error = None\<rparr>"
  define t0 where "t0 = \<lparr>Turn_Response = response, Turn_Session = s1, Turn_Provider = p,
     Turn_Rng = g, Turn_Calls = []\<rparr>"
  define req where "req = \<lparr>Request_Messages = buildMessages s1, Tools = GetToolDefinitions,
                             Request_Model = Model (Config s1),
                             Request_Temperature = Temperature (Config s1),
                             Request_MaxTokens = MaxTokens (Config s1)\<rparr>"
  have pi: "ProcessInput (Some pr) p s g input = toolLoop pr 0 req 0 0 t0"
    by (simp add: ProcessInput_def Let_def u t0_def req_def s1_def response_def)
  have t0: "Turn_Response t0 = response" "Turn_Session t0 = s1" "Turn_Rng t0 = g"
    "Turn_Calls t0 = []" by (simp_all add: t0_def)
  have w: "0 \<le> Conversation_MaxSize (Conversation (State (Turn_Session t0)))"
    "0 \<le> EventLog_MaxSize (EventLog (State (Turn_Session t0)))"
    using assms(1,2) m by (simp_all add: t0 s1_def)
  from toolLoop_inv[OF refl w assms(3), of 0 req 0 0]
  obtain t' new sr where
    ih: "toolLoop pr 0 req 0 0 t0 = Some t'"
      "Turn_Calls t' = Turn_Calls t0 @ new"
      "traceOk (maxToolIterations - 0) (map snd new)"
      "\<forall>c\<in>set new. \<exists>p'. fst (Chat pr p' (fst c)) = snd c"
      "Response_Error (Turn_Response t') = finalError (Response_Error (Turn_Response t0)) (map snd new)"
      "TokensUsed (Turn_Response t') = finalTotal tokensOf (TokensUsed (Turn_Response t0)) 0 (map snd new)"
      "LatencyMs (Turn_Response t') = finalTotal latencyOf (LatencyMs (Turn_Response t0)) 0 (map snd new)"
      "Narrative (Turn_Response t') = finalNarrative (Narrative (Turn_Response t0)) (map snd new)"
      "runTools (ranTools (map snd new)) (Turn_Session t0) (Turn_Rng t0) = Some (sr, Turn_Rng t')"
      "sameFrame (Turn_Session t0) sr"
      "Turn_Session t' = finalSession sr (map snd new)"
    by blast
  have n: "new = Turn_Calls t'" using ih(2) by (simp add: t0)
  have r: "Response_Error response = None" "TokensUsed response = 0" "LatencyMs response = 0"
    "Narrative response = []" by (simp_all add: response_def)
  show ?thesis
  proof (intro exI conjI)
    show "ProcessInput (Some pr) p s g input = Some t'" using pi ih(1) by simp
    show "AddUserMessage (Conversation (State s)) input = Some conv" by (rule u)
    show "traceOk maxToolIterations (map snd (Turn_Calls t'))" using ih(3) n by simp
    show "\<forall>c\<in>set (Turn_Calls t'). \<exists>p'. fst (Chat pr p' (fst c)) = snd c" using ih(4) n by simp
    show "Response_Error (Turn_Response t') = finalError None (map snd (Turn_Calls t'))"
      using ih(5) n by (simp add: t0 r)
    show "TokensUsed (Turn_Response t') = finalTotal tokensOf 0 0 (map snd (Turn_Calls t'))"
      using ih(6) n by (simp add: t0 r)
    show "LatencyMs (Turn_Response t') = finalTotal latencyOf 0 0 (map snd (Turn_Calls t'))"
      using ih(7) n by (simp add: t0 r)
    show "Narrative (Turn_Response t') = finalNarrative [] (map snd (Turn_Calls t'))"
      using ih(8) n by (simp add: t0 r)
    show "runTools (ranTools (map snd (Turn_Calls t'))) (setConversation s conv) g
           = Some (sr, Turn_Rng t')"
      using ih(9) n by (simp add: t0 s1_def)
    show "sameFrame (setConversation s conv) sr" using ih(10) by (simp add: t0 s1_def)
    show "Turn_Session t' = finalSession sr (map snd (Turn_Calls t'))" using ih(11) n by simp
  qed
qed

section \<open>C3: the bound on the round trips\<close>

text \<open>
  Claim C3, as amended. Let the conversation and the event log of the session have
  bounds that are not negative, and let every call of \<^verbatim>\<open>Chat\<close> return a response or an
  error. Then \<^verbatim>\<open>ProcessInput\<close> returns. With \<open>outs\<close> the outcomes of the calls of \<^verbatim>\<open>Chat\<close> it
  made, in order: each is what \<^verbatim>\<open>Chat\<close> returned for the request of that call; there is
  at least one and there are at most 5; every outcome before the last is a response
  with tool calls. When the last outcome is a response without tool calls,
  \<^verbatim>\<open>ProcessInput\<close> returns no error and the narrative is the content of that response.
  When the last outcome has tool calls too, there were 5 calls and the error is the
  iteration limit. In both cases the response carries the tokens and the latency of
  all outcomes added up in the arithmetic of \<^verbatim>\<open>int\<close> and \<^verbatim>\<open>int64\<close>: the sums whenever
  they fit, and the sums wrapped around otherwise. A provider that never returns tool
  calls is called exactly once.
\<close>

theorem ProcessInput_round_trips:
  assumes "0 \<le> Conversation_MaxSize (Conversation (State s))"
    and "0 \<le> EventLog_MaxSize (EventLog (State s))"
    and "\<forall>p req. fst (Chat pr p req) \<noteq> (None, None)"
  shows "\<exists>t outs. ProcessInput (Some pr) p s g input = Some t
      \<and> outs = map snd (Turn_Calls t)
      \<and> (\<forall>c\<in>set (Turn_Calls t). \<exists>p'. fst (Chat pr p' (fst c)) = snd c)
      \<and> outs \<noteq> [] \<and> length outs \<le> 5
      \<and> list_all askedTools (butlast outs)
      \<and> (answered (last outs) \<longrightarrow>
            Response_Error (Turn_Response t) = None
          \<and> Narrative (Turn_Response t) = contentOf (last outs))
      \<and> (askedTools (last outs) \<longrightarrow>
            length outs = 5 \<and> Response_Error (Turn_Response t) = Some MaxIterations)
      \<and> (\<not> failed (last outs) \<longrightarrow>
            TokensUsed (Turn_Response t) = wrap64 (sum_list (map tokensOf outs))
          \<and> LatencyMs (Turn_Response t) = wrap64 (sum_list (map latencyOf outs))
          \<and> (in_int64 (sum_list (map tokensOf outs)) \<longrightarrow>
                TokensUsed (Turn_Response t) = sum_list (map tokensOf outs))
          \<and> (in_int64 (sum_list (map latencyOf outs)) \<longrightarrow>
                LatencyMs (Turn_Response t) = sum_list (map latencyOf outs)))
      \<and> ((\<forall>p req. \<not> askedTools (fst (Chat pr p req))) \<longrightarrow> length outs = 1)"
proof -
  from ProcessInput_trace[OF assms, of p g input] obtain t where
    pi: "ProcessInput (Some pr) p s g input = Some t"
    and tr: "traceOk maxToolIterations (map snd (Turn_Calls t))"
    and fc: "\<forall>c\<in>set (Turn_Calls t). \<exists>p'. fst (Chat pr p' (fst c)) = snd c"
    and er: "Response_Error (Turn_Response t) = finalError None (map snd (Turn_Calls t))"
    and tk: "TokensUsed (Turn_Response t) = finalTotal tokensOf 0 0 (map snd (Turn_Calls t))"
    and la: "LatencyMs (Turn_Response t) = finalTotal latencyOf 0 0 (map snd (Turn_Calls t))"
    and na: "Narrative (Turn_Response t) = finalNarrative [] (map snd (Turn_Calls t))"
    by blast
  define outs where "outs = map snd (Turn_Calls t)"
  note tr = tr[folded outs_def] and er = er[folded outs_def] and tk = tk[folded outs_def]
    and la = la[folded outs_def] and na = na[folded outs_def]
  have ne: "outs \<noteq> []" using traceOk_nonempty[OF tr] by (simp add: maxToolIterations_def)
  have le: "length outs \<le> 5" using traceOk_length[OF tr] by (simp add: maxToolIterations_def)
  have bl: "list_all askedTools (butlast outs)" by (rule traceOk_butlast[OF tr])
  have an: "answered (last outs) \<Longrightarrow>
      Response_Error (Turn_Response t) = None \<and> Narrative (Turn_Response t) = contentOf (last outs)"
    using final_answered[OF tr ne, of None "[]"] er na by simp
  have all: "askedTools (last outs) \<Longrightarrow> list_all askedTools outs"
  proof -
    assume "askedTools (last outs)"
    with bl have "list_all askedTools (butlast outs @ [last outs])" by simp
    with ne show ?thesis by simp
  qed
  have ex: "askedTools (last outs) \<Longrightarrow>
      length outs = 5 \<and> Response_Error (Turn_Response t) = Some MaxIterations"
    using traceOk_full[OF tr all] final_exhausted[OF tr all, of None] er
    by (simp add: maxToolIterations_def)
  have z: "in_int64 0" by (simp add: in_int64_def)
  have su: "\<not> failed (last outs) \<Longrightarrow>
       TokensUsed (Turn_Response t) = wrap64 (sum_list (map tokensOf outs))
     \<and> LatencyMs (Turn_Response t) = wrap64 (sum_list (map latencyOf outs))"
    using finalTotal_sum[OF tr _ z, of tokensOf 0] finalTotal_sum[OF tr _ z, of latencyOf 0] tk la
    by simp
  have one: "\<forall>p req. \<not> askedTools (fst (Chat pr p req)) \<Longrightarrow> length outs = 1"
  proof -
    assume a: "\<forall>p req. \<not> askedTools (fst (Chat pr p req))"
    have "\<forall>out\<in>set outs. \<not> askedTools out"
    proof
      fix out assume "out \<in> set outs"
      then obtain c where "c \<in> set (Turn_Calls t)" "out = snd c" by (auto simp: outs_def)
      with fc obtain p' where "fst (Chat pr p' (fst c)) = out" by auto
      with a show "\<not> askedTools out" by metis
    qed
    moreover have "set (butlast outs) \<subseteq> set outs" by (auto dest: in_set_butlastD)
    ultimately have "butlast outs = []" using bl
      by (cases "butlast outs") (auto simp: list_all_iff)
    with ne show ?thesis by (cases outs) (auto split: if_splits)
  qed
  show ?thesis
  proof (intro exI conjI)
    show "ProcessInput (Some pr) p s g input = Some t" by (rule pi)
    show "outs = map snd (Turn_Calls t)" by (rule outs_def)
    show "\<forall>c\<in>set (Turn_Calls t). \<exists>p'. fst (Chat pr p' (fst c)) = snd c" by (rule fc)
    show "outs \<noteq> []" by (rule ne)
    show "length outs \<le> 5" by (rule le)
    show "list_all askedTools (butlast outs)" by (rule bl)
    show "answered (last outs) \<longrightarrow>
            Response_Error (Turn_Response t) = None
          \<and> Narrative (Turn_Response t) = contentOf (last outs)"
      using an by blast
    show "askedTools (last outs) \<longrightarrow>
            length outs = 5 \<and> Response_Error (Turn_Response t) = Some MaxIterations"
      using ex by blast
    show "\<not> failed (last outs) \<longrightarrow>
            TokensUsed (Turn_Response t) = wrap64 (sum_list (map tokensOf outs))
          \<and> LatencyMs (Turn_Response t) = wrap64 (sum_list (map latencyOf outs))
          \<and> (in_int64 (sum_list (map tokensOf outs)) \<longrightarrow>
                TokensUsed (Turn_Response t) = sum_list (map tokensOf outs))
          \<and> (in_int64 (sum_list (map latencyOf outs)) \<longrightarrow>
                LatencyMs (Turn_Response t) = sum_list (map latencyOf outs))"
      using su by (simp add: wrap64_id)
    show "(\<forall>p req. \<not> askedTools (fst (Chat pr p req))) \<longrightarrow> length outs = 1"
      using one by blast
  qed
qed

section \<open>C7: a failing backend call\<close>


section \<open>Turns with the example providers\<close>

lemma scriptedProvider_total:
  "(None, None) \<notin> set script \<Longrightarrow> rest \<noteq> (None, None) \<Longrightarrow>
   \<forall>p req. fst (Chat (scriptedProvider script rest) p req) \<noteq> (None, None)"
  by (auto simp: scriptedProvider_def dest: nth_mem)

lemma exampleSession_bounds:
  "0 < Conversation_MaxSize (Conversation (State exampleSession))"
  "0 \<le> Conversation_MaxSize (Conversation (State exampleSession))"
  by code_simp+

lemma hungry_run:
  "map_option (\<lambda>t. (map snd (Turn_Calls t), Response_Error (Turn_Response t),
                     TokensUsed (Turn_Response t)))
     (ProcessInput (Some (scriptedProvider [] hungry)) 0 exampleSession exampleRng ''look'')
   = Some ([hungry, hungry, hungry, hungry, hungry], Some MaxIterations, 4611686018427387904)"
  by code_simp

lemma hungry_simps:
  "askedTools hungry" "tokensOf hungry = 4611686018427387904"
  by code_simp+

text \<open>
  Claim C3 as first stated (the response carries the sum of the token usage of all 5
  calls) fails where the addition wraps around: five responses with tool calls that
  report \<open>2^62\<close> tokens each end in the iteration limit with \<open>2^62\<close> tokens used, not
  \<open>5 * 2^62\<close>.
\<close>

theorem ProcessInput_totals_wrap_counterexample:
  "map_option (map (askedTools \<circ> snd) \<circ> Turn_Calls)
     (ProcessInput (Some (scriptedProvider [] hungry)) 0 exampleSession exampleRng ''look'')
     = Some [True, True, True, True, True]
   \<and> map_option (map (tokensOf \<circ> snd) \<circ> Turn_Calls)
     (ProcessInput (Some (scriptedProvider [] hungry)) 0 exampleSession exampleRng ''look'')
     = Some [4611686018427387904, 4611686018427387904, 4611686018427387904,
             4611686018427387904, 4611686018427387904]
   \<and> map_option (Response_Error \<circ> Turn_Response)
     (ProcessInput (Some (scriptedProvider [] hungry)) 0 exampleSession exampleRng ''look'')
     = Some (Some MaxIterations)
   \<and> map_option (TokensUsed \<circ> Turn_Response)
     (ProcessInput (Some (scriptedProvider [] hungry)) 0 exampleSession exampleRng ''look'')
     = Some 4611686018427387904
   \<and> 5 * 4611686018427387904 \<noteq> (4611686018427387904 :: int)"
proof -
  from hungry_run obtain t where
    t: "ProcessInput (Some (scriptedProvider [] hungry)) 0 exampleSession exampleRng ''look'' = Some t"
    "map snd (Turn_Calls t) = [hungry, hungry, hungry, hungry, hungry]"
    "Response_Error (Turn_Response t) = Some MaxIterations"
    "TokensUsed (Turn_Response t) = 4611686018427387904"
    by (cases "ProcessInput (Some (scriptedProvider [] hungry)) 0 exampleSession exampleRng ''look''")
       auto
  have a: "map (askedTools \<circ> snd) (Turn_Calls t) = map askedTools (map snd (Turn_Calls t))"
    "map (tokensOf \<circ> snd) (Turn_Calls t) = map tokensOf (map snd (Turn_Calls t))"
    by simp_all
  show ?thesis
    unfolding t(1) option.map comp_apply a t(2-4)
    by (simp add: hungry_simps)
qed

text \<open>
  The theorem at a provider that first calls \<^verbatim>\<open>update_gold\<close> and then narrates: two calls
  of \<^verbatim>\<open>Chat\<close>, no error, the narrative of the second response, 200 tokens and a latency
  of 70.
\<close>

theorem ProcessInput_round_trips_witness:
  "0 \<le> Conversation_MaxSize (Conversation (State exampleSession))
   \<and> 0 \<le> EventLog_MaxSize (EventLog (State exampleSession))
   \<and> (\<exists>t. ProcessInput (Some (scriptedProvider [findsGold] narrates)) 0 exampleSession
              exampleRng ''look'' = Some t
          \<and> map snd (Turn_Calls t) = [findsGold, narrates]
          \<and> askedTools findsGold \<and> answered narrates
          \<and> Response_Error (Turn_Response t) = None
          \<and> Narrative (Turn_Response t) = ''You find five gold coins.''
          \<and> TokensUsed (Turn_Response t) = 200 \<and> LatencyMs (Turn_Response t) = 70)"
proof -
  have tot: "\<forall>p req. fst (Chat (scriptedProvider [findsGold] narrates) p req) \<noteq> (None, None)"
    by (rule scriptedProvider_total) (simp_all add: findsGold_def narrates_def)
  have e: "map_option (map snd \<circ> Turn_Calls)
     (ProcessInput (Some (scriptedProvider [findsGold] narrates)) 0 exampleSession exampleRng ''look'')
     = Some [findsGold, narrates]"
    by code_simp
  have a: "askedTools findsGold" "answered narrates" "\<not> failed narrates"
    "contentOf narrates = ''You find five gold coins.''"
    "wrap64 (sum_list (map tokensOf [findsGold, narrates])) = 200"
    "wrap64 (sum_list (map latencyOf [findsGold, narrates])) = 70"
    by code_simp+
  from ProcessInput_round_trips[OF exampleSession_bounds(2) exampleSession_log(1) tot,
      of 0 exampleRng "''look''"]
  obtain t outs where
    r: "ProcessInput (Some (scriptedProvider [findsGold] narrates)) 0 exampleSession
              exampleRng ''look'' = Some t"
      "outs = map snd (Turn_Calls t)"
      "answered (last outs) \<longrightarrow>
            Response_Error (Turn_Response t) = None
          \<and> Narrative (Turn_Response t) = contentOf (last outs)"
      "\<not> failed (last outs) \<longrightarrow>
            TokensUsed (Turn_Response t) = wrap64 (sum_list (map tokensOf outs))
          \<and> LatencyMs (Turn_Response t) = wrap64 (sum_list (map latencyOf outs))
          \<and> (in_int64 (sum_list (map tokensOf outs)) \<longrightarrow>
                TokensUsed (Turn_Response t) = sum_list (map tokensOf outs))
          \<and> (in_int64 (sum_list (map latencyOf outs)) \<longrightarrow>
                LatencyMs (Turn_Response t) = sum_list (map latencyOf outs))"
    by blast
  from e r(1,2) have o: "outs = [findsGold, narrates]" by simp
  have l: "last outs = narrates" by (simp add: o)
  from r(3) a(2,4) l have x: "Response_Error (Turn_Response t) = None"
    "Narrative (Turn_Response t) = ''You find five gold coins.''" by simp_all
  from r(4) a(3) l have "TokensUsed (Turn_Response t) = wrap64 (sum_list (map tokensOf outs))"
    "LatencyMs (Turn_Response t) = wrap64 (sum_list (map latencyOf outs))" by simp_all
  then have y: "TokensUsed (Turn_Response t) = 200" "LatencyMs (Turn_Response t) = 70"
    using a(5,6) by (simp_all only: o)
  have m: "map snd (Turn_Calls t) = [findsGold, narrates]" using o r(2) by simp
  have "\<exists>t. ProcessInput (Some (scriptedProvider [findsGold] narrates)) 0 exampleSession
              exampleRng ''look'' = Some t
          \<and> map snd (Turn_Calls t) = [findsGold, narrates]
          \<and> askedTools findsGold \<and> answered narrates
          \<and> Response_Error (Turn_Response t) = None
          \<and> Narrative (Turn_Response t) = ''You find five gold coins.''
          \<and> TokensUsed (Turn_Response t) = 200 \<and> LatencyMs (Turn_Response t) = 70"
    by (rule exI[of _ t]) (intro conjI r(1) m a(1) a(2) x y)
  then show ?thesis
    by (intro conjI exampleSession_bounds(2) exampleSession_log(1))
qed


end
